theory Spec2Isabelle
  imports Complex_Main "HOL-Library.Word" "HOL-Library.Sublist"
begin

section \<open>Mesh snapping: data model\<close>

text \<open>
  The embedding follows \<^verbatim>\<open>transform_snap_object_mesh.cc\<close> and
  \<^verbatim>\<open>test_shader.cc\<close>.

  \<^item> \<^verbatim>\<open>float\<close> is a type variable \<open>'f\<close> that only carries the symbols the code
    uses (\<open>\<le>\<close>, \<open><\<close>, \<open>+\<close>, \<open>-\<close>, \<open>*\<close>, \<open>/\<close>, \<open>0\<close>); no law of arithmetic or of
    the order is assumed unless a theorem says so in its sort constraint.
  \<^item> \<^verbatim>\<open>float[3]\<close> is a triple, \<^verbatim>\<open>float[4][4]\<close> a function from row and column.
  \<^item> A raw pointer into an array (\<^verbatim>\<open>const int *corner_verts\<close>) is read without a
    bounds check in the code; it is the function from index to element.
  \<^item> An opaque pointer (\<^verbatim>\<open>BVHTree *\<close>, a list link) is an address; a pointer that
    may be null is an \<open>option\<close>.
  \<^item> Fields are prefixed with a short name of their struct, since several structs
    share field names (\<^verbatim>\<open>index\<close>, \<^verbatim>\<open>co\<close>, \<^verbatim>\<open>no\<close>).
\<close>

type_synonym 'f float3 = "'f \<times> 'f \<times> 'f"
type_synonym 'f float2 = "'f \<times> 'f"
type_synonym 'f float4 = "'f \<times> 'f \<times> 'f \<times> 'f"
type_synonym 'f float4x4 = "nat \<Rightarrow> nat \<Rightarrow> 'f"
type_synonym addr = nat

subsection \<open>Snap modes\<close>

text \<open>
  \<^verbatim>\<open>eSnapMode\<close> is a flag enumeration combined with \<^verbatim>\<open>|\<close> and tested with
  \<^verbatim>\<open>&\<close>. Its enumerators used here are distinct single bits, so a value is the set of
  its flags: \<^verbatim>\<open>|\<close> is union, \<^verbatim>\<open>&\<close> intersection, \<^verbatim>\<open>SCE_SNAP_TO_NONE\<close> the empty
  set, and a value is true in a condition when it is not empty.
\<close>

datatype snap_flag =
    TO_VERTEX | TO_EDGE | TO_FACE | TO_VOLUME | TO_EDGE_MIDPOINT
  | TO_EDGE_PERPENDICULAR | TO_INCREMENT | TO_GRID
  | INDIVIDUAL_NEAREST | INDIVIDUAL_PROJECT

type_synonym eSnapMode = "snap_flag set"

definition SCE_SNAP_TO_NONE :: eSnapMode where
  "SCE_SNAP_TO_NONE = {}"

definition SCE_SNAP_TO_VERTEX :: eSnapMode where
  "SCE_SNAP_TO_VERTEX = {TO_VERTEX}"

definition SCE_SNAP_TO_EDGE :: eSnapMode where
  "SCE_SNAP_TO_EDGE = {TO_EDGE}"

definition SCE_SNAP_TO_FACE :: eSnapMode where
  "SCE_SNAP_TO_FACE = {TO_FACE}"

definition SCE_SNAP_TO_EDGE_MIDPOINT :: eSnapMode where
  "SCE_SNAP_TO_EDGE_MIDPOINT = {TO_EDGE_MIDPOINT}"

definition SCE_SNAP_TO_EDGE_PERPENDICULAR :: eSnapMode where
  "SCE_SNAP_TO_EDGE_PERPENDICULAR = {TO_EDGE_PERPENDICULAR}"

definition SCE_SNAP_INDIVIDUAL_NEAREST :: eSnapMode where
  "SCE_SNAP_INDIVIDUAL_NEAREST = {INDIVIDUAL_NEAREST}"

subsection \<open>Mesh, object, BVH structures\<close>

record MLoopTri =
  tri :: "nat \<Rightarrow> int"

record 'f Mesh =
  me_addr :: addr
  totvert :: int
  totedge :: int
  totpoly :: int
  vert_positions :: "int \<Rightarrow> 'f float3"
  vert_normals :: "int \<Rightarrow> 'f float3"
  edges :: "int \<Rightarrow> int \<times> int"
  corner_verts :: "int \<Rightarrow> int"
  corner_edges :: "int \<Rightarrow> int"
  looptris :: "int \<Rightarrow> MLoopTri"
  looptri_polys :: "int \<Rightarrow> int"

record Object =
  ob_data :: addr

record 'f BoundBox =
  vec :: "nat \<Rightarrow> 'f float3"

record 'f BVHTreeRay =
  ray_origin :: "'f float3"
  ray_direction :: "'f float3"
  ray_radius :: 'f

record 'f BVHTreeRayHit =
  hit_index :: int
  hit_co :: "'f float3"
  hit_no :: "'f float3"
  hit_dist :: 'f

record 'f BVHTreeNearest =
  nearest_index :: int
  nearest_co :: "'f float3"
  nearest_no :: "'f float3"
  nearest_dist_sq :: 'f

record 'f DistProjectedAABBPrecalc =
  precalc_ray_direction :: "'f float3"

type_synonym 'f BVHTree_RayCastCallback =
  "int \<Rightarrow> 'f BVHTreeRay \<Rightarrow> 'f BVHTreeRayHit \<Rightarrow> 'f BVHTreeRayHit"

type_synonym 'f BVHTree_NearestPointCallback =
  "int \<Rightarrow> 'f float3 \<Rightarrow> 'f BVHTreeNearest \<Rightarrow> 'f BVHTreeNearest"

type_synonym 'f BVHTree_NearestProjectedCallback =
  "int \<Rightarrow> 'f DistProjectedAABBPrecalc \<Rightarrow> 'f float4 list \<Rightarrow> 'f BVHTreeNearest
     \<Rightarrow> 'f BVHTreeNearest"

datatype BVHCacheType =
    BVHTREE_FROM_LOOPTRI | BVHTREE_FROM_LOOPTRI_NO_HIDDEN
  | BVHTREE_FROM_LOOSEEDGES | BVHTREE_FROM_LOOSEVERTS

record 'f BVHTreeFromMesh =
  bvh_tree :: "addr option"
  bvh_raycast_callback :: "'f BVHTree_RayCastCallback"
  bvh_nearest_callback :: "'f BVHTree_NearestPointCallback"
  bvh_vert_positions :: "int \<Rightarrow> 'f float3"
  bvh_corner_verts :: "int \<Rightarrow> int"
  bvh_looptri :: "int \<Rightarrow> MLoopTri"

subsection \<open>Snap context\<close>

record SnapObjectParams =
  use_backface_culling :: bool

record 'f SnapRuntime =
  ray_start :: "'f float3"
  ray_dir :: "'f float3"
  snap_to_flag :: eSnapMode
  params :: SnapObjectParams
  object_index :: "32 word"
  win_size :: "'f float2"
  mval :: "'f float2"

record 'f SnapRet =
  ret_loc :: "'f float3"
  ret_no :: "'f float3"
  ret_index :: int
  ray_depth_max :: 'f
  dist_px_sq :: 'f
  hit_list :: "addr list option"

record 'f SnapObjectContext =
  runtime :: "'f SnapRuntime"
  ret :: "'f SnapRet"

record 'f RayCastAll_Data =
  rca_bvhdata :: "'f BVHTreeFromMesh"
  rca_obmat :: "'f float4x4"
  rca_len_diff :: 'f
  rca_local_scale :: 'f
  rca_ob_uuid :: "32 word"

record 'f Nearest2dUserData =
  pmat_local :: "'f float4x4"
  clip_planes :: "'f float4 list"
  n2d_use_backface_culling :: bool
  nearest_point :: "'f BVHTreeNearest"

record 'f Nearest2dUserData_Mesh = "'f Nearest2dUserData" +
  n2d_mesh :: "'f Mesh"

subsection \<open>Functions and macros declared outside the two files\<close>

text \<open>
  The functions below are called by the snapping code but defined elsewhere (math
  library, BVH library, the base class \<^verbatim>\<open>Nearest2dUserData\<close>). They are the fields
  of one record that every embedded function takes as its first argument, so each
  theorem holds for whatever these functions compute. An out-parameter is part of
  the result; a \<^verbatim>\<open>bool\<close> result with an out-parameter written only on success is
  an \<open>option\<close>. A callback's \<^verbatim>\<open>userdata\<close> is bound in the closure passed. The
  macro \<^verbatim>\<open>BVH_RAYCAST_DIST_MAX\<close> and the literal \<^verbatim>\<open>400.0f\<close> are two values of the
  type of floats. \<^verbatim>\<open>snap_polygon_mesh\<close> and \<^verbatim>\<open>snap_edge_points_mesh\<close> are not used
  by the functions embedded here and are left out.
\<close>

record 'f ext =
  BVH_RAYCAST_DIST_MAX :: 'f
  float_400 :: 'f
  invert_m4_m4 :: "'f float4x4 \<Rightarrow> 'f float4x4"
  mul_m4_v3 :: "'f float4x4 \<Rightarrow> 'f float3 \<Rightarrow> 'f float3"
  mul_mat3_m4_v3 :: "'f float4x4 \<Rightarrow> 'f float3 \<Rightarrow> 'f float3"
  mul_transposed_mat3_m4_v3 :: "'f float4x4 \<Rightarrow> 'f float3 \<Rightarrow> 'f float3"
  normalize_v3 :: "'f float3 \<Rightarrow> 'f \<times> 'f float3"
  normalize_v3_v3 :: "'f float3 \<Rightarrow> 'f \<times> 'f float3"
  madd_v3_v3fl :: "'f float3 \<Rightarrow> 'f float3 \<Rightarrow> 'f \<Rightarrow> 'f float3"
  madd_v3_v3v3fl :: "'f float3 \<Rightarrow> 'f float3 \<Rightarrow> 'f \<Rightarrow> 'f float3"
  isect_ray_aabb_v3_simple ::
    "'f float3 \<Rightarrow> 'f float3 \<Rightarrow> 'f float3 \<Rightarrow> 'f float3 \<Rightarrow> 'f option"
  bvhtree_ray_tri_intersection ::
    "'f BVHTreeRay \<Rightarrow> 'f \<Rightarrow> 'f float3 \<Rightarrow> 'f float3 \<Rightarrow> 'f float3 \<Rightarrow> 'f"
  raycast_tri_backface_culling_test ::
    "'f float3 \<Rightarrow> 'f float3 \<Rightarrow> 'f float3 \<Rightarrow> 'f float3 \<Rightarrow> bool \<times> 'f float3"
  BKE_object_boundbox_get :: "Object \<Rightarrow> 'f BoundBox option"
  BKE_mesh_boundbox_get :: "Object \<Rightarrow> 'f BoundBox"
  BKE_bvhtree_from_mesh_get :: "'f Mesh \<Rightarrow> BVHCacheType \<Rightarrow> int \<Rightarrow> 'f BVHTreeFromMesh"
  BLI_bvhtree_ray_cast ::
    "addr \<Rightarrow> 'f float3 \<Rightarrow> 'f float3 \<Rightarrow> 'f \<Rightarrow> 'f BVHTreeRayHit
       \<Rightarrow> 'f BVHTree_RayCastCallback \<Rightarrow> int \<times> 'f BVHTreeRayHit"
  BLI_bvhtree_ray_cast_all ::
    "addr \<Rightarrow> 'f float3 \<Rightarrow> 'f float3 \<Rightarrow> 'f \<Rightarrow> 'f \<Rightarrow> 'f RayCastAll_Data
       \<Rightarrow> addr list \<Rightarrow> addr list"
  nearest_world_tree ::
    "'f SnapObjectContext \<Rightarrow> addr \<Rightarrow> 'f BVHTree_NearestPointCallback
       \<Rightarrow> 'f BVHTreeFromMesh \<Rightarrow> 'f float4x4 \<Rightarrow> bool \<times> 'f SnapObjectContext"
  Nearest2dUserData_ctor ::
    "'f SnapObjectContext \<Rightarrow> Object \<Rightarrow> addr \<Rightarrow> 'f float4x4 \<Rightarrow> 'f Nearest2dUserData"
  clip_planes_enable :: "'f Nearest2dUserData_Mesh \<Rightarrow> 'f Nearest2dUserData_Mesh"
  snap_boundbox :: "'f Nearest2dUserData_Mesh \<Rightarrow> 'f float3 \<Rightarrow> 'f float3 \<Rightarrow> bool"
  BLI_bvhtree_find_nearest_projected ::
    "addr \<Rightarrow> 'f float4x4 \<Rightarrow> 'f float2 \<Rightarrow> 'f float2 \<Rightarrow> 'f float4 list
       \<Rightarrow> 'f BVHTreeNearest \<Rightarrow> 'f BVHTree_NearestProjectedCallback \<Rightarrow> 'f BVHTreeNearest"
  cb_snap_vert :: "'f Nearest2dUserData_Mesh \<Rightarrow> 'f BVHTree_NearestProjectedCallback"
  cb_snap_edge :: "'f Nearest2dUserData_Mesh \<Rightarrow> 'f BVHTree_NearestProjectedCallback"

section \<open>Ray casting\<close>

definition snap_object_data_mesh_get ::
  "'f ext \<Rightarrow> 'f Mesh \<Rightarrow> bool \<Rightarrow> 'f BVHTreeFromMesh" where
  "snap_object_data_mesh_get X me_eval use_hide =
     BKE_bvhtree_from_mesh_get X me_eval
       (if use_hide then BVHTREE_FROM_LOOPTRI_NO_HIDDEN else BVHTREE_FROM_LOOPTRI) 4"

definition mesh_looptri_raycast_backface_culling_cb ::
  "('f::{ord,zero}) ext \<Rightarrow> 'f BVHTreeFromMesh \<Rightarrow> 'f BVHTree_RayCastCallback" where
  "mesh_looptri_raycast_backface_culling_cb X data index ray hit =
     (let lt = bvh_looptri data index;
          v0 = bvh_vert_positions data (bvh_corner_verts data (tri lt 0));
          v1 = bvh_vert_positions data (bvh_corner_verts data (tri lt 1));
          v2 = bvh_vert_positions data (bvh_corner_verts data (tri lt 2));
          dist = bvhtree_ray_tri_intersection X ray (hit_dist hit) v0 v1 v2
      in if 0 \<le> dist \<and> dist < hit_dist hit then
           (case raycast_tri_backface_culling_test X (ray_direction ray) v0 v1 v2 of
              (pass, no) \<Rightarrow>
                if pass then
                  hit\<lparr>hit_index := index,
                      hit_dist := dist,
                      hit_co := madd_v3_v3v3fl X (ray_origin ray) (ray_direction ray) dist,
                      hit_no := snd (normalize_v3_v3 X no)\<rparr>
                else hit)
         else hit)"

text \<open>\<^verbatim>\<open>ListBase.last\<close>: the address of the last link, null for an empty list.\<close>

definition listbase_last :: "addr list \<Rightarrow> addr option" where
  "listbase_last xs = (if xs = [] then None else Some (last xs))"

text \<open>
  The local variables of \<^verbatim>\<open>raycastMesh\<close> once the ray is in object space and the
  bounding box has been tested (lines 103 to 146): \<open>None\<close> when the bounding-box test
  makes the function return.
\<close>

record 'f raycast_locals =
  rl_imat :: "'f float4x4"
  rl_ray_start_local :: "'f float3"
  rl_ray_normal_local :: "'f float3"
  rl_local_scale :: 'f
  rl_local_depth :: 'f
  rl_len_diff :: 'f

definition raycastMesh_locals ::
  "('f::{ord,zero,plus,minus,times,inverse}) ext \<Rightarrow> 'f SnapObjectContext \<Rightarrow> Object \<Rightarrow> 'f Mesh
     \<Rightarrow> 'f float4x4 \<Rightarrow> 'f raycast_locals option" where
  "raycastMesh_locals X sctx ob_eval me_eval obmat =
     (let imat = invert_m4_m4 X obmat;
          ray_start_local = mul_m4_v3 X imat (ray_start (runtime sctx));
          (local_scale, ray_normal_local) =
             normalize_v3 X (mul_mat3_m4_v3 X imat (ray_dir (runtime sctx)));
          local_depth = ray_depth_max (ret sctx);
          local_depth = (if local_depth \<noteq> BVH_RAYCAST_DIST_MAX X
                         then local_depth * local_scale else local_depth);
          bb_test =
            (if ob_data ob_eval = me_addr me_eval then
               (case BKE_object_boundbox_get X ob_eval of
                  None \<Rightarrow> Some 0
                | Some bb \<Rightarrow>
                    isect_ray_aabb_v3_simple X ray_start_local ray_normal_local
                      (vec bb 0) (vec bb 6))
             else Some 0)
      in case bb_test of
           None \<Rightarrow> None
         | Some len_diff0 \<Rightarrow>
             Some (if float_400 X < len_diff0 then
                     (let len_diff = len_diff0 - local_scale
                      in \<lparr>rl_imat = imat,
                          rl_ray_start_local =
                            madd_v3_v3fl X ray_start_local ray_normal_local len_diff,
                          rl_ray_normal_local = ray_normal_local,
                          rl_local_scale = local_scale,
                          rl_local_depth = local_depth - len_diff,
                          rl_len_diff = len_diff\<rparr>)
                   else
                     \<lparr>rl_imat = imat, rl_ray_start_local = ray_start_local,
                      rl_ray_normal_local = ray_normal_local, rl_local_scale = local_scale,
                      rl_local_depth = local_depth, rl_len_diff = 0\<rparr>))"

text \<open>\<^verbatim>\<open>BVHTreeRayHit hit{}\<close> is zero-initialised before its two assignments.\<close>

definition raycastMesh ::
  "('f::{ord,zero,plus,minus,times,inverse}) ext \<Rightarrow> 'f SnapObjectContext \<Rightarrow> Object \<Rightarrow> 'f Mesh
     \<Rightarrow> 'f float4x4 \<Rightarrow> 32 word \<Rightarrow> bool \<Rightarrow> bool \<times> 'f SnapObjectContext" where
  "raycastMesh X sctx ob_eval me_eval obmat ob_index use_hide =
     (if totpoly me_eval = 0 then (False, sctx)
      else
        case raycastMesh_locals X sctx ob_eval me_eval obmat of
          None \<Rightarrow> (False, sctx)
        | Some L \<Rightarrow>
            let treedata = snap_object_data_mesh_get X me_eval use_hide
            in case bvh_tree treedata of
                 None \<Rightarrow> (False, sctx)
               | Some tree \<Rightarrow>
                   (case hit_list (ret sctx) of
                      Some hl \<Rightarrow>
                        let data = \<lparr>rca_bvhdata = treedata, rca_obmat = obmat,
                                    rca_len_diff = rl_len_diff L,
                                    rca_local_scale = rl_local_scale L,
                                    rca_ob_uuid = ob_index\<rparr>;
                            hl' = BLI_bvhtree_ray_cast_all X tree (rl_ray_start_local L)
                                    (rl_ray_normal_local L) 0 (ray_depth_max (ret sctx)) data hl
                        in (listbase_last hl \<noteq> listbase_last hl',
                            sctx\<lparr>ret := (ret sctx)\<lparr>hit_list := Some hl'\<rparr>\<rparr>)
                    | None \<Rightarrow>
                        let hit0 = \<lparr>hit_index = - 1, hit_co = (0, 0, 0), hit_no = (0, 0, 0),
                                    hit_dist = rl_local_depth L\<rparr>;
                            (r, hit) =
                               BLI_bvhtree_ray_cast X tree (rl_ray_start_local L)
                                 (rl_ray_normal_local L) 0 hit0
                                 (if use_backface_culling (params (runtime sctx))
                                  then mesh_looptri_raycast_backface_culling_cb X treedata
                                  else bvh_raycast_callback treedata)
                        in if r \<noteq> - 1 then
                             let dist = (hit_dist hit + rl_len_diff L) / rl_local_scale L
                             in if dist \<le> ray_depth_max (ret sctx) then
                                  (True,
                                   sctx\<lparr>ret := (ret sctx)
                                     \<lparr>ret_loc := mul_m4_v3 X obmat (hit_co hit),
                                      ret_no := snd (normalize_v3 X
                                         (mul_transposed_mat3_m4_v3 X (rl_imat L) (hit_no hit))),
                                      ray_depth_max := dist,
                                      ret_index := looptri_polys me_eval (hit_index hit)\<rparr>\<rparr>)
                                else (False, sctx)
                           else (False, sctx)))"

section \<open>Surface snap\<close>

definition nearest_world_mesh ::
  "'f ext \<Rightarrow> 'f SnapObjectContext \<Rightarrow> 'f Mesh \<Rightarrow> 'f float4x4 \<Rightarrow> bool
     \<Rightarrow> bool \<times> 'f SnapObjectContext" where
  "nearest_world_mesh X sctx me_eval obmat use_hide =
     (let treedata = snap_object_data_mesh_get X me_eval use_hide
      in case bvh_tree treedata of
           None \<Rightarrow> (False, sctx)
         | Some tree \<Rightarrow>
             nearest_world_tree X sctx tree (bvh_nearest_callback treedata) treedata obmat)"

section \<open>Snapping to edges or points of a mesh\<close>

subsection \<open>The class \<^verbatim>\<open>Nearest2dUserData_Mesh\<close>\<close>

text \<open>
  The constructor runs the base-class constructor and copies the array pointers of
  the mesh; the object keeps the mesh in \<open>n2d_mesh\<close>, and \<^verbatim>\<open>this->edges\<close> is
  \<open>edges (n2d_mesh data)\<close>.
\<close>

definition Nearest2dUserData_Mesh_ctor ::
  "'f ext \<Rightarrow> 'f SnapObjectContext \<Rightarrow> Object \<Rightarrow> 'f Mesh \<Rightarrow> 'f float4x4
     \<Rightarrow> 'f Nearest2dUserData_Mesh" where
  "Nearest2dUserData_Mesh_ctor X sctx ob_eval id_eval obmat =
     (let base = Nearest2dUserData_ctor X sctx ob_eval (me_addr id_eval) obmat
      in \<lparr>pmat_local = pmat_local base,
          clip_planes = clip_planes base,
          n2d_use_backface_culling = n2d_use_backface_culling base,
          nearest_point = nearest_point base,
          n2d_mesh = id_eval\<rparr>)"

definition get_vert_co :: "'f Nearest2dUserData_Mesh \<Rightarrow> int \<Rightarrow> 'f float3" where
  "get_vert_co data index = vert_positions (n2d_mesh data) index"

definition get_edge_verts_index :: "'f Nearest2dUserData_Mesh \<Rightarrow> int \<Rightarrow> int list" where
  "get_edge_verts_index data index =
     (let edge = edges (n2d_mesh data) index in [fst edge, snd edge])"

definition get_tri_verts_index :: "'f Nearest2dUserData_Mesh \<Rightarrow> int \<Rightarrow> int list" where
  "get_tri_verts_index data index =
     (let looptri = looptris (n2d_mesh data) index
      in [corner_verts (n2d_mesh data) (tri looptri 0),
          corner_verts (n2d_mesh data) (tri looptri 1),
          corner_verts (n2d_mesh data) (tri looptri 2)])"

text \<open>
  \<^verbatim>\<open>ELEM(a, b, c)\<close> is \<^verbatim>\<open>a == b || a == c\<close>. The loop of \<^verbatim>\<open>get_tri_edges_index\<close>
  runs \<^verbatim>\<open>(j, j_next)\<close> through \<open>(2, 0)\<close>, \<open>(0, 1)\<close>, \<open>(1, 2)\<close> and writes
  \<^verbatim>\<open>r_e_index[j]\<close>; the array written is an argument, as in the code.
\<close>

definition ELEM :: "int \<Rightarrow> int \<Rightarrow> int \<Rightarrow> bool" where
  "ELEM a b c \<longleftrightarrow> a = b \<or> a = c"

function get_tri_edges_index_loop ::
  "'f Nearest2dUserData_Mesh \<Rightarrow> MLoopTri \<Rightarrow> nat \<Rightarrow> nat \<Rightarrow> int list \<Rightarrow> int list" where
  "get_tri_edges_index_loop data lt j j_next r_e_index =
     (if j_next < 3 then
        let edge = edges (n2d_mesh data) (corner_edges (n2d_mesh data) (tri lt j));
            tri_edge = [corner_verts (n2d_mesh data) (tri lt j),
                        corner_verts (n2d_mesh data) (tri lt j_next)]
        in get_tri_edges_index_loop data lt j_next (j_next + 1)
             (r_e_index[j :=
                (if ELEM (fst edge) (tri_edge ! 0) (tri_edge ! 1) \<and>
                    ELEM (snd edge) (tri_edge ! 0) (tri_edge ! 1)
                 then corner_edges (n2d_mesh data) (tri lt j)
                 else - 1)])
      else r_e_index)"
  by pat_completeness auto
termination
  by (relation "measure (\<lambda>(data, lt, j, j_next, r). 3 - j_next)") auto

declare get_tri_edges_index_loop.simps [simp del]

definition get_tri_edges_index ::
  "'f Nearest2dUserData_Mesh \<Rightarrow> int \<Rightarrow> int list \<Rightarrow> int list" where
  "get_tri_edges_index data index r_e_index =
     get_tri_edges_index_loop data (looptris (n2d_mesh data) index) 2 0 r_e_index"

definition copy_vert_no :: "'f Nearest2dUserData_Mesh \<Rightarrow> int \<Rightarrow> 'f float3" where
  "copy_vert_no data index = vert_normals (n2d_mesh data) index"

subsection \<open>Callbacks of the projected nearest search\<close>

text \<open>
  \<^verbatim>\<open>for (int i = n; i--;)\<close> runs its body for \<open>i = n - 1, \<dots>, 0\<close>. The first loop
  function is the body shared by \<^verbatim>\<open>cb_snap_edge_verts\<close> (\<open>n = 2\<close>) and
  \<^verbatim>\<open>cb_snap_tri_verts\<close> (\<open>n = 3\<close>), the second that of \<^verbatim>\<open>cb_snap_tri_edges\<close>.
\<close>

primrec cb_snap_verts_loop ::
  "(int \<Rightarrow> 'f BVHTreeNearest \<Rightarrow> 'f BVHTreeNearest) \<Rightarrow> int list \<Rightarrow> nat
     \<Rightarrow> 'f BVHTreeNearest \<Rightarrow> 'f BVHTreeNearest" where
  "cb_snap_verts_loop cb vindex 0 nearest = nearest"
| "cb_snap_verts_loop cb vindex (Suc i) nearest =
     cb_snap_verts_loop cb vindex i
       (if vindex ! i = nearest_index nearest then nearest
        else cb (vindex ! i) nearest)"

primrec cb_snap_tri_edges_loop ::
  "(int \<Rightarrow> 'f BVHTreeNearest \<Rightarrow> 'f BVHTreeNearest) \<Rightarrow> int list \<Rightarrow> nat
     \<Rightarrow> 'f BVHTreeNearest \<Rightarrow> 'f BVHTreeNearest" where
  "cb_snap_tri_edges_loop cb eindex 0 nearest = nearest"
| "cb_snap_tri_edges_loop cb eindex (Suc i) nearest =
     cb_snap_tri_edges_loop cb eindex i
       (if eindex ! i \<noteq> - 1 then
          (if eindex ! i = nearest_index nearest then nearest
           else cb (eindex ! i) nearest)
        else nearest)"

definition cb_snap_edge_verts ::
  "'f ext \<Rightarrow> 'f Nearest2dUserData_Mesh \<Rightarrow> 'f BVHTree_NearestProjectedCallback" where
  "cb_snap_edge_verts X data index precalc clip_plane nearest =
     (let vindex = get_edge_verts_index data index
      in cb_snap_verts_loop (\<lambda>v. cb_snap_vert X data v precalc clip_plane) vindex 2 nearest)"

definition tri_backface_culled ::
  "'f ext \<Rightarrow> 'f Nearest2dUserData_Mesh \<Rightarrow> 'f DistProjectedAABBPrecalc \<Rightarrow> int list \<Rightarrow> bool"
  where
  "tri_backface_culled X data precalc vindex =
     (let t0 = get_vert_co data (vindex ! 0);
          t1 = get_vert_co data (vindex ! 1);
          t2 = get_vert_co data (vindex ! 2)
      in fst (raycast_tri_backface_culling_test X (precalc_ray_direction precalc) t0 t1 t2))"

definition cb_snap_tri_verts ::
  "'f ext \<Rightarrow> 'f Nearest2dUserData_Mesh \<Rightarrow> 'f BVHTree_NearestProjectedCallback" where
  "cb_snap_tri_verts X data index precalc clip_plane nearest =
     (let vindex = get_tri_verts_index data index
      in if n2d_use_backface_culling data \<and> tri_backface_culled X data precalc vindex
         then nearest
         else cb_snap_verts_loop (\<lambda>v. cb_snap_vert X data v precalc clip_plane) vindex 3
                nearest)"

definition cb_snap_tri_edges ::
  "'f ext \<Rightarrow> 'f Nearest2dUserData_Mesh \<Rightarrow> 'f BVHTree_NearestProjectedCallback" where
  "cb_snap_tri_edges X data index precalc clip_plane nearest =
     (if n2d_use_backface_culling data \<and>
         tri_backface_culled X data precalc (get_tri_verts_index data index)
      then nearest
      else
        let eindex = get_tri_edges_index data index [0, 0, 0]
        in cb_snap_tri_edges_loop (\<lambda>e. cb_snap_edge X data e precalc clip_plane) eindex 3
             nearest)"

subsection \<open>\<^verbatim>\<open>snapMesh\<close>\<close>

definition find_nearest_projected ::
  "'f ext \<Rightarrow> 'f SnapObjectContext \<Rightarrow> 'f Nearest2dUserData_Mesh \<Rightarrow> addr
     \<Rightarrow> 'f BVHTree_NearestProjectedCallback \<Rightarrow> 'f BVHTreeNearest \<Rightarrow> 'f BVHTreeNearest" where
  "find_nearest_projected X sctx nearest2d tree callback nearest =
     BLI_bvhtree_find_nearest_projected X tree (pmat_local nearest2d)
       (win_size (runtime sctx)) (mval (runtime sctx)) (clip_planes nearest2d) nearest callback"

text \<open>
  The searches of \<^verbatim>\<open>snapMesh\<close> (lines 492 to 590), from the trees to the nearest
  element found and the kind of element; \<^verbatim>\<open>BVHTreeNearest nearest{}\<close> is
  zero-initialised before its two assignments. The object \<open>nearest2d\<close> received
  already has its clip planes enabled (line 503): fetching the trees and enabling the
  clip planes do not depend on each other.
\<close>

definition snapMesh_search ::
  "('f::zero) ext \<Rightarrow> 'f SnapObjectContext \<Rightarrow> 'f Mesh \<Rightarrow> 'f Nearest2dUserData_Mesh \<Rightarrow> bool
     \<Rightarrow> 'f BVHTreeNearest \<times> eSnapMode" where
  "snapMesh_search X sctx me_eval nearest2d use_hide =
     (let treedata = snap_object_data_mesh_get X me_eval use_hide;
          bvhtree0 = bvh_tree (BKE_bvhtree_from_mesh_get X me_eval BVHTREE_FROM_LOOSEEDGES 2);
          bvhtree1 =
            (if snap_to_flag (runtime sctx) \<inter> SCE_SNAP_TO_VERTEX \<noteq> {}
             then bvh_tree (BKE_bvhtree_from_mesh_get X me_eval BVHTREE_FROM_LOOSEVERTS 2)
             else None);
          nearest = \<lparr>nearest_index = - 1, nearest_co = (0, 0, 0), nearest_no = (0, 0, 0),
                     nearest_dist_sq = dist_px_sq (ret sctx)\<rparr>;
          last_index = nearest_index nearest;
          (nearest, last_index) =
            (case bvhtree1 of
               Some t \<Rightarrow>
                 (let nearest = find_nearest_projected X sctx nearest2d t
                                  (cb_snap_vert X nearest2d) nearest
                  in (nearest, nearest_index nearest))
             | None \<Rightarrow> (nearest, last_index))
      in if snap_to_flag (runtime sctx) \<inter> SCE_SNAP_TO_EDGE \<noteq> {} then
           let nearest =
                 (case bvhtree0 of
                    Some t \<Rightarrow> find_nearest_projected X sctx nearest2d t
                                (cb_snap_edge X nearest2d) nearest
                  | None \<Rightarrow> nearest);
               nearest =
                 (case bvh_tree treedata of
                    Some t \<Rightarrow> find_nearest_projected X sctx nearest2d t
                                (cb_snap_tri_edges X nearest2d) nearest
                  | None \<Rightarrow> nearest)
           in (nearest,
               if last_index \<noteq> nearest_index nearest then SCE_SNAP_TO_EDGE
               else SCE_SNAP_TO_VERTEX)
         else
           let nearest =
                 (case bvhtree0 of
                    Some t \<Rightarrow> find_nearest_projected X sctx nearest2d t
                                (cb_snap_edge_verts X nearest2d) nearest
                  | None \<Rightarrow> nearest);
               nearest =
                 (case bvh_tree treedata of
                    Some t \<Rightarrow> find_nearest_projected X sctx nearest2d t
                                (cb_snap_tri_verts X nearest2d) nearest
                  | None \<Rightarrow> nearest)
           in (nearest, SCE_SNAP_TO_VERTEX))"

text \<open>
  The result of \<^verbatim>\<open>snapMesh\<close> is the snap element returned together with the local
  object \<^verbatim>\<open>nearest2d\<close> as it is when the function returns (\<open>None\<close> when the function
  returns before constructing it). The function has no assignment to \<^verbatim>\<open>*sctx\<close>.
  \<^verbatim>\<open>BLI_assert\<close> is empty in a release build and is not modelled.
\<close>

definition snapMesh ::
  "('f::zero) ext \<Rightarrow> 'f SnapObjectContext \<Rightarrow> Object \<Rightarrow> 'f Mesh \<Rightarrow> 'f float4x4 \<Rightarrow> bool
     \<Rightarrow> eSnapMode \<times> 'f Nearest2dUserData_Mesh option" where
  "snapMesh X sctx ob_eval me_eval obmat use_hide =
     (if totvert me_eval = 0 then (SCE_SNAP_TO_NONE, None)
      else if totedge me_eval = 0 \<and>
              \<not> (snap_to_flag (runtime sctx) \<inter> SCE_SNAP_TO_VERTEX \<noteq> {})
      then (SCE_SNAP_TO_NONE, None)
      else
        let nearest2d = Nearest2dUserData_Mesh_ctor X sctx ob_eval me_eval obmat
        in if ob_data ob_eval = me_addr me_eval \<and>
              \<not> snap_boundbox X nearest2d (vec (BKE_mesh_boundbox_get X ob_eval) 0)
                   (vec (BKE_mesh_boundbox_get X ob_eval) 6)
           then (SCE_SNAP_TO_NONE, Some nearest2d)
           else
             let nearest2d = clip_planes_enable X nearest2d;
                 (nearest, elem) = snapMesh_search X sctx me_eval nearest2d use_hide
             in if nearest_index nearest \<noteq> - 1
                then (elem, Some (nearest2d\<lparr>nearest_point := nearest\<rparr>))
                else (SCE_SNAP_TO_NONE, Some nearest2d))"

section \<open>\<^verbatim>\<open>snap_object_mesh\<close>\<close>

definition mesh_snap_mode_supported :: "'f Mesh \<Rightarrow> eSnapMode" where
  "mesh_snap_mode_supported mesh =
     (let snap_mode_supported = SCE_SNAP_TO_NONE;
          snap_mode_supported =
            (if totpoly mesh \<noteq> 0
             then snap_mode_supported \<union> (SCE_SNAP_TO_FACE \<union> SCE_SNAP_INDIVIDUAL_NEAREST)
             else snap_mode_supported);
          snap_mode_supported =
            (if totedge mesh \<noteq> 0
             then snap_mode_supported \<union>
                  (SCE_SNAP_TO_EDGE \<union> SCE_SNAP_TO_EDGE_MIDPOINT \<union>
                   SCE_SNAP_TO_EDGE_PERPENDICULAR)
             else snap_mode_supported);
          snap_mode_supported =
            (if totvert mesh \<noteq> 0 then snap_mode_supported \<union> SCE_SNAP_TO_VERTEX
             else snap_mode_supported)
      in snap_mode_supported)"

text \<open>
  \<^verbatim>\<open>sctx->runtime.object_index++\<close> as an argument: the call receives the old value and
  the context already holds the incremented one. Besides the value returned and the
  context, the embedding yields the calls made to the three snapping functions, in
  the order made, each with whether it succeeded (a snap element other than
  \<^verbatim>\<open>SCE_SNAP_TO_NONE\<close>, or \<^verbatim>\<open>true\<close>).
\<close>

datatype snap_stage = SnapMesh | RaycastMesh | NearestWorldMesh

definition snap_object_mesh_calls ::
  "('f::{ord,zero,plus,minus,times,inverse}) ext \<Rightarrow> 'f SnapObjectContext \<Rightarrow> Object
     \<Rightarrow> 'f Mesh \<Rightarrow> 'f float4x4 \<Rightarrow> eSnapMode \<Rightarrow> bool
     \<Rightarrow> eSnapMode \<times> 'f SnapObjectContext \<times> (snap_stage \<times> bool) list" where
  "snap_object_mesh_calls X sctx ob_eval me_eval obmat snap_to_flag' use_hide =
     (let snap_mode_used = snap_to_flag' \<inter> mesh_snap_mode_supported me_eval;
          (elem, calls) =
            (if snap_mode_used \<inter>
                (SCE_SNAP_TO_EDGE \<union> SCE_SNAP_TO_EDGE_MIDPOINT \<union>
                 SCE_SNAP_TO_EDGE_PERPENDICULAR \<union> SCE_SNAP_TO_VERTEX) \<noteq> {}
             then (let elem = fst (snapMesh X sctx ob_eval me_eval obmat use_hide)
                   in (elem, [(SnapMesh, elem \<noteq> {})]))
             else (SCE_SNAP_TO_NONE, []))
      in if elem \<noteq> {} then (elem, sctx, calls)
         else
           let (hit, sctx, calls) =
                 (if snap_mode_used \<inter> SCE_SNAP_TO_FACE \<noteq> {} then
                    (let (hit, sctx) =
                           raycastMesh X
                             (sctx\<lparr>runtime := (runtime sctx)
                                \<lparr>object_index := object_index (runtime sctx) + 1\<rparr>\<rparr>)
                             ob_eval me_eval obmat (object_index (runtime sctx)) use_hide
                     in (hit, sctx, calls @ [(RaycastMesh, hit)]))
                  else (False, sctx, calls))
           in if hit then (SCE_SNAP_TO_FACE, sctx, calls)
              else
                let (hit, sctx, calls) =
                      (if snap_mode_used \<inter> SCE_SNAP_INDIVIDUAL_NEAREST \<noteq> {} then
                         (let (hit, sctx) = nearest_world_mesh X sctx me_eval obmat use_hide
                          in (hit, sctx, calls @ [(NearestWorldMesh, hit)]))
                       else (False, sctx, calls))
                in if hit then (SCE_SNAP_INDIVIDUAL_NEAREST, sctx, calls)
                   else (SCE_SNAP_TO_NONE, sctx, calls))"

definition snap_object_mesh ::
  "('f::{ord,zero,plus,minus,times,inverse}) ext \<Rightarrow> 'f SnapObjectContext \<Rightarrow> Object
     \<Rightarrow> 'f Mesh \<Rightarrow> 'f float4x4 \<Rightarrow> eSnapMode \<Rightarrow> bool \<Rightarrow> eSnapMode \<times> 'f SnapObjectContext" where
  "snap_object_mesh X sctx ob_eval me_eval obmat snap_to_flag' use_hide =
     (case snap_object_mesh_calls X sctx ob_eval me_eval obmat snap_to_flag' use_hide of
        (elem, sctx, calls) \<Rightarrow> (elem, sctx))"

section \<open>The shader node \<^verbatim>\<open>Shader Test\<close>\<close>

subsection \<open>Node declaration\<close>

text \<open>
  A \<^verbatim>\<open>float\<close> literal of the declaration denotes the decimal number written.
  The parameter \<^verbatim>\<open>execdata\<close> of the GPU function is unnamed in the code and left out.
\<close>

datatype decl_type = decl_Color | decl_Float | decl_Vector | decl_Shader

datatype PropertySubType = PROP_NONE | PROP_FACTOR

datatype socket_value = ColorValue real real real real | FloatValue real

record SocketDeclaration =
  sd_name :: string
  sd_type :: decl_type
  sd_default_value :: "socket_value option"
  sd_min :: "real option"
  sd_max :: "real option"
  sd_subtype :: "PropertySubType option"
  sd_hide_value :: bool
  sd_unavailable :: bool

record NodeDeclarationBuilder =
  decl_inputs :: "SocketDeclaration list"
  decl_outputs :: "SocketDeclaration list"

text \<open>
  Modelled from the spec: the class \<^verbatim>\<open>NodeDeclarationBuilder\<close> and its socket
  builders are declared in \<^verbatim>\<open>node_shader_util.hh\<close>, which is not part of the two
  files. \<^verbatim>\<open>add_input<T>(name)\<close> appends an input socket of type \<open>T\<close> with that name
  and nothing else set, \<^verbatim>\<open>add_output<T>(name)\<close> an output socket; each chained call
  sets the attribute it names on the socket just added.
\<close>

definition new_socket :: "decl_type \<Rightarrow> string \<Rightarrow> SocketDeclaration" where
  "new_socket T name =
     \<lparr>sd_name = name, sd_type = T, sd_default_value = None, sd_min = None, sd_max = None,
      sd_subtype = None, sd_hide_value = False, sd_unavailable = False\<rparr>"

definition default_value :: "socket_value \<Rightarrow> SocketDeclaration \<Rightarrow> SocketDeclaration" where
  "default_value v sd = sd\<lparr>sd_default_value := Some v\<rparr>"

definition min_value :: "real \<Rightarrow> SocketDeclaration \<Rightarrow> SocketDeclaration" where
  "min_value v sd = sd\<lparr>sd_min := Some v\<rparr>"

definition max_value :: "real \<Rightarrow> SocketDeclaration \<Rightarrow> SocketDeclaration" where
  "max_value v sd = sd\<lparr>sd_max := Some v\<rparr>"

definition subtype :: "PropertySubType \<Rightarrow> SocketDeclaration \<Rightarrow> SocketDeclaration" where
  "subtype v sd = sd\<lparr>sd_subtype := Some v\<rparr>"

definition hide_value :: "SocketDeclaration \<Rightarrow> SocketDeclaration" where
  "hide_value sd = sd\<lparr>sd_hide_value := True\<rparr>"

definition unavailable :: "SocketDeclaration \<Rightarrow> SocketDeclaration" where
  "unavailable sd = sd\<lparr>sd_unavailable := True\<rparr>"

definition add_input ::
  "decl_type \<Rightarrow> string \<Rightarrow> (SocketDeclaration \<Rightarrow> SocketDeclaration) list
     \<Rightarrow> NodeDeclarationBuilder \<Rightarrow> NodeDeclarationBuilder" where
  "add_input T name chained b =
     b\<lparr>decl_inputs := decl_inputs b @ [fold (\<lambda>f sd. f sd) chained (new_socket T name)]\<rparr>"

definition add_output ::
  "decl_type \<Rightarrow> string \<Rightarrow> (SocketDeclaration \<Rightarrow> SocketDeclaration) list
     \<Rightarrow> NodeDeclarationBuilder \<Rightarrow> NodeDeclarationBuilder" where
  "add_output T name chained b =
     b\<lparr>decl_outputs := decl_outputs b @ [fold (\<lambda>f sd. f sd) chained (new_socket T name)]\<rparr>"

definition node_declare :: "NodeDeclarationBuilder \<Rightarrow> NodeDeclarationBuilder" where
  "node_declare b =
     (let b = add_input decl_Color ''Color'' [default_value (ColorValue 0.8 0.8 0.8 1.0)] b;
          b = add_input decl_Float ''Roughness''
                [default_value (FloatValue 0.0), min_value 0.0, max_value 1.0,
                 subtype PROP_FACTOR] b;
          b = add_input decl_Vector ''Normal'' [hide_value] b;
          b = add_input decl_Float ''Weight'' [unavailable] b;
          b = add_output decl_Shader ''BSDF'' [] b
      in b)"

subsection \<open>GPU code generation\<close>

datatype eGPUMaterialFlag = GPU_MATFLAG_DIFFUSE | GPU_MATFLAG_OTHER nat

record GPUMaterial =
  mat_flag :: "eGPUMaterialFlag set"
  mat_graph :: "(string \<times> addr) list"

record GPUNodeStack =
  gns_link :: "addr option"

text \<open>
  \<^verbatim>\<open>GPU_link\<close> and \<^verbatim>\<open>GPU_stack_link\<close> are functions of the GPU module. \<^verbatim>\<open>GPU_link\<close>
  yields the material and the link it wrote to its out-parameter (\<open>None\<close> when it
  wrote none); \<^verbatim>\<open>GPU_stack_link\<close> yields its result, the material and the two stacks.
\<close>

record gpu_ext =
  GPU_link :: "GPUMaterial \<Rightarrow> string \<Rightarrow> GPUMaterial \<times> addr option"
  GPU_stack_link ::
    "GPUMaterial \<Rightarrow> addr \<Rightarrow> string \<Rightarrow> (nat \<Rightarrow> GPUNodeStack) \<Rightarrow> (nat \<Rightarrow> GPUNodeStack)
       \<Rightarrow> bool \<times> GPUMaterial \<times> (nat \<Rightarrow> GPUNodeStack) \<times> (nat \<Rightarrow> GPUNodeStack)"

text \<open>
  Modelled from the spec: \<^verbatim>\<open>GPU_material_flag_set\<close> is defined in the GPU module; it
  sets the flag given on the material.
\<close>

definition GPU_material_flag_set :: "GPUMaterial \<Rightarrow> eGPUMaterialFlag \<Rightarrow> GPUMaterial" where
  "GPU_material_flag_set mat flag = mat\<lparr>mat_flag := mat_flag mat \<union> {flag}\<rparr>"

definition node_shader_gpu_shader_test ::
  "gpu_ext \<Rightarrow> GPUMaterial \<Rightarrow> addr \<Rightarrow> (nat \<Rightarrow> GPUNodeStack) \<Rightarrow> (nat \<Rightarrow> GPUNodeStack)
     \<Rightarrow> bool \<times> GPUMaterial \<times> (nat \<Rightarrow> GPUNodeStack) \<times> (nat \<Rightarrow> GPUNodeStack)" where
  "node_shader_gpu_shader_test G mat node in' out =
     (let (mat, in') =
            (if gns_link (in' 2) = None then
               (case GPU_link G mat ''world_normals_get'' of
                  (mat, l) \<Rightarrow> (mat, in'(2 := (in' 2)\<lparr>gns_link := l\<rparr>)))
             else (mat, in'));
          mat = GPU_material_flag_set mat GPU_MATFLAG_DIFFUSE
      in GPU_stack_link G mat node ''node_shader_test'' in' out)"

subsection \<open>Registration\<close>

datatype node_type_id = SH_NODE_SHADER_TEST | SH_NODE_OTHER nat

datatype node_class = NODE_CLASS_SHADER | NODE_CLASS_OTHER nat

datatype eNodeSizePreset = NODE_SIZE_DEFAULT | NODE_SIZE_SMALL | NODE_SIZE_MIDDLE | NODE_SIZE_LARGE

record bNodeType =
  nt_type :: "node_type_id option"
  nt_ui_name :: string
  nt_nclass :: "node_class option"
  nt_declare :: "(NodeDeclarationBuilder \<Rightarrow> NodeDeclarationBuilder) option"
  nt_size_preset :: "eNodeSizePreset option"
  nt_gpu_fn ::
    "(GPUMaterial \<Rightarrow> addr \<Rightarrow> (nat \<Rightarrow> GPUNodeStack) \<Rightarrow> (nat \<Rightarrow> GPUNodeStack)
        \<Rightarrow> bool \<times> GPUMaterial \<times> (nat \<Rightarrow> GPUNodeStack) \<times> (nat \<Rightarrow> GPUNodeStack)) option"

text \<open>
  Modelled from the spec: \<^verbatim>\<open>sh_node_type_base\<close>, \<^verbatim>\<open>node_type_size_preset\<close> and
  \<^verbatim>\<open>nodeRegisterType\<close> are defined in the node module. The first stores the type
  identifier, the name shown and the class in the node type, the second stores the
  size preset, the third appends the node type to the registry of node types. A
  \<^verbatim>\<open>static bNodeType\<close> starts zeroed.
\<close>

definition zeroed_bNodeType :: bNodeType where
  "zeroed_bNodeType =
     \<lparr>nt_type = None, nt_ui_name = [], nt_nclass = None, nt_declare = None,
      nt_size_preset = None, nt_gpu_fn = None\<rparr>"

definition sh_node_type_base ::
  "bNodeType \<Rightarrow> node_type_id \<Rightarrow> string \<Rightarrow> node_class \<Rightarrow> bNodeType" where
  "sh_node_type_base ntype ty name nclass =
     ntype\<lparr>nt_type := Some ty, nt_ui_name := name, nt_nclass := Some nclass\<rparr>"

definition node_type_size_preset :: "bNodeType \<Rightarrow> eNodeSizePreset \<Rightarrow> bNodeType" where
  "node_type_size_preset ntype preset = ntype\<lparr>nt_size_preset := Some preset\<rparr>"

definition nodeRegisterType :: "bNodeType \<Rightarrow> bNodeType list \<Rightarrow> bNodeType list" where
  "nodeRegisterType ntype registry = registry @ [ntype]"

definition register_node_type_sh_test :: "gpu_ext \<Rightarrow> bNodeType list \<Rightarrow> bNodeType list" where
  "register_node_type_sh_test G registry =
     (let ntype = zeroed_bNodeType;
          ntype = sh_node_type_base ntype SH_NODE_SHADER_TEST ''Shader Test'' NODE_CLASS_SHADER;
          ntype = ntype\<lparr>nt_declare := Some node_declare\<rparr>;
          ntype = node_type_size_preset ntype NODE_SIZE_MIDDLE;
          ntype = ntype\<lparr>nt_gpu_fn := Some (node_shader_gpu_shader_test G)\<rparr>
      in nodeRegisterType ntype registry)"

section \<open>Sides of a looptri and edges of the mesh\<close>

text \<open>
  The words used for the sides of a looptri: side \<open>j\<close> runs from corner \<open>j\<close> to
  the next corner (corner \<open>0\<close> after corner \<open>2\<close>); the mesh keeps, for each corner
  of a polygon, one edge; the side is an edge of the mesh when the two vertices of
  the edge kept for its first corner are the two corner vertices of the side.
\<close>

definition tri_side_edge :: "'f Nearest2dUserData_Mesh \<Rightarrow> int \<Rightarrow> nat \<Rightarrow> int" where
  "tri_side_edge data index j =
     corner_edges (n2d_mesh data) (tri (looptris (n2d_mesh data) index) j)"

definition tri_side_is_mesh_edge :: "'f Nearest2dUserData_Mesh \<Rightarrow> int \<Rightarrow> nat \<Rightarrow> bool" where
  "tri_side_is_mesh_edge data index j \<longleftrightarrow>
     {fst (edges (n2d_mesh data) (tri_side_edge data index j)),
      snd (edges (n2d_mesh data) (tri_side_edge data index j))} =
     {corner_verts (n2d_mesh data) (tri (looptris (n2d_mesh data) index) j),
      corner_verts (n2d_mesh data) (tri (looptris (n2d_mesh data) index) ((j + 1) mod 3))}"

text \<open>
  The entry the loop of \<^verbatim>\<open>get_tri_edges_index\<close> writes for the side from corner
  \<open>j\<close> to corner \<open>j_next\<close>.
\<close>

definition side_entry :: "'f Nearest2dUserData_Mesh \<Rightarrow> int \<Rightarrow> nat \<Rightarrow> nat \<Rightarrow> int" where
  "side_entry data index j j_next =
     (if ELEM (fst (edges (n2d_mesh data) (tri_side_edge data index j)))
            (corner_verts (n2d_mesh data) (tri (looptris (n2d_mesh data) index) j))
            (corner_verts (n2d_mesh data) (tri (looptris (n2d_mesh data) index) j_next)) \<and>
         ELEM (snd (edges (n2d_mesh data) (tri_side_edge data index j)))
            (corner_verts (n2d_mesh data) (tri (looptris (n2d_mesh data) index) j))
            (corner_verts (n2d_mesh data) (tri (looptris (n2d_mesh data) index) j_next))
      then tri_side_edge data index j else - 1)"

section \<open>The projected nearest search, from what is said of it\<close>

text \<open>
  Modelled from the spec: \<^verbatim>\<open>cb_snap_vert\<close>, \<^verbatim>\<open>cb_snap_edge\<close> (defined in
  \<^verbatim>\<open>transform_snap_object.cc\<close>) and \<^verbatim>\<open>BLI_bvhtree_find_nearest_projected\<close> (defined
  in the BVH library) are not part of the two files. What is said of them: a
  callback tests one candidate, a vertex or an edge; the candidate has a squared
  projected distance, or none when it is clipped away; it replaces the nearest
  element when that distance is strictly below \<^verbatim>\<open>nearest->dist_sq\<close>, and then the
  index, the distance, the point and the normal of the candidate are stored. The
  search runs the callback it is given on the leaves it visits, one after the other.
  Which leaves it visits, in which order, and the distance, point and normal of each
  candidate are left open: they are the fields of \<open>snap_spec\<close>.
\<close>

record 'f snap_spec =
  vert_candidate ::
    "'f Nearest2dUserData_Mesh \<Rightarrow> 'f DistProjectedAABBPrecalc \<Rightarrow> 'f float4 list \<Rightarrow> int
       \<Rightarrow> ('f \<times> 'f float3 \<times> 'f float3) option"
  edge_candidate ::
    "'f Nearest2dUserData_Mesh \<Rightarrow> 'f DistProjectedAABBPrecalc \<Rightarrow> 'f float4 list \<Rightarrow> int
       \<Rightarrow> ('f \<times> 'f float3 \<times> 'f float3) option"
  visited_leaves ::
    "addr \<Rightarrow> 'f float4x4 \<Rightarrow> 'f float2 \<Rightarrow> 'f float2 \<Rightarrow> 'f float4 list \<Rightarrow> 'f BVHTreeNearest
       \<Rightarrow> 'f BVHTree_NearestProjectedCallback \<Rightarrow> int list"
  search_precalc :: "'f float4x4 \<Rightarrow> 'f float2 \<Rightarrow> 'f float2 \<Rightarrow> 'f DistProjectedAABBPrecalc"

definition test_projected ::
  "(('f::ord) \<times> 'f float3 \<times> 'f float3) option \<Rightarrow> int \<Rightarrow> 'f BVHTreeNearest \<Rightarrow> 'f BVHTreeNearest"
  where
  "test_projected cand index nearest =
     (case cand of
        None \<Rightarrow> nearest
      | Some (dist_sq, co, no) \<Rightarrow>
          if dist_sq < nearest_dist_sq nearest
          then \<lparr>nearest_index = index, nearest_co = co, nearest_no = no,
                nearest_dist_sq = dist_sq\<rparr>
          else nearest)"

definition spec_callbacks :: "('f::ord) snap_spec \<Rightarrow> 'f ext \<Rightarrow> 'f ext" where
  "spec_callbacks S X =
     X\<lparr>cb_snap_vert :=
         (\<lambda>data index precalc clip_plane nearest.
            test_projected (vert_candidate S data precalc clip_plane index) index nearest),
       cb_snap_edge :=
         (\<lambda>data index precalc clip_plane nearest.
            test_projected (edge_candidate S data precalc clip_plane index) index nearest),
       BLI_bvhtree_find_nearest_projected :=
         (\<lambda>tree projmat winsize mval clip_plane nearest callback.
            fold (\<lambda>leaf. callback leaf (search_precalc S projmat winsize mval) clip_plane)
              (visited_leaves S tree projmat winsize mval clip_plane nearest callback)
              nearest)\<rparr>"

subsection \<open>The candidates a search comes to, and those it tests\<close>

text \<open>
  An attempt is a candidate a callback comes to: whether the callback first compares
  its index with \<^verbatim>\<open>nearest->index\<close> and skips it when they are equal, whether it is
  a vertex or an edge, and its index. A candidate is tested when the callback
  reaches \<^verbatim>\<open>cb_snap_vert\<close> or \<^verbatim>\<open>cb_snap_edge\<close> with it.
\<close>

datatype cand_kind = Vert | Edge

type_synonym attempt = "bool \<times> cand_kind \<times> int"

definition candidate ::
  "'f snap_spec \<Rightarrow> 'f Nearest2dUserData_Mesh \<Rightarrow> 'f DistProjectedAABBPrecalc \<Rightarrow> 'f float4 list
     \<Rightarrow> cand_kind \<Rightarrow> int \<Rightarrow> ('f \<times> 'f float3 \<times> 'f float3) option" where
  "candidate S data precalc clip_plane k c =
     (case k of
        Vert \<Rightarrow> vert_candidate S data precalc clip_plane c
      | Edge \<Rightarrow> edge_candidate S data precalc clip_plane c)"

definition candidate_dist ::
  "'f snap_spec \<Rightarrow> 'f Nearest2dUserData_Mesh \<Rightarrow> 'f DistProjectedAABBPrecalc \<Rightarrow> 'f float4 list
     \<Rightarrow> cand_kind \<times> int \<Rightarrow> 'f option" where
  "candidate_dist S data precalc clip_plane kc =
     map_option fst (candidate S data precalc clip_plane (fst kc) (snd kc))"

definition try_attempt ::
  "('f::ord) snap_spec \<Rightarrow> 'f Nearest2dUserData_Mesh \<Rightarrow> 'f DistProjectedAABBPrecalc
     \<Rightarrow> 'f float4 list \<Rightarrow> attempt \<Rightarrow> 'f BVHTreeNearest \<Rightarrow> 'f BVHTreeNearest" where
  "try_attempt S data precalc clip_plane a nearest =
     (case a of
        (skip, k, c) \<Rightarrow>
          if skip \<and> c = nearest_index nearest then nearest
          else test_projected (candidate S data precalc clip_plane k c) c nearest)"

fun tested ::
  "('f::ord) snap_spec \<Rightarrow> 'f Nearest2dUserData_Mesh \<Rightarrow> 'f DistProjectedAABBPrecalc
     \<Rightarrow> 'f float4 list \<Rightarrow> attempt list \<Rightarrow> 'f BVHTreeNearest \<Rightarrow> (cand_kind \<times> int) list" where
  "tested S data precalc clip_plane [] nearest = []"
| "tested S data precalc clip_plane (a # as) nearest =
     (if fst a \<and> snd (snd a) = nearest_index nearest then [] else [snd a]) @
     tested S data precalc clip_plane as (try_attempt S data precalc clip_plane a nearest)"

datatype leaf_callback = CB_vert | CB_edge | CB_edge_verts | CB_tri_verts | CB_tri_edges

definition the_callback ::
  "'f ext \<Rightarrow> 'f Nearest2dUserData_Mesh \<Rightarrow> leaf_callback \<Rightarrow> 'f BVHTree_NearestProjectedCallback"
  where
  "the_callback X data cb =
     (case cb of
        CB_vert \<Rightarrow> cb_snap_vert X data
      | CB_edge \<Rightarrow> cb_snap_edge X data
      | CB_edge_verts \<Rightarrow> cb_snap_edge_verts X data
      | CB_tri_verts \<Rightarrow> cb_snap_tri_verts X data
      | CB_tri_edges \<Rightarrow> cb_snap_tri_edges X data)"

definition leaf_attempts ::
  "'f ext \<Rightarrow> 'f Nearest2dUserData_Mesh \<Rightarrow> 'f DistProjectedAABBPrecalc \<Rightarrow> leaf_callback \<Rightarrow> int
     \<Rightarrow> attempt list" where
  "leaf_attempts X data precalc cb leaf =
     (case cb of
        CB_vert \<Rightarrow> [(False, Vert, leaf)]
      | CB_edge \<Rightarrow> [(False, Edge, leaf)]
      | CB_edge_verts \<Rightarrow> map (\<lambda>v. (True, Vert, v)) (rev (get_edge_verts_index data leaf))
      | CB_tri_verts \<Rightarrow>
          if n2d_use_backface_culling data \<and>
             tri_backface_culled X data precalc (get_tri_verts_index data leaf)
          then []
          else map (\<lambda>v. (True, Vert, v)) (rev (get_tri_verts_index data leaf))
      | CB_tri_edges \<Rightarrow>
          if n2d_use_backface_culling data \<and>
             tri_backface_culled X data precalc (get_tri_verts_index data leaf)
          then []
          else map (\<lambda>e. (True, Edge, e))
                 (filter (\<lambda>e. e \<noteq> - 1) (rev (get_tri_edges_index data leaf [0, 0, 0]))))"

definition search_attempts ::
  "('f::ord) snap_spec \<Rightarrow> 'f ext \<Rightarrow> 'f SnapObjectContext \<Rightarrow> 'f Nearest2dUserData_Mesh \<Rightarrow> addr
     \<Rightarrow> leaf_callback \<Rightarrow> 'f BVHTreeNearest \<Rightarrow> attempt list" where
  "search_attempts S X sctx data tree cb nearest =
     concat (map
       (leaf_attempts X data
          (search_precalc S (pmat_local data) (win_size (runtime sctx)) (mval (runtime sctx)))
          cb)
       (visited_leaves S tree (pmat_local data) (win_size (runtime sctx))
          (mval (runtime sctx)) (clip_planes data) nearest
          (the_callback (spec_callbacks S X) data cb)))"

definition run_attempts ::
  "('f::ord) snap_spec \<Rightarrow> 'f SnapObjectContext \<Rightarrow> 'f Nearest2dUserData_Mesh \<Rightarrow> attempt list
     \<Rightarrow> 'f BVHTreeNearest \<Rightarrow> 'f BVHTreeNearest" where
  "run_attempts S sctx data as nearest =
     fold (try_attempt S data
             (search_precalc S (pmat_local data) (win_size (runtime sctx)) (mval (runtime sctx)))
             (clip_planes data))
       as nearest"

definition snapMesh_attempts ::
  "('f::{ord,zero}) snap_spec \<Rightarrow> 'f ext \<Rightarrow> 'f SnapObjectContext \<Rightarrow> 'f Mesh
     \<Rightarrow> 'f Nearest2dUserData_Mesh \<Rightarrow> bool \<Rightarrow> attempt list" where
  "snapMesh_attempts S X sctx me_eval nearest2d use_hide =
     (let treedata = snap_object_data_mesh_get X me_eval use_hide;
          bvhtree0 = bvh_tree (BKE_bvhtree_from_mesh_get X me_eval BVHTREE_FROM_LOOSEEDGES 2);
          bvhtree1 =
            (if snap_to_flag (runtime sctx) \<inter> SCE_SNAP_TO_VERTEX \<noteq> {}
             then bvh_tree (BKE_bvhtree_from_mesh_get X me_eval BVHTREE_FROM_LOOSEVERTS 2)
             else None);
          nearest = \<lparr>nearest_index = - 1, nearest_co = (0, 0, 0), nearest_no = (0, 0, 0),
                     nearest_dist_sq = dist_px_sq (ret sctx)\<rparr>;
          as1 = (case bvhtree1 of
                   Some t \<Rightarrow> search_attempts S X sctx nearest2d t CB_vert nearest
                 | None \<Rightarrow> []);
          nearest = run_attempts S sctx nearest2d as1 nearest;
          edge_mode = (snap_to_flag (runtime sctx) \<inter> SCE_SNAP_TO_EDGE \<noteq> {});
          as2 = (case bvhtree0 of
                   Some t \<Rightarrow> search_attempts S X sctx nearest2d t
                               (if edge_mode then CB_edge else CB_edge_verts) nearest
                 | None \<Rightarrow> []);
          nearest = run_attempts S sctx nearest2d as2 nearest;
          as3 = (case bvh_tree treedata of
                   Some t \<Rightarrow> search_attempts S X sctx nearest2d t
                               (if edge_mode then CB_tri_edges else CB_tri_verts) nearest
                 | None \<Rightarrow> [])
      in as1 @ as2 @ as3)"

section \<open>Example data\<close>

text \<open>
  A unit square in the plane \<open>z = 0\<close>: four vertices, four edges, one polygon split
  into the looptris \<open>(0, 1, 2)\<close> and \<open>(0, 2, 3)\<close>, whose common side joins the
  vertices \<open>0\<close> and \<open>2\<close> and is no edge of the mesh.
\<close>

definition ex_quad :: "real Mesh" where
  "ex_quad =
     \<lparr>me_addr = 1, totvert = 4, totedge = 4, totpoly = 1,
      vert_positions =
        (\<lambda>i. if i = 0 then (0, 0, 0) else if i = 1 then (1, 0, 0)
             else if i = 2 then (1, 1, 0) else (0, 1, 0)),
      vert_normals = (\<lambda>i. (0, 0, 1)),
      edges = (\<lambda>i. if i = 0 then (0, 1) else if i = 1 then (1, 2)
                   else if i = 2 then (2, 3) else (3, 0)),
      corner_verts = (\<lambda>i. i),
      corner_edges = (\<lambda>i. i),
      looptris =
        (\<lambda>i. if i = 0 then \<lparr>tri = (\<lambda>j. if j = 0 then 0 else if j = 1 then 1 else 2)\<rparr>
             else \<lparr>tri = (\<lambda>j. if j = 0 then 0 else if j = 1 then 2 else 3)\<rparr>),
      looptri_polys = (\<lambda>i. 0)\<rparr>"

definition ex_empty :: "real Mesh" where
  "ex_empty = ex_quad\<lparr>me_addr := 2, totvert := 0, totedge := 0, totpoly := 0\<rparr>"

definition ex_ob :: Object where
  "ex_ob = \<lparr>ob_data = 1\<rparr>"

definition ex_obmat :: "real float4x4" where
  "ex_obmat = (\<lambda>i j. if i = j then 1 else 0)"

definition ex_sctx :: "real SnapObjectContext" where
  "ex_sctx =
     \<lparr>runtime =
        \<lparr>ray_start = (1 / 4, 1 / 4, 5), ray_dir = (0, 0, - 1),
         snap_to_flag = {TO_VERTEX}, params = \<lparr>use_backface_culling = True\<rparr>,
         object_index = 7, win_size = (100, 100), mval = (90, 10)\<rparr>,
      ret =
        \<lparr>ret_loc = (0, 0, 0), ret_no = (0, 0, 0), ret_index = - 1, ray_depth_max = 100,
         dist_px_sq = 1 / 2, hit_list = None\<rparr>\<rparr>"

text \<open>
  One interpretation of the functions defined outside the two files, for an object
  whose matrix is the identity: the ray meets every triangle at distance \<open>5\<close>, a
  triangle passes the culling test when its normal (by the winding of its corners)
  points against the direction given, the tree of looptris exists for a mesh with
  polygons unless hidden faces are skipped, a search visits the leaves \<open>0\<close> and \<open>1\<close>
  with a direction towards the viewer, and a candidate replaces the nearest element
  when its squared distance to the point \<open>(9/10, 1/10)\<close> is smaller.
\<close>

definition ex_sub :: "real float3 \<Rightarrow> real float3 \<Rightarrow> real float3" where
  "ex_sub a b = (case a of (a0, a1, a2) \<Rightarrow> case b of (b0, b1, b2) \<Rightarrow>
     (a0 - b0, a1 - b1, a2 - b2))"

definition ex_cross :: "real float3 \<Rightarrow> real float3 \<Rightarrow> real float3" where
  "ex_cross a b = (case a of (a0, a1, a2) \<Rightarrow> case b of (b0, b1, b2) \<Rightarrow>
     (a1 * b2 - a2 * b1, a2 * b0 - a0 * b2, a0 * b1 - a1 * b0))"

definition ex_dot :: "real float3 \<Rightarrow> real float3 \<Rightarrow> real" where
  "ex_dot a b = (case a of (a0, a1, a2) \<Rightarrow> case b of (b0, b1, b2) \<Rightarrow>
     a0 * b0 + a1 * b1 + a2 * b2)"

definition ex_madd :: "real float3 \<Rightarrow> real float3 \<Rightarrow> real \<Rightarrow> real float3" where
  "ex_madd a b f = (case a of (a0, a1, a2) \<Rightarrow> case b of (b0, b1, b2) \<Rightarrow>
     (a0 + b0 * f, a1 + b1 * f, a2 + b2 * f))"

definition ex_dist_sq :: "real float3 \<Rightarrow> real" where
  "ex_dist_sq a = (case a of (a0, a1, a2) \<Rightarrow>
     (a0 - 9 / 10) * (a0 - 9 / 10) + (a1 - 1 / 10) * (a1 - 1 / 10))"

definition ex_culling_test ::
  "real float3 \<Rightarrow> real float3 \<Rightarrow> real float3 \<Rightarrow> real float3 \<Rightarrow> bool \<times> real float3" where
  "ex_culling_test dir v0 v1 v2 =
     (let no = ex_cross (ex_sub v0 v1) (ex_sub v1 v2) in (ex_dot no dir < 0, no))"

definition ex_X :: "real ext" where
  "ex_X =
     \<lparr>BVH_RAYCAST_DIST_MAX = 1000000,
      float_400 = 400,
      invert_m4_m4 = (\<lambda>m. m),
      mul_m4_v3 = (\<lambda>m v. v),
      mul_mat3_m4_v3 = (\<lambda>m v. v),
      mul_transposed_mat3_m4_v3 = (\<lambda>m v. v),
      normalize_v3 = (\<lambda>v. (1, v)),
      normalize_v3_v3 = (\<lambda>v. (1, v)),
      madd_v3_v3fl = ex_madd,
      madd_v3_v3v3fl = ex_madd,
      isect_ray_aabb_v3_simple = (\<lambda>orig dir bb_min bb_max. Some 0),
      bvhtree_ray_tri_intersection = (\<lambda>ray dist v0 v1 v2. 5),
      raycast_tri_backface_culling_test = ex_culling_test,
      BKE_object_boundbox_get = (\<lambda>ob. None),
      BKE_mesh_boundbox_get = (\<lambda>ob. \<lparr>vec = (\<lambda>i. (0, 0, 0))\<rparr>),
      BKE_bvhtree_from_mesh_get =
        (\<lambda>me ty n.
           \<lparr>bvh_tree = (if ty = BVHTREE_FROM_LOOPTRI \<and> totpoly me \<noteq> 0 then Some 1 else None),
            bvh_raycast_callback = (\<lambda>index ray hit. hit),
            bvh_nearest_callback = (\<lambda>index co nearest. nearest),
            bvh_vert_positions = vert_positions me,
            bvh_corner_verts = corner_verts me,
            bvh_looptri = looptris me\<rparr>),
      BLI_bvhtree_ray_cast =
        (\<lambda>tree co dir radius hit callback.
           (let hit = callback 0 \<lparr>ray_origin = co, ray_direction = dir, ray_radius = radius\<rparr> hit
            in (hit_index hit, hit))),
      BLI_bvhtree_ray_cast_all = (\<lambda>tree co dir radius hit_dist data hl. hl @ [100]),
      nearest_world_tree =
        (\<lambda>sctx tree callback treedata obmat.
           (True, sctx\<lparr>ret := (ret sctx)\<lparr>ret_index := 0\<rparr>\<rparr>)),
      Nearest2dUserData_ctor =
        (\<lambda>sctx ob_eval id_eval obmat.
           \<lparr>pmat_local = obmat, clip_planes = [],
            n2d_use_backface_culling = use_backface_culling (params (runtime sctx)),
            nearest_point = \<lparr>nearest_index = - 2, nearest_co = (0, 0, 0),
                             nearest_no = (0, 0, 0), nearest_dist_sq = dist_px_sq (ret sctx)\<rparr>\<rparr>),
      clip_planes_enable = (\<lambda>data. data),
      snap_boundbox = (\<lambda>data bb_min bb_max. True),
      BLI_bvhtree_find_nearest_projected =
        (\<lambda>tree projmat winsize mval clip_plane nearest callback.
           callback 1 \<lparr>precalc_ray_direction = (0, 0, 1)\<rparr> clip_plane
             (callback 0 \<lparr>precalc_ray_direction = (0, 0, 1)\<rparr> clip_plane nearest)),
      cb_snap_vert =
        (\<lambda>data index precalc clip_plane nearest.
           if ex_dist_sq (vert_positions (n2d_mesh data) index) < nearest_dist_sq nearest
           then nearest\<lparr>nearest_index := index,
                  nearest_co := vert_positions (n2d_mesh data) index,
                  nearest_no := vert_normals (n2d_mesh data) index,
                  nearest_dist_sq := ex_dist_sq (vert_positions (n2d_mesh data) index)\<rparr>
           else nearest),
      cb_snap_edge =
        (\<lambda>data index precalc clip_plane nearest.
           if ex_dist_sq (vert_positions (n2d_mesh data) (fst (edges (n2d_mesh data) index)))
                < nearest_dist_sq nearest
           then nearest\<lparr>nearest_index := index,
                  nearest_dist_sq :=
                    ex_dist_sq (vert_positions (n2d_mesh data)
                      (fst (edges (n2d_mesh data) index)))\<rparr>
           else nearest)\<rparr>"

definition ex_nearest2d :: "real Nearest2dUserData_Mesh" where
  "ex_nearest2d =
     clip_planes_enable ex_X (Nearest2dUserData_Mesh_ctor ex_X ex_sctx ex_ob ex_quad ex_obmat)"

definition ex_nearest :: "real BVHTreeNearest" where
  "ex_nearest =
     \<lparr>nearest_index = - 1, nearest_co = (0, 0, 0), nearest_no = (0, 0, 0),
      nearest_dist_sq = 1 / 2\<rparr>"

definition ex_precalc :: "real DistProjectedAABBPrecalc" where
  "ex_precalc = \<lparr>precalc_ray_direction = (0, 0, 1)\<rparr>"

definition ex_S :: "real snap_spec" where
  "ex_S =
     \<lparr>vert_candidate =
        (\<lambda>data precalc clip_plane index.
           if index < 0 then None
           else Some (ex_dist_sq (vert_positions (n2d_mesh data) index),
                      vert_positions (n2d_mesh data) index,
                      vert_normals (n2d_mesh data) index)),
      edge_candidate =
        (\<lambda>data precalc clip_plane index.
           if index < 0 then None
           else Some (ex_dist_sq (vert_positions (n2d_mesh data)
                                    (fst (edges (n2d_mesh data) index))),
                      vert_positions (n2d_mesh data) (fst (edges (n2d_mesh data) index)),
                      (0, 0, 0))),
      visited_leaves =
        (\<lambda>tree projmat winsize mval clip_plane nearest callback. [0, 1, 0]),
      search_precalc = (\<lambda>projmat winsize mval. ex_precalc)\<rparr>"

text \<open>The same context with a smaller snapping distance, which no vertex of the square is within.\<close>

definition ex_sctx_near :: "real SnapObjectContext" where
  "ex_sctx_near = ex_sctx\<lparr>ret := (ret ex_sctx)\<lparr>dist_px_sq := 1 / 100\<rparr>\<rparr>"

text \<open>The context with the smaller snapping distance and a ray that stops above the square.\<close>

definition ex_sctx_far :: "real SnapObjectContext" where
  "ex_sctx_far = ex_sctx\<lparr>ret := (ret ex_sctx)\<lparr>ray_depth_max := 1, dist_px_sq := 1 / 100\<rparr>\<rparr>"

text \<open>The context with the edge mode as the snap mode of the run.\<close>

definition ex_sctx_edge :: "real SnapObjectContext" where
  "ex_sctx_edge = ex_sctx\<lparr>runtime := (runtime ex_sctx)\<lparr>snap_to_flag := {TO_EDGE}\<rparr>\<rparr>"




section \<open>Auxiliary facts\<close>

lemmas snap_mode_defs =
  SCE_SNAP_TO_NONE_def SCE_SNAP_TO_VERTEX_def SCE_SNAP_TO_EDGE_def SCE_SNAP_TO_FACE_def
  SCE_SNAP_TO_EDGE_MIDPOINT_def SCE_SNAP_TO_EDGE_PERPENDICULAR_def
  SCE_SNAP_INDIVIDUAL_NEAREST_def

lemma snapMesh_search_elem:
  "snd (snapMesh_search X sctx me_eval nearest2d use_hide) = SCE_SNAP_TO_VERTEX \<or>
   snd (snapMesh_search X sctx me_eval nearest2d use_hide) = SCE_SNAP_TO_EDGE"
  by (simp add: snapMesh_search_def Let_def case_prod_beta)

lemma snapMesh_elem:
  "fst (snapMesh X sctx ob_eval me_eval obmat use_hide) = SCE_SNAP_TO_NONE \<or>
   fst (snapMesh X sctx ob_eval me_eval obmat use_hide) = SCE_SNAP_TO_VERTEX \<or>
   fst (snapMesh X sctx ob_eval me_eval obmat use_hide) = SCE_SNAP_TO_EDGE"
  using snapMesh_search_elem [of X sctx me_eval
      "clip_planes_enable X (Nearest2dUserData_Mesh_ctor X sctx ob_eval me_eval obmat)" use_hide]
  by (auto simp add: snapMesh_def Let_def case_prod_beta)

lemma mesh_snap_mode_supported_eq:
  "mesh_snap_mode_supported mesh =
     (if totpoly mesh \<noteq> 0 then {TO_FACE, INDIVIDUAL_NEAREST} else {}) \<union>
     (if totedge mesh \<noteq> 0 then {TO_EDGE, TO_EDGE_MIDPOINT, TO_EDGE_PERPENDICULAR} else {}) \<union>
     (if totvert mesh \<noteq> 0 then {TO_VERTEX} else {})"
  by (auto simp add: mesh_snap_mode_supported_def snap_mode_defs Let_def)

lemma get_tri_edges_index_unrolled:
  "get_tri_edges_index data index [a, b, c] =
     [side_entry data index 0 1, side_entry data index 1 2, side_entry data index 2 0]"
  unfolding get_tri_edges_index_def
  apply (subst get_tri_edges_index_loop.simps)
  apply (subst get_tri_edges_index_loop.simps)
  apply (subst get_tri_edges_index_loop.simps)
  apply (subst get_tri_edges_index_loop.simps)
  apply (simp add: Let_def eval_nat_numeral side_entry_def tri_side_edge_def)
  done

lemma ELEM_pair:
  "a \<noteq> b \<Longrightarrow> ELEM a t0 t1 \<and> ELEM b t0 t1 \<longleftrightarrow> {a, b} = {t0, t1}"
  by (auto simp add: ELEM_def doubleton_eq_iff)

lemma get_tri_edges_index_nth:
  assumes "length r = 3" and "j < 3"
    and "fst (edges (n2d_mesh data) (tri_side_edge data index j)) \<noteq>
         snd (edges (n2d_mesh data) (tri_side_edge data index j))"
  shows "get_tri_edges_index data index r ! j =
     (if tri_side_is_mesh_edge data index j then tri_side_edge data index j else - 1)"
proof -
  from \<open>length r = 3\<close> obtain a b c where r: "r = [a, b, c]"
    by (cases r; cases "tl r"; cases "tl (tl r)") auto
  from \<open>j < 3\<close> consider "j = 0" | "j = 1" | "j = 2" by linarith
  then show ?thesis
  proof cases
    case 1
    with assms(3) show ?thesis
      by (simp add: r get_tri_edges_index_unrolled side_entry_def tri_side_is_mesh_edge_def
          numeral_2_eq_2
          ELEM_pair)
  next
    case 2
    with assms(3) show ?thesis
      by (simp add: r get_tri_edges_index_unrolled side_entry_def tri_side_is_mesh_edge_def
          numeral_2_eq_2
          ELEM_pair)
  next
    case 3
    with assms(3) show ?thesis
      by (simp add: r get_tri_edges_index_unrolled side_entry_def tri_side_is_mesh_edge_def
          numeral_2_eq_2
          ELEM_pair)
  qed
qed

lemma cb_snap_tri_edges_loop_cong:
  assumes "\<forall>i<n. eindex ! i \<noteq> - 1 \<longrightarrow> (\<forall>nr. cb (eindex ! i) nr = cb' (eindex ! i) nr)"
  shows "cb_snap_tri_edges_loop cb eindex n nearest = cb_snap_tri_edges_loop cb' eindex n nearest"
  using assms
proof (induction n arbitrary: nearest)
  case 0
  then show ?case by simp
next
  case (Suc n)
  have step: "eindex ! n \<noteq> - 1 \<longrightarrow> cb (eindex ! n) nearest = cb' (eindex ! n) nearest"
    using Suc.prems by simp
  have rest: "\<forall>i<n. eindex ! i \<noteq> - 1 \<longrightarrow> (\<forall>nr. cb (eindex ! i) nr = cb' (eindex ! i) nr)"
    using Suc.prems by simp
  show ?case
    using step Suc.IH [OF rest] by simp
qed

lemmas ex_defs = ex_X_def ex_sctx_def ex_quad_def ex_ob_def ex_obmat_def ex_empty_def
  ex_sub_def ex_cross_def ex_dot_def ex_madd_def ex_dist_sq_def ex_culling_test_def

lemma ex_nearest2d_eq:
  "ex_nearest2d =
     \<lparr>pmat_local = ex_obmat, clip_planes = [], n2d_use_backface_culling = True,
      nearest_point = \<lparr>nearest_index = - 2, nearest_co = (0, 0, 0), nearest_no = (0, 0, 0),
                       nearest_dist_sq = 1 / 2\<rparr>,
      n2d_mesh = ex_quad\<rparr>"
  by (simp add: ex_nearest2d_def ex_X_def ex_sctx_def Nearest2dUserData_Mesh_ctor_def)

text \<open>A search with the callbacks as modelled is a run over its attempts.\<close>

lemma spec_callbacks_simps [simp]:
  "cb_snap_vert (spec_callbacks S X) =
     (\<lambda>data index precalc clip_plane nearest.
        test_projected (vert_candidate S data precalc clip_plane index) index nearest)"
  "cb_snap_edge (spec_callbacks S X) =
     (\<lambda>data index precalc clip_plane nearest.
        test_projected (edge_candidate S data precalc clip_plane index) index nearest)"
  "BLI_bvhtree_find_nearest_projected (spec_callbacks S X) =
     (\<lambda>tree projmat winsize mval clip_plane nearest callback.
        fold (\<lambda>leaf. callback leaf (search_precalc S projmat winsize mval) clip_plane)
          (visited_leaves S tree projmat winsize mval clip_plane nearest callback) nearest)"
  "raycast_tri_backface_culling_test (spec_callbacks S X) = raycast_tri_backface_culling_test X"
  "BKE_bvhtree_from_mesh_get (spec_callbacks S X) = BKE_bvhtree_from_mesh_get X"
  "Nearest2dUserData_ctor (spec_callbacks S X) = Nearest2dUserData_ctor X"
  "clip_planes_enable (spec_callbacks S X) = clip_planes_enable X"
  "snap_boundbox (spec_callbacks S X) = snap_boundbox X"
  "BKE_mesh_boundbox_get (spec_callbacks S X) = BKE_mesh_boundbox_get X"
  by (simp_all add: spec_callbacks_def)

lemma candidate_simps [simp]:
  "candidate S data precalc clip_plane Vert c = vert_candidate S data precalc clip_plane c"
  "candidate S data precalc clip_plane Edge c = edge_candidate S data precalc clip_plane c"
  by (simp_all add: candidate_def)

lemma cb_snap_verts_loop_fold:
  "k \<le> length vindex \<Longrightarrow>
   cb_snap_verts_loop cb vindex k nearest =
     fold (\<lambda>v n. if v = nearest_index n then n else cb v n) (rev (take k vindex)) nearest"
proof (induction k arbitrary: nearest)
  case 0
  then show ?case by simp
next
  case (Suc k)
  then have "take (Suc k) vindex = take k vindex @ [vindex ! k]"
    by (simp add: take_Suc_conv_app_nth)
  with Suc show ?case by simp
qed

lemma cb_snap_tri_edges_loop_fold:
  "k \<le> length eindex \<Longrightarrow>
   cb_snap_tri_edges_loop cb eindex k nearest =
     fold (\<lambda>e n. if e = nearest_index n then n else cb e n)
       (filter (\<lambda>e. e \<noteq> - 1) (rev (take k eindex))) nearest"
proof (induction k arbitrary: nearest)
  case 0
  then show ?case by simp
next
  case (Suc k)
  then have "take (Suc k) eindex = take k eindex @ [eindex ! k]"
    by (simp add: take_Suc_conv_app_nth)
  with Suc show ?case by simp
qed

lemma fold_map_attempts:
  "fold (try_attempt S data precalc clip_plane) (map (\<lambda>c. (True, k, c)) cs) nearest =
   fold (\<lambda>c n. if c = nearest_index n then n
               else test_projected (candidate S data precalc clip_plane k c) c n) cs nearest"
  by (induction cs arbitrary: nearest) (simp_all add: try_attempt_def)

lemma length_get_tri_edges_index [simp]:
  "length (get_tri_edges_index data index [a, b, c]) = 3"
  by (simp add: get_tri_edges_index_unrolled)

lemma the_callback_attempts:
  fixes X :: "('f::ord) ext"
  shows "the_callback (spec_callbacks S X) data cb leaf precalc clip_plane nearest =
     fold (try_attempt S data precalc clip_plane) (leaf_attempts X data precalc cb leaf) nearest"
proof (cases cb)
  case CB_vert
  then show ?thesis
    by (simp add: the_callback_def leaf_attempts_def try_attempt_def)
next
  case CB_edge
  then show ?thesis
    by (simp add: the_callback_def leaf_attempts_def try_attempt_def)
next
  case CB_edge_verts
  then show ?thesis
    by (simp add: the_callback_def leaf_attempts_def cb_snap_edge_verts_def
        cb_snap_verts_loop_fold get_edge_verts_index_def try_attempt_def Let_def)
next
  case CB_tri_verts
  then show ?thesis
    by (simp add: the_callback_def leaf_attempts_def cb_snap_tri_verts_def
        cb_snap_verts_loop_fold get_tri_verts_index_def try_attempt_def Let_def
        tri_backface_culled_def)
next
  case CB_tri_edges
  then show ?thesis
    by (simp add: the_callback_def leaf_attempts_def cb_snap_tri_edges_def
        cb_snap_tri_edges_loop_fold fold_map_attempts Let_def
        tri_backface_culled_def cong: if_cong)
qed

lemma fold_concat_map:
  "fold f (concat (map g ls)) n = fold (\<lambda>l. fold f (g l)) ls n"
  by (induction ls arbitrary: n) simp_all

lemma find_nearest_projected_attempts:
  fixes X :: "('f::ord) ext"
  shows "find_nearest_projected (spec_callbacks S X) sctx data tree
       (the_callback (spec_callbacks S X) data cb) nearest =
     run_attempts S sctx data (search_attempts S X sctx data tree cb nearest) nearest"
proof -
  have "(\<lambda>leaf. the_callback (spec_callbacks S X) data cb leaf
            (search_precalc S (pmat_local data) (win_size (runtime sctx)) (mval (runtime sctx)))
            (clip_planes data)) =
        (\<lambda>leaf. fold (try_attempt S data
            (search_precalc S (pmat_local data) (win_size (runtime sctx)) (mval (runtime sctx)))
            (clip_planes data))
          (leaf_attempts X data
            (search_precalc S (pmat_local data) (win_size (runtime sctx)) (mval (runtime sctx)))
            cb leaf))"
    by (rule ext)+ (simp add: the_callback_attempts)
  then show ?thesis
    by (simp add: find_nearest_projected_def search_attempts_def run_attempts_def
        fold_concat_map)
qed

lemma run_attempts_append:
  "run_attempts S sctx data (as @ bs) n = run_attempts S sctx data bs (run_attempts S sctx data as n)"
  by (simp add: run_attempts_def)

lemma run_attempts_Nil [simp]: "run_attempts S sctx data [] n = n"
  by (simp add: run_attempts_def)

lemma the_callback_simps:
  "cb_snap_vert X data = the_callback X data CB_vert"
  "cb_snap_edge X data = the_callback X data CB_edge"
  "cb_snap_edge_verts X data = the_callback X data CB_edge_verts"
  "cb_snap_tri_verts X data = the_callback X data CB_tri_verts"
  "cb_snap_tri_edges X data = the_callback X data CB_tri_edges"
  by (simp_all add: the_callback_def)

lemma snapMesh_search_attempts:
  fixes X :: "('f::{ord,zero}) ext"
  shows "fst (snapMesh_search (spec_callbacks S X) sctx me_eval nearest2d use_hide) =
     run_attempts S sctx nearest2d (snapMesh_attempts S X sctx me_eval nearest2d use_hide)
       \<lparr>nearest_index = - 1, nearest_co = (0, 0, 0), nearest_no = (0, 0, 0),
        nearest_dist_sq = dist_px_sq (ret sctx)\<rparr>"
proof -
  define t1 where "t1 = (if snap_to_flag (runtime sctx) \<inter> SCE_SNAP_TO_VERTEX \<noteq> {}
             then bvh_tree (BKE_bvhtree_from_mesh_get X me_eval BVHTREE_FROM_LOOSEVERTS 2)
             else None)"
  define t0 where "t0 = bvh_tree (BKE_bvhtree_from_mesh_get X me_eval BVHTREE_FROM_LOOSEEDGES 2)"
  define t2 where "t2 = bvh_tree (snap_object_data_mesh_get X me_eval use_hide)"
  define em where "em \<longleftrightarrow> snap_to_flag (runtime sctx) \<inter> SCE_SNAP_TO_EDGE \<noteq> {}"
  have g: "snap_object_data_mesh_get (spec_callbacks S X) me_eval use_hide =
      snap_object_data_mesh_get X me_eval use_hide"
    by (simp add: snap_object_data_mesh_get_def)
  show ?thesis
    unfolding snapMesh_search_def snapMesh_attempts_def Let_def case_prod_beta g
      spec_callbacks_simps(5) the_callback_simps find_nearest_projected_attempts
      t1_def [symmetric] t0_def [symmetric] t2_def [symmetric] em_def [symmetric]
    by (cases t1; cases t0; cases t2; cases em) (simp_all add: run_attempts_append)
qed

lemma test_projected_le:
  fixes nearest :: "('f::linorder) BVHTreeNearest"
  shows "nearest_dist_sq (test_projected cand c nearest) \<le> nearest_dist_sq nearest"
  by (auto simp add: test_projected_def split: option.split prod.split)

lemma try_attempt_le:
  fixes nearest :: "('f::linorder) BVHTreeNearest"
  shows "nearest_dist_sq (try_attempt S data precalc clip_plane a nearest)
           \<le> nearest_dist_sq nearest"
  by (simp add: try_attempt_def test_projected_le split: prod.split)

lemma fold_try_attempt_le:
  fixes nearest :: "('f::linorder) BVHTreeNearest"
  shows "nearest_dist_sq (fold (try_attempt S data precalc clip_plane) as nearest)
           \<le> nearest_dist_sq nearest"
proof (induction as arbitrary: nearest)
  case Nil
  then show ?case by simp
next
  case (Cons a as)
  have "nearest_dist_sq (fold (try_attempt S data precalc clip_plane) as
            (try_attempt S data precalc clip_plane a nearest))
          \<le> nearest_dist_sq (try_attempt S data precalc clip_plane a nearest)"
    by (rule Cons.IH)
  also have "\<dots> \<le> nearest_dist_sq nearest" by (rule try_attempt_le)
  finally show ?case by simp
qed

lemma fold_try_attempt_take_le:
  fixes nearest :: "('f::linorder) BVHTreeNearest"
  shows "nearest_dist_sq (fold (try_attempt S data precalc clip_plane) (take (Suc k) as) nearest)
           \<le> nearest_dist_sq (fold (try_attempt S data precalc clip_plane) (take k as) nearest)"
proof (cases "k < length as")
  case True
  then show ?thesis
    by (simp add: take_Suc_conv_app_nth try_attempt_le)
next
  case False
  then show ?thesis by simp
qed

lemma test_projected_dist:
  fixes nearest :: "('f::linorder) BVHTreeNearest"
  assumes "cand = Some (d, co, no)"
  shows "nearest_dist_sq (test_projected cand c nearest) \<le> d"
  using assms by (auto simp add: test_projected_def)

lemma tested_min:
  fixes nearest :: "('f::linorder) BVHTreeNearest"
  assumes "kc \<in> set (tested S data precalc clip_plane as nearest)"
    and "candidate_dist S data precalc clip_plane kc = Some d"
  shows "nearest_dist_sq (fold (try_attempt S data precalc clip_plane) as nearest) \<le> d"
  using assms
proof (induction as arbitrary: nearest)
  case Nil
  then show ?case by simp
next
  case (Cons a as)
  obtain skip k c where a: "a = (skip, k, c)" by (cases a) auto
  let ?n1 = "try_attempt S data precalc clip_plane a nearest"
  from Cons.prems(1) consider
    (head) "\<not> (skip \<and> c = nearest_index nearest)" "kc = (k, c)"
    | (tail) "kc \<in> set (tested S data precalc clip_plane as ?n1)"
    by (auto simp add: a split: if_splits)
  then show ?case
  proof cases
    case head
    from Cons.prems(2) head(2) obtain co no where
      cand: "candidate S data precalc clip_plane k c = Some (d, co, no)"
      by (auto simp add: candidate_dist_def)
    from head(1) have "?n1 = test_projected (candidate S data precalc clip_plane k c) c nearest"
      by (auto simp add: try_attempt_def a)
    with cand have "nearest_dist_sq ?n1 \<le> d"
      by (simp add: test_projected_dist)
    moreover have "nearest_dist_sq (fold (try_attempt S data precalc clip_plane) as ?n1)
        \<le> nearest_dist_sq ?n1"
      by (rule fold_try_attempt_le)
    ultimately show ?thesis by simp
  next
    case tail
    from Cons.IH [OF tail Cons.prems(2)] show ?thesis by simp
  qed
qed

lemma stored_is_tested:
  fixes nearest :: "('f::linorder) BVHTreeNearest"
  shows "nearest_index (fold (try_attempt S data precalc clip_plane) as nearest)
           = nearest_index nearest \<and>
         nearest_dist_sq (fold (try_attempt S data precalc clip_plane) as nearest)
           = nearest_dist_sq nearest \<or>
         (\<exists>k. (k, nearest_index (fold (try_attempt S data precalc clip_plane) as nearest))
                \<in> set (tested S data precalc clip_plane as nearest) \<and>
              candidate_dist S data precalc clip_plane
                (k, nearest_index (fold (try_attempt S data precalc clip_plane) as nearest)) =
              Some (nearest_dist_sq (fold (try_attempt S data precalc clip_plane) as nearest)))"
proof (induction as arbitrary: nearest)
  case Nil
  then show ?case by simp
next
  case (Cons a as)
  obtain skip k c where a: "a = (skip, k, c)" by (cases a) auto
  let ?n1 = "try_attempt S data precalc clip_plane a nearest"
  let ?n' = "fold (try_attempt S data precalc clip_plane) as ?n1"
  have step: "?n1 = nearest \<or>
      (\<not> (skip \<and> c = nearest_index nearest) \<and> nearest_index ?n1 = c \<and>
       candidate_dist S data precalc clip_plane (k, c) = Some (nearest_dist_sq ?n1))"
    by (auto simp add: try_attempt_def a test_projected_def candidate_dist_def
        split: option.splits prod.splits)
  from Cons.IH [of ?n1] consider
    (same) "nearest_index ?n' = nearest_index ?n1" "nearest_dist_sq ?n' = nearest_dist_sq ?n1"
    | (later) k' where "(k', nearest_index ?n') \<in> set (tested S data precalc clip_plane as ?n1)"
        "candidate_dist S data precalc clip_plane (k', nearest_index ?n') =
           Some (nearest_dist_sq ?n')"
    by blast
  then show ?case
  proof cases
    case same
    from step show ?thesis
    proof
      assume "?n1 = nearest"
      with same show ?thesis by simp
    next
      assume acc: "\<not> (skip \<and> c = nearest_index nearest) \<and> nearest_index ?n1 = c \<and>
        candidate_dist S data precalc clip_plane (k, c) = Some (nearest_dist_sq ?n1)"
      then have "(k, nearest_index ?n') \<in> set (tested S data precalc clip_plane (a # as) nearest)"
        using same by (auto simp add: a)
      moreover from acc same have "candidate_dist S data precalc clip_plane
          (k, nearest_index ?n') = Some (nearest_dist_sq ?n')"
        by simp
      ultimately show ?thesis by auto
    qed
  next
    case later
    then have "(k', nearest_index ?n') \<in> set (tested S data precalc clip_plane (a # as) nearest)"
      by simp
    with later(2) show ?thesis by auto
  qed
qed

lemma try_attempt_inv:
  fixes nearest :: "('f::linorder) BVHTreeNearest"
  assumes "\<forall>k. candidate S data precalc clip_plane k (- 1) = None"
    and "nearest_index nearest = - 1 \<and> nearest_dist_sq nearest = thr \<or>
         nearest_index nearest \<noteq> - 1 \<and> nearest_dist_sq nearest < thr"
  shows "nearest_index (try_attempt S data precalc clip_plane a nearest) = - 1 \<and>
         nearest_dist_sq (try_attempt S data precalc clip_plane a nearest) = thr \<or>
         nearest_index (try_attempt S data precalc clip_plane a nearest) \<noteq> - 1 \<and>
         nearest_dist_sq (try_attempt S data precalc clip_plane a nearest) < thr"
proof -
  obtain skip k c where a: "a = (skip, k, c)" by (cases a) auto
  show ?thesis
  proof (cases "skip \<and> c = nearest_index nearest")
    case True
    with assms(2) show ?thesis by (simp add: try_attempt_def a)
  next
    case False
    then have t: "try_attempt S data precalc clip_plane a nearest =
        test_projected (candidate S data precalc clip_plane k c) c nearest"
      by (auto simp add: try_attempt_def a)
    show ?thesis
    proof (cases "candidate S data precalc clip_plane k c")
      case None
      with assms(2) show ?thesis by (simp add: t test_projected_def)
    next
      case (Some cand)
      obtain d co no where cand: "cand = (d, co, no)" by (cases cand) auto
      from Some assms(1) have c: "c \<noteq> - 1" by auto
      show ?thesis
      proof (cases "d < nearest_dist_sq nearest")
        case True
        with assms(2) have "d < thr" by auto
        with True c show ?thesis by (simp add: t test_projected_def Some cand)
      next
        case False
        with assms(2) show ?thesis by (simp add: t test_projected_def Some cand)
      qed
    qed
  qed
qed

lemma fold_try_attempt_inv:
  fixes nearest :: "('f::linorder) BVHTreeNearest"
  assumes "\<forall>k. candidate S data precalc clip_plane k (- 1) = None"
    and "nearest_index nearest = - 1 \<and> nearest_dist_sq nearest = thr \<or>
         nearest_index nearest \<noteq> - 1 \<and> nearest_dist_sq nearest < thr"
  shows "nearest_index (fold (try_attempt S data precalc clip_plane) as nearest) = - 1 \<and>
         nearest_dist_sq (fold (try_attempt S data precalc clip_plane) as nearest) = thr \<or>
         nearest_index (fold (try_attempt S data precalc clip_plane) as nearest) \<noteq> - 1 \<and>
         nearest_dist_sq (fold (try_attempt S data precalc clip_plane) as nearest) < thr"
  using assms(2)
proof (induction as arbitrary: nearest)
  case Nil
  then show ?case by simp
next
  case (Cons a as)
  from try_attempt_inv [OF assms(1) Cons.prems, of a]
  have "nearest_index (try_attempt S data precalc clip_plane a nearest) = - 1 \<and>
         nearest_dist_sq (try_attempt S data precalc clip_plane a nearest) = thr \<or>
         nearest_index (try_attempt S data precalc clip_plane a nearest) \<noteq> - 1 \<and>
         nearest_dist_sq (try_attempt S data precalc clip_plane a nearest) < thr" .
  from Cons.IH [OF this] show ?case by simp
qed

lemma snapMesh_spec_result:
  fixes X :: "('f::{linorder,zero}) ext"
  shows "snapMesh (spec_callbacks S X) sctx ob_eval me_eval obmat use_hide =
     (if totvert me_eval = 0 then (SCE_SNAP_TO_NONE, None)
      else if totedge me_eval = 0 \<and> snap_to_flag (runtime sctx) \<inter> SCE_SNAP_TO_VERTEX = {}
      then (SCE_SNAP_TO_NONE, None)
      else if ob_data ob_eval = me_addr me_eval \<and>
              \<not> snap_boundbox X (Nearest2dUserData_Mesh_ctor X sctx ob_eval me_eval obmat)
                   (vec (BKE_mesh_boundbox_get X ob_eval) 0)
                   (vec (BKE_mesh_boundbox_get X ob_eval) 6)
      then (SCE_SNAP_TO_NONE, Some (Nearest2dUserData_Mesh_ctor X sctx ob_eval me_eval obmat))
      else if nearest_index (fst (snapMesh_search (spec_callbacks S X) sctx me_eval
                (clip_planes_enable X (Nearest2dUserData_Mesh_ctor X sctx ob_eval me_eval obmat))
                use_hide)) \<noteq> - 1
      then (snd (snapMesh_search (spec_callbacks S X) sctx me_eval
                (clip_planes_enable X (Nearest2dUserData_Mesh_ctor X sctx ob_eval me_eval obmat))
                use_hide),
            Some ((clip_planes_enable X
                    (Nearest2dUserData_Mesh_ctor X sctx ob_eval me_eval obmat))
                  \<lparr>nearest_point := fst (snapMesh_search (spec_callbacks S X) sctx me_eval
                     (clip_planes_enable X
                        (Nearest2dUserData_Mesh_ctor X sctx ob_eval me_eval obmat))
                     use_hide)\<rparr>))
      else (SCE_SNAP_TO_NONE,
            Some (clip_planes_enable X
                    (Nearest2dUserData_Mesh_ctor X sctx ob_eval me_eval obmat))))"
proof -
  have c: "Nearest2dUserData_Mesh_ctor (spec_callbacks S X) sctx ob_eval me_eval obmat =
      Nearest2dUserData_Mesh_ctor X sctx ob_eval me_eval obmat"
    by (simp add: Nearest2dUserData_Mesh_ctor_def)
  show ?thesis
    by (simp add: snapMesh_def c Let_def case_prod_beta)
qed

lemma ex_attempts:
  "snapMesh_attempts ex_S ex_X ex_sctx ex_quad ex_nearest2d False =
     [(True, Vert, 2), (True, Vert, 1), (True, Vert, 0),
      (True, Vert, 3), (True, Vert, 2), (True, Vert, 0),
      (True, Vert, 2), (True, Vert, 1), (True, Vert, 0)]"
  by (simp add: snapMesh_attempts_def search_attempts_def leaf_attempts_def Let_def
      snap_object_data_mesh_get_def get_tri_verts_index_def tri_backface_culled_def
      get_vert_co_def ex_nearest2d_eq ex_defs ex_S_def ex_precalc_def snap_mode_defs)

lemma ex_tested:
  "tested ex_S ex_nearest2d ex_precalc []
     [(True, Vert, 2), (True, Vert, 1), (True, Vert, 0),
      (True, Vert, 3), (True, Vert, 2), (True, Vert, 0),
      (True, Vert, 2), (True, Vert, 1), (True, Vert, 0)] ex_nearest =
   [(Vert, 2), (Vert, 1), (Vert, 0), (Vert, 3), (Vert, 2), (Vert, 0), (Vert, 2), (Vert, 0)]"
  by (simp add: try_attempt_def test_projected_def ex_nearest_def ex_nearest2d_eq ex_S_def
      ex_quad_def ex_dist_sq_def)

lemma ex_run:
  "run_attempts ex_S ex_sctx ex_nearest2d
     [(True, Vert, 2), (True, Vert, 1), (True, Vert, 0),
      (True, Vert, 3), (True, Vert, 2), (True, Vert, 0),
      (True, Vert, 2), (True, Vert, 1), (True, Vert, 0)] ex_nearest =
   \<lparr>nearest_index = 1, nearest_co = (1, 0, 0), nearest_no = (0, 0, 1),
    nearest_dist_sq = 1 / 50\<rparr>"
  by (simp add: run_attempts_def try_attempt_def test_projected_def ex_nearest_def
      ex_nearest2d_eq ex_S_def ex_quad_def ex_dist_sq_def)


text \<open>The three stages of \<^verbatim>\<open>snap_object_mesh\<close> as one cascade.\<close>

lemma snap_object_mesh_calls_eq:
  fixes X :: "('f::{ord,zero,plus,minus,times,inverse}) ext"
    and sctx ob_eval me_eval obmat flags use_hide
  defines "used \<equiv> flags \<inter> mesh_snap_mode_supported me_eval"
  defines "c1 \<equiv> used \<inter> (SCE_SNAP_TO_EDGE \<union> SCE_SNAP_TO_EDGE_MIDPOINT \<union>
                 SCE_SNAP_TO_EDGE_PERPENDICULAR \<union> SCE_SNAP_TO_VERTEX) \<noteq> {}"
  defines "c2 \<equiv> used \<inter> SCE_SNAP_TO_FACE \<noteq> {}"
  defines "c3 \<equiv> used \<inter> SCE_SNAP_INDIVIDUAL_NEAREST \<noteq> {}"
  defines "e \<equiv> fst (snapMesh X sctx ob_eval me_eval obmat use_hide)"
  defines "r2 \<equiv> raycastMesh X
                 (sctx\<lparr>runtime := (runtime sctx)
                    \<lparr>object_index := object_index (runtime sctx) + 1\<rparr>\<rparr>)
                 ob_eval me_eval obmat (object_index (runtime sctx)) use_hide"
  defines "s2 \<equiv> if c2 then snd r2 else sctx"
  defines "r3 \<equiv> nearest_world_mesh X s2 me_eval obmat use_hide"
  shows "snap_object_mesh_calls X sctx ob_eval me_eval obmat flags use_hide =
     (if c1 \<and> e \<noteq> {} then (e, sctx, [(SnapMesh, True)])
      else if c2 \<and> fst r2 then
        (SCE_SNAP_TO_FACE, snd r2,
         (if c1 then [(SnapMesh, False)] else []) @ [(RaycastMesh, True)])
      else if c3 \<and> fst r3 then
        (SCE_SNAP_INDIVIDUAL_NEAREST, snd r3,
         (if c1 then [(SnapMesh, False)] else []) @
         (if c2 then [(RaycastMesh, False)] else []) @ [(NearestWorldMesh, True)])
      else
        (SCE_SNAP_TO_NONE, (if c3 then snd r3 else s2),
         (if c1 then [(SnapMesh, False)] else []) @
         (if c2 then [(RaycastMesh, False)] else []) @
         (if c3 then [(NearestWorldMesh, False)] else [])))"
  unfolding used_def c1_def c2_def c3_def e_def r2_def s2_def r3_def
  by (simp add: snap_object_mesh_calls_def Let_def case_prod_beta SCE_SNAP_TO_NONE_def)

text \<open>The example square under the smaller snapping distance, and under a shallow ray.\<close>

lemma ex_snapMesh_near:
  "fst (snapMesh ex_X ex_sctx_near ex_ob ex_quad ex_obmat False) = SCE_SNAP_TO_NONE"
proof -
  have s: "snapMesh_search ex_X ex_sctx_near ex_quad
      (clip_planes_enable ex_X
         (Nearest2dUserData_Mesh_ctor ex_X ex_sctx_near ex_ob ex_quad ex_obmat))
      False =
    (\<lparr>nearest_index = - 1, nearest_co = (0, 0, 0), nearest_no = (0, 0, 0),
      nearest_dist_sq = 1 / 100\<rparr>, SCE_SNAP_TO_VERTEX)"
    by (simp add: snapMesh_search_def ex_sctx_near_def ex_defs Let_def
        snap_object_data_mesh_get_def
        find_nearest_projected_def cb_snap_tri_verts_def Nearest2dUserData_Mesh_ctor_def
        get_tri_verts_index_def tri_backface_culled_def get_vert_co_def snap_mode_defs
        numeral_3_eq_3)
  show ?thesis
    by (simp add: snapMesh_def s Let_def)
qed

lemma ex_raycastMesh_near:
  "raycastMesh ex_X
     (ex_sctx_near\<lparr>runtime := (runtime ex_sctx_near)
        \<lparr>object_index := object_index (runtime ex_sctx_near) + 1\<rparr>\<rparr>)
     ex_ob ex_quad ex_obmat (object_index (runtime ex_sctx_near)) False =
   (True,
    ex_sctx_near\<lparr>runtime := (runtime ex_sctx_near)\<lparr>object_index := 8\<rparr>,
       ret := (ret ex_sctx_near)\<lparr>ret_loc := (1 / 4, 1 / 4, 0), ret_no := (0, 0, 1),
         ray_depth_max := 5, ret_index := 0\<rparr>\<rparr>)"
  by (simp add: raycastMesh_def raycastMesh_locals_def ex_sctx_near_def ex_defs Let_def
      snap_object_data_mesh_get_def mesh_looptri_raycast_backface_culling_cb_def)

lemma ex_calls_near:
  "snap_object_mesh_calls ex_X ex_sctx_near ex_ob ex_quad ex_obmat {TO_VERTEX, TO_FACE} False =
     (SCE_SNAP_TO_FACE,
      ex_sctx_near\<lparr>runtime := (runtime ex_sctx_near)\<lparr>object_index := 8\<rparr>,
        ret := (ret ex_sctx_near)\<lparr>ret_loc := (1 / 4, 1 / 4, 0), ret_no := (0, 0, 1),
          ray_depth_max := 5, ret_index := 0\<rparr>\<rparr>,
      [(SnapMesh, False), (RaycastMesh, True)])"
  by (simp add: snap_object_mesh_calls_def ex_snapMesh_near ex_raycastMesh_near Let_def
      mesh_snap_mode_supported_eq)
     (simp add: snap_mode_defs ex_quad_def)

lemma ex_raycastMesh_shallow:
  "raycastMesh ex_X (ex_sctx\<lparr>ret := (ret ex_sctx)\<lparr>ray_depth_max := 1\<rparr>\<rparr>) ex_ob ex_quad ex_obmat
     7 False = (False, ex_sctx\<lparr>ret := (ret ex_sctx)\<lparr>ray_depth_max := 1\<rparr>\<rparr>)"
  by (simp add: raycastMesh_def raycastMesh_locals_def ex_defs Let_def
      snap_object_data_mesh_get_def mesh_looptri_raycast_backface_culling_cb_def)

text \<open>The kind of element \<^verbatim>\<open>snapMesh\<close> returns follows the snap mode of the run.\<close>

lemma snapMesh_search_edge_flag:
  "snd (snapMesh_search X sctx me_eval nearest2d use_hide) = SCE_SNAP_TO_EDGE \<Longrightarrow>
     TO_EDGE \<in> snap_to_flag (runtime sctx)"
  by (simp add: snapMesh_search_def Let_def case_prod_beta snap_mode_defs split: if_splits)

lemma snapMesh_search_vertex_flag:
  assumes "snd (snapMesh_search X sctx me_eval nearest2d use_hide) = SCE_SNAP_TO_VERTEX"
    and "nearest_index (fst (snapMesh_search X sctx me_eval nearest2d use_hide)) \<noteq> - 1"
  shows "TO_VERTEX \<in> snap_to_flag (runtime sctx) \<or> TO_EDGE \<notin> snap_to_flag (runtime sctx)"
proof (rule ccontr)
  assume "\<not> ?thesis"
  then have f: "TO_VERTEX \<notin> snap_to_flag (runtime sctx)" "TO_EDGE \<in> snap_to_flag (runtime sctx)"
    by simp_all
  from assms show False
    by (simp add: snapMesh_search_def Let_def case_prod_beta snap_mode_defs f split: if_splits)
qed

lemma snapMesh_elem_flag:
  "(fst (snapMesh X sctx ob_eval me_eval obmat use_hide) = SCE_SNAP_TO_EDGE \<longrightarrow>
      TO_EDGE \<in> snap_to_flag (runtime sctx)) \<and>
   (fst (snapMesh X sctx ob_eval me_eval obmat use_hide) = SCE_SNAP_TO_VERTEX \<longrightarrow>
      TO_VERTEX \<in> snap_to_flag (runtime sctx) \<or> TO_EDGE \<notin> snap_to_flag (runtime sctx))"
  using snapMesh_search_edge_flag [of X sctx me_eval
      "clip_planes_enable X (Nearest2dUserData_Mesh_ctor X sctx ob_eval me_eval obmat)" use_hide]
    snapMesh_search_vertex_flag [of X sctx me_eval
      "clip_planes_enable X (Nearest2dUserData_Mesh_ctor X sctx ob_eval me_eval obmat)" use_hide]
  by (auto simp add: snapMesh_def Let_def case_prod_beta snap_mode_defs split: if_splits)

lemma callbacks_without_edges:
  "find_nearest_projected (X\<lparr>cb_snap_edge := g\<rparr>) = find_nearest_projected X"
  "cb_snap_edge_verts (X\<lparr>cb_snap_edge := g\<rparr>) = cb_snap_edge_verts X"
  "cb_snap_tri_verts (X\<lparr>cb_snap_edge := g\<rparr>) = cb_snap_tri_verts X"
  "snap_object_data_mesh_get (X\<lparr>cb_snap_edge := g\<rparr>) = snap_object_data_mesh_get X"
  "Nearest2dUserData_Mesh_ctor (X\<lparr>cb_snap_edge := g\<rparr>) = Nearest2dUserData_Mesh_ctor X"
  by (intro ext, simp add: find_nearest_projected_def cb_snap_edge_verts_def
      cb_snap_tri_verts_def tri_backface_culled_def Nearest2dUserData_Mesh_ctor_def
      snap_object_data_mesh_get_def Let_def)+

lemma callbacks_without_verts:
  "find_nearest_projected (X\<lparr>cb_snap_vert := g\<rparr>) = find_nearest_projected X"
  "cb_snap_tri_edges (X\<lparr>cb_snap_vert := g\<rparr>) = cb_snap_tri_edges X"
  "snap_object_data_mesh_get (X\<lparr>cb_snap_vert := g\<rparr>) = snap_object_data_mesh_get X"
  "Nearest2dUserData_Mesh_ctor (X\<lparr>cb_snap_vert := g\<rparr>) = Nearest2dUserData_Mesh_ctor X"
  by (intro ext, simp add: find_nearest_projected_def cb_snap_tri_edges_def
      tri_backface_culled_def Nearest2dUserData_Mesh_ctor_def
      snap_object_data_mesh_get_def Let_def)+

lemma snapMesh_without_edges:
  fixes X :: "('f::zero) ext"
  assumes "TO_EDGE \<notin> snap_to_flag (runtime sctx)"
  shows "snapMesh (X\<lparr>cb_snap_edge := g\<rparr>) sctx ob_eval me_eval obmat use_hide =
         snapMesh X sctx ob_eval me_eval obmat use_hide"
proof -
  have "snapMesh_search (X\<lparr>cb_snap_edge := g\<rparr>) sctx me_eval n use_hide =
        snapMesh_search X sctx me_eval n use_hide" for n
    using assms
    by (simp add: snapMesh_search_def snap_mode_defs callbacks_without_edges Let_def
        cong: option.case_cong)
  then show ?thesis
    by (simp add: snapMesh_def callbacks_without_edges Let_def)
qed

lemma snapMesh_without_verts:
  fixes X :: "('f::zero) ext"
  assumes "TO_EDGE \<in> snap_to_flag (runtime sctx)" and "TO_VERTEX \<notin> snap_to_flag (runtime sctx)"
  shows "snapMesh (X\<lparr>cb_snap_vert := g\<rparr>) sctx ob_eval me_eval obmat use_hide =
         snapMesh X sctx ob_eval me_eval obmat use_hide"
proof -
  have "snapMesh_search (X\<lparr>cb_snap_vert := g\<rparr>) sctx me_eval n use_hide =
        snapMesh_search X sctx me_eval n use_hide" for n
    using assms
    by (simp add: snapMesh_search_def snap_mode_defs callbacks_without_verts Let_def
        cong: option.case_cong)
  then show ?thesis
    by (simp add: snapMesh_def callbacks_without_verts Let_def)
qed

lemma snap_object_mesh_elem_cases:
  fixes X :: "('f::{ord,zero,plus,minus,times,inverse}) ext"
  shows "fst (snap_object_mesh X sctx ob_eval me_eval obmat flags use_hide) = SCE_SNAP_TO_NONE \<or>
    fst (snap_object_mesh X sctx ob_eval me_eval obmat flags use_hide) =
      fst (snapMesh X sctx ob_eval me_eval obmat use_hide) \<or>
    fst (snap_object_mesh X sctx ob_eval me_eval obmat flags use_hide) = SCE_SNAP_TO_FACE \<and>
      flags \<inter> mesh_snap_mode_supported me_eval \<inter> SCE_SNAP_TO_FACE \<noteq> {} \<or>
    fst (snap_object_mesh X sctx ob_eval me_eval obmat flags use_hide) =
      SCE_SNAP_INDIVIDUAL_NEAREST \<and>
      flags \<inter> mesh_snap_mode_supported me_eval \<inter> SCE_SNAP_INDIVIDUAL_NEAREST \<noteq> {}"
  unfolding snap_object_mesh_def snap_object_mesh_calls_eq
  by (simp add: snap_mode_defs)

text \<open>The example square under the edge mode and under the vertex mode.\<close>

lemma ex_snapMesh_edge:
  "fst (snapMesh ex_X ex_sctx_edge ex_ob ex_quad ex_obmat False) = SCE_SNAP_TO_EDGE"
proof -
  have s: "snapMesh_search ex_X ex_sctx_edge ex_quad
      (clip_planes_enable ex_X
         (Nearest2dUserData_Mesh_ctor ex_X ex_sctx_edge ex_ob ex_quad ex_obmat))
      False =
    (\<lparr>nearest_index = 1, nearest_co = (0, 0, 0), nearest_no = (0, 0, 0),
      nearest_dist_sq = 1 / 50\<rparr>, SCE_SNAP_TO_EDGE)"
    by (simp add: snapMesh_search_def ex_sctx_edge_def ex_defs Let_def
        snap_object_data_mesh_get_def
        find_nearest_projected_def cb_snap_tri_edges_def Nearest2dUserData_Mesh_ctor_def
        get_tri_verts_index_def tri_backface_culled_def get_vert_co_def snap_mode_defs
        get_tri_edges_index_unrolled side_entry_def tri_side_edge_def ELEM_def
        numeral_3_eq_3)
  show ?thesis
    by (simp add: snapMesh_def s Let_def) (simp add: ex_sctx_edge_def ex_defs)
qed

lemma ex_snap_object_mesh_edge:
  "snap_object_mesh ex_X ex_sctx_edge ex_ob ex_quad ex_obmat SCE_SNAP_TO_VERTEX False =
     (SCE_SNAP_TO_EDGE, ex_sctx_edge)"
  "snap_object_mesh ex_X ex_sctx_edge ex_ob ex_quad ex_obmat SCE_SNAP_TO_EDGE False =
     (SCE_SNAP_TO_EDGE, ex_sctx_edge)"
proof -
  have u: "SCE_SNAP_TO_VERTEX \<inter> mesh_snap_mode_supported ex_quad \<inter>
      (SCE_SNAP_TO_EDGE \<union> SCE_SNAP_TO_EDGE_MIDPOINT \<union> SCE_SNAP_TO_EDGE_PERPENDICULAR \<union>
       SCE_SNAP_TO_VERTEX) \<noteq> {}"
    "SCE_SNAP_TO_EDGE \<inter> mesh_snap_mode_supported ex_quad \<inter>
      (SCE_SNAP_TO_EDGE \<union> SCE_SNAP_TO_EDGE_MIDPOINT \<union> SCE_SNAP_TO_EDGE_PERPENDICULAR \<union>
       SCE_SNAP_TO_VERTEX) \<noteq> {}"
    "SCE_SNAP_TO_EDGE \<noteq> {}"
    by (simp_all add: mesh_snap_mode_supported_eq snap_mode_defs ex_quad_def)
  show "snap_object_mesh ex_X ex_sctx_edge ex_ob ex_quad ex_obmat SCE_SNAP_TO_VERTEX False =
     (SCE_SNAP_TO_EDGE, ex_sctx_edge)"
    "snap_object_mesh ex_X ex_sctx_edge ex_ob ex_quad ex_obmat SCE_SNAP_TO_EDGE False =
     (SCE_SNAP_TO_EDGE, ex_sctx_edge)"
    by (simp_all add: snap_object_mesh_def snap_object_mesh_calls_eq u ex_snapMesh_edge)
qed

lemma ex_snapMesh_vertex:
  "fst (snapMesh ex_X ex_sctx ex_ob ex_quad ex_obmat False) = SCE_SNAP_TO_VERTEX"
proof -
  have s: "snapMesh_search ex_X ex_sctx ex_quad
      (clip_planes_enable ex_X (Nearest2dUserData_Mesh_ctor ex_X ex_sctx ex_ob ex_quad ex_obmat))
      False =
    (\<lparr>nearest_index = 1, nearest_co = (1, 0, 0), nearest_no = (0, 0, 1),
      nearest_dist_sq = 1 / 50\<rparr>, SCE_SNAP_TO_VERTEX)"
    by (simp add: snapMesh_search_def ex_defs Let_def snap_object_data_mesh_get_def
        find_nearest_projected_def cb_snap_tri_verts_def Nearest2dUserData_Mesh_ctor_def
        get_tri_verts_index_def tri_backface_culled_def get_vert_co_def snap_mode_defs
        numeral_3_eq_3)
  show ?thesis
    by (simp add: snapMesh_def s Let_def) (simp add: ex_defs)
qed

lemma ex_calls_vertex:
  "snap_object_mesh_calls ex_X ex_sctx ex_ob ex_quad ex_obmat {TO_VERTEX, TO_FACE} False =
     (SCE_SNAP_TO_VERTEX, ex_sctx, [(SnapMesh, True)])"
  by (simp add: snap_object_mesh_calls_def ex_snapMesh_vertex Let_def
      mesh_snap_mode_supported_eq)
     (simp add: snap_mode_defs ex_quad_def)

text \<open>The three stages on the square, each of the first two failing.\<close>

lemma ex_calls_far:
  "snap_object_mesh_calls ex_X ex_sctx_far ex_ob ex_quad ex_obmat
     {TO_VERTEX, TO_FACE, INDIVIDUAL_NEAREST} False =
     (SCE_SNAP_INDIVIDUAL_NEAREST,
      ex_sctx_far\<lparr>runtime := (runtime ex_sctx_far)\<lparr>object_index := 8\<rparr>,
        ret := (ret ex_sctx_far)\<lparr>ret_index := 0\<rparr>\<rparr>,
      [(SnapMesh, False), (RaycastMesh, False), (NearestWorldMesh, True)])"
proof -
  have s: "snapMesh_search ex_X ex_sctx_far ex_quad
      (clip_planes_enable ex_X
         (Nearest2dUserData_Mesh_ctor ex_X ex_sctx_far ex_ob ex_quad ex_obmat))
      False =
    (\<lparr>nearest_index = - 1, nearest_co = (0, 0, 0), nearest_no = (0, 0, 0),
      nearest_dist_sq = 1 / 100\<rparr>, SCE_SNAP_TO_VERTEX)"
    by (simp add: snapMesh_search_def ex_sctx_far_def ex_defs Let_def
        snap_object_data_mesh_get_def
        find_nearest_projected_def cb_snap_tri_verts_def Nearest2dUserData_Mesh_ctor_def
        get_tri_verts_index_def tri_backface_culled_def get_vert_co_def snap_mode_defs
        numeral_3_eq_3)
  have m: "fst (snapMesh ex_X ex_sctx_far ex_ob ex_quad ex_obmat False) = {}"
    by (simp add: snapMesh_def s Let_def snap_mode_defs)
  have r: "raycastMesh ex_X
     (ex_sctx_far\<lparr>runtime := (runtime ex_sctx_far)
        \<lparr>object_index := object_index (runtime ex_sctx_far) + 1\<rparr>\<rparr>)
     ex_ob ex_quad ex_obmat (object_index (runtime ex_sctx_far)) False =
   (False, ex_sctx_far\<lparr>runtime := (runtime ex_sctx_far)\<lparr>object_index := 8\<rparr>\<rparr>)"
    by (simp add: raycastMesh_def raycastMesh_locals_def ex_sctx_far_def ex_defs Let_def
      snap_object_data_mesh_get_def mesh_looptri_raycast_backface_culling_cb_def)
  have n: "nearest_world_mesh ex_X
      (ex_sctx_far\<lparr>runtime := (runtime ex_sctx_far)\<lparr>object_index := 8\<rparr>\<rparr>)
      ex_quad ex_obmat False =
    (True, ex_sctx_far\<lparr>runtime := (runtime ex_sctx_far)\<lparr>object_index := 8\<rparr>,
        ret := (ret ex_sctx_far)\<lparr>ret_index := 0\<rparr>\<rparr>)"
    by (simp add: nearest_world_mesh_def snap_object_data_mesh_get_def ex_X_def ex_quad_def
        ex_sctx_far_def ex_sctx_def)
  have u: "{TO_VERTEX, TO_FACE, INDIVIDUAL_NEAREST} \<inter> mesh_snap_mode_supported ex_quad \<inter>
      (SCE_SNAP_TO_EDGE \<union> SCE_SNAP_TO_EDGE_MIDPOINT \<union> SCE_SNAP_TO_EDGE_PERPENDICULAR \<union>
       SCE_SNAP_TO_VERTEX) \<noteq> {}"
    "{TO_VERTEX, TO_FACE, INDIVIDUAL_NEAREST} \<inter> mesh_snap_mode_supported ex_quad \<inter>
      SCE_SNAP_TO_FACE \<noteq> {}"
    "{TO_VERTEX, TO_FACE, INDIVIDUAL_NEAREST} \<inter> mesh_snap_mode_supported ex_quad \<inter>
      SCE_SNAP_INDIVIDUAL_NEAREST \<noteq> {}"
    by (simp_all add: mesh_snap_mode_supported_eq snap_mode_defs ex_quad_def)
  show ?thesis
    by (simp add: snap_object_mesh_calls_eq u m r n)
qed




section \<open>Empty geometry and missing trees\<close>

text \<open>
  Claim C8. \<^verbatim>\<open>raycastMesh\<close> returns \<^verbatim>\<open>false\<close> and leaves the context as it is when
  the mesh has no polygon. \<^verbatim>\<open>snapMesh\<close> returns \<^verbatim>\<open>SCE_SNAP_TO_NONE\<close> when the mesh
  has no vertex, or has no edge while vertex snapping is not requested; it returns
  before the object \<^verbatim>\<open>nearest2d\<close> exists, and it never assigns to the context. Both
  hold whatever the functions called compute, so nothing is called before.
\<close>

theorem empty_geometry_fails_unchanged:
  "(totpoly me_eval = 0 \<longrightarrow>
      raycastMesh X sctx ob_eval me_eval obmat ob_index use_hide = (False, sctx)) \<and>
   (totvert me_eval = 0 \<or>
    totedge me_eval = 0 \<and> snap_to_flag (runtime sctx) \<inter> SCE_SNAP_TO_VERTEX = {} \<longrightarrow>
      snapMesh X sctx ob_eval me_eval obmat use_hide = (SCE_SNAP_TO_NONE, None))"
  by (auto simp add: raycastMesh_def snapMesh_def)

theorem empty_geometry_fails_unchanged_witness:
  "totpoly ex_empty = 0 \<and>
   raycastMesh ex_X ex_sctx ex_ob ex_empty ex_obmat 7 False = (False, ex_sctx) \<and>
   totvert ex_empty = 0 \<and>
   snapMesh ex_X ex_sctx ex_ob ex_empty ex_obmat False = (SCE_SNAP_TO_NONE, None) \<and>
   totedge (ex_quad\<lparr>totedge := 0\<rparr>) = 0 \<and>
   snap_to_flag (runtime (ex_sctx\<lparr>runtime := (runtime ex_sctx)\<lparr>snap_to_flag := {TO_EDGE}\<rparr>\<rparr>))
     \<inter> SCE_SNAP_TO_VERTEX = {} \<and>
   snapMesh ex_X (ex_sctx\<lparr>runtime := (runtime ex_sctx)\<lparr>snap_to_flag := {TO_EDGE}\<rparr>\<rparr>) ex_ob
     (ex_quad\<lparr>totedge := 0\<rparr>) ex_obmat False = (SCE_SNAP_TO_NONE, None)"
proof -
  have h1: "totpoly ex_empty = 0" and h2: "totvert ex_empty = 0"
    by (simp_all add: ex_empty_def)
  have h3: "totedge (ex_quad\<lparr>totedge := 0\<rparr>) = 0" by simp
  have h4: "snap_to_flag (runtime (ex_sctx\<lparr>runtime := (runtime ex_sctx)
      \<lparr>snap_to_flag := {TO_EDGE}\<rparr>\<rparr>)) \<inter> SCE_SNAP_TO_VERTEX = {}"
    by (simp add: SCE_SNAP_TO_VERTEX_def)
  from h1 h2 h3 h4
    empty_geometry_fails_unchanged [where me_eval = ex_empty and X = ex_X and sctx = ex_sctx
      and ob_eval = ex_ob and obmat = ex_obmat and ob_index = 7 and use_hide = False]
    empty_geometry_fails_unchanged [where me_eval = "ex_quad\<lparr>totedge := 0\<rparr>" and X = ex_X
      and sctx = "ex_sctx\<lparr>runtime := (runtime ex_sctx)\<lparr>snap_to_flag := {TO_EDGE}\<rparr>\<rparr>"
      and ob_eval = ex_ob and obmat = ex_obmat and ob_index = 7 and use_hide = False]
  show ?thesis by blast
qed

text \<open>
  Claim C7. When the tree of looptris obtained for the mesh is null,
  \<^verbatim>\<open>nearest_world_mesh\<close> returns \<^verbatim>\<open>false\<close> and so does \<^verbatim>\<open>raycastMesh\<close>, both leaving
  the context as it is (no hit is stored); when the tree is not null,
  \<^verbatim>\<open>nearest_world_mesh\<close> returns what \<^verbatim>\<open>nearest_world_tree\<close> returns on that tree.
\<close>

theorem null_tree_fails:
  "(bvh_tree (snap_object_data_mesh_get X me_eval use_hide) = None \<longrightarrow>
      nearest_world_mesh X sctx me_eval obmat use_hide = (False, sctx) \<and>
      raycastMesh X sctx ob_eval me_eval obmat ob_index use_hide = (False, sctx)) \<and>
   (\<forall>tree. bvh_tree (snap_object_data_mesh_get X me_eval use_hide) = Some tree \<longrightarrow>
      nearest_world_mesh X sctx me_eval obmat use_hide =
        nearest_world_tree X sctx tree
          (bvh_nearest_callback (snap_object_data_mesh_get X me_eval use_hide))
          (snap_object_data_mesh_get X me_eval use_hide) obmat)"
  by (auto simp add: raycastMesh_def nearest_world_mesh_def Let_def split: option.splits)

theorem null_tree_fails_witness:
  "bvh_tree (snap_object_data_mesh_get ex_X ex_quad True) = None \<and>
   nearest_world_mesh ex_X ex_sctx ex_quad ex_obmat True = (False, ex_sctx) \<and>
   raycastMesh ex_X ex_sctx ex_ob ex_quad ex_obmat 7 True = (False, ex_sctx) \<and>
   bvh_tree (snap_object_data_mesh_get ex_X ex_quad False) = Some 1 \<and>
   nearest_world_mesh ex_X ex_sctx ex_quad ex_obmat False =
     (True, ex_sctx\<lparr>ret := (ret ex_sctx)\<lparr>ret_index := 0\<rparr>\<rparr>)"
proof -
  have h1: "bvh_tree (snap_object_data_mesh_get ex_X ex_quad True) = None"
    by (simp add: snap_object_data_mesh_get_def ex_X_def)
  have h2: "bvh_tree (snap_object_data_mesh_get ex_X ex_quad False) = Some 1"
    by (simp add: snap_object_data_mesh_get_def ex_X_def ex_quad_def)
  have ev: "nearest_world_tree ex_X ex_sctx 1
          (bvh_nearest_callback (snap_object_data_mesh_get ex_X ex_quad False))
          (snap_object_data_mesh_get ex_X ex_quad False) ex_obmat =
     (True, ex_sctx\<lparr>ret := (ret ex_sctx)\<lparr>ret_index := 0\<rparr>\<rparr>)"
    by (simp add: ex_X_def)
  from h1 h2 ev null_tree_fails [where X = ex_X and me_eval = ex_quad and use_hide = True and sctx = ex_sctx
      and obmat = ex_obmat and ob_eval = ex_ob and ob_index = 7]
    null_tree_fails [where X = ex_X and me_eval = ex_quad and use_hide = False
      and sctx = ex_sctx and obmat = ex_obmat and ob_eval = ex_ob and ob_index = 7]
  show ?thesis by simp
qed

section \<open>Ray cast in single-hit mode\<close>

text \<open>
  Claim C2. In single-hit mode (\<^verbatim>\<open>sctx->ret.hit_list\<close> is null) \<^verbatim>\<open>raycastMesh\<close> returns
  \<^verbatim>\<open>false\<close>, with the context as it was, when it returns before the ray cast (no
  polygon, the bounding box missed, no tree). Otherwise, with \<open>r\<close> and \<open>hit\<close> what
  \<^verbatim>\<open>BLI_bvhtree_ray_cast\<close> returns and stores, it returns \<^verbatim>\<open>true\<close> exactly when the
  cast found a triangle (\<open>r \<noteq> -1\<close>) and \<open>(hit.dist + len_diff) / local_scale\<close> is at
  most \<^verbatim>\<open>sctx->ret.ray_depth_max\<close>. On success \<^verbatim>\<open>loc\<close> is the hit point multiplied
  by the object matrix, \<^verbatim>\<open>no\<close> the hit normal multiplied by the transposed inverse
  and normalised, \<^verbatim>\<open>index\<close> is \<^verbatim>\<open>looptri_polys[hit.index]\<close>, and \<^verbatim>\<open>ray_depth_max\<close>
  is that distance, which is not above the previous \<^verbatim>\<open>ray_depth_max\<close>; on failure
  the context is as it was.
\<close>

theorem raycastMesh_single_hit:
  assumes "hit_list (ret sctx) = None"
  shows
    "(totpoly me_eval = 0 \<or> raycastMesh_locals X sctx ob_eval me_eval obmat = None \<or>
      bvh_tree (snap_object_data_mesh_get X me_eval use_hide) = None \<longrightarrow>
        raycastMesh X sctx ob_eval me_eval obmat ob_index use_hide = (False, sctx)) \<and>
     (\<forall>L tree r hit.
        totpoly me_eval \<noteq> 0 \<and> raycastMesh_locals X sctx ob_eval me_eval obmat = Some L \<and>
        bvh_tree (snap_object_data_mesh_get X me_eval use_hide) = Some tree \<and>
        BLI_bvhtree_ray_cast X tree (rl_ray_start_local L) (rl_ray_normal_local L) 0
          \<lparr>hit_index = - 1, hit_co = (0, 0, 0), hit_no = (0, 0, 0),
           hit_dist = rl_local_depth L\<rparr>
          (if use_backface_culling (params (runtime sctx))
           then mesh_looptri_raycast_backface_culling_cb X
                  (snap_object_data_mesh_get X me_eval use_hide)
           else bvh_raycast_callback (snap_object_data_mesh_get X me_eval use_hide)) = (r, hit)
        \<longrightarrow>
        (fst (raycastMesh X sctx ob_eval me_eval obmat ob_index use_hide) \<longleftrightarrow>
           r \<noteq> - 1 \<and>
           (hit_dist hit + rl_len_diff L) / rl_local_scale L \<le> ray_depth_max (ret sctx)) \<and>
        (fst (raycastMesh X sctx ob_eval me_eval obmat ob_index use_hide) \<longrightarrow>
           snd (raycastMesh X sctx ob_eval me_eval obmat ob_index use_hide) =
             sctx\<lparr>ret := (ret sctx)
               \<lparr>ret_loc := mul_m4_v3 X obmat (hit_co hit),
                ret_no := snd (normalize_v3 X
                  (mul_transposed_mat3_m4_v3 X (rl_imat L) (hit_no hit))),
                ray_depth_max := (hit_dist hit + rl_len_diff L) / rl_local_scale L,
                ret_index := looptri_polys me_eval (hit_index hit)\<rparr>\<rparr>)) \<and>
     (fst (raycastMesh X sctx ob_eval me_eval obmat ob_index use_hide) \<longrightarrow>
        ray_depth_max (ret (snd (raycastMesh X sctx ob_eval me_eval obmat ob_index use_hide)))
          \<le> ray_depth_max (ret sctx)) \<and>
     (\<not> fst (raycastMesh X sctx ob_eval me_eval obmat ob_index use_hide) \<longrightarrow>
        snd (raycastMesh X sctx ob_eval me_eval obmat ob_index use_hide) = sctx)"
proof -
  have early:
    "totpoly me_eval = 0 \<or> raycastMesh_locals X sctx ob_eval me_eval obmat = None \<or>
      bvh_tree (snap_object_data_mesh_get X me_eval use_hide) = None \<longrightarrow>
        raycastMesh X sctx ob_eval me_eval obmat ob_index use_hide = (False, sctx)"
    by (auto simp add: raycastMesh_def Let_def split: option.splits)
  have cast:
    "\<forall>L tree r hit.
        totpoly me_eval \<noteq> 0 \<and> raycastMesh_locals X sctx ob_eval me_eval obmat = Some L \<and>
        bvh_tree (snap_object_data_mesh_get X me_eval use_hide) = Some tree \<and>
        BLI_bvhtree_ray_cast X tree (rl_ray_start_local L) (rl_ray_normal_local L) 0
          \<lparr>hit_index = - 1, hit_co = (0, 0, 0), hit_no = (0, 0, 0),
           hit_dist = rl_local_depth L\<rparr>
          (if use_backface_culling (params (runtime sctx))
           then mesh_looptri_raycast_backface_culling_cb X
                  (snap_object_data_mesh_get X me_eval use_hide)
           else bvh_raycast_callback (snap_object_data_mesh_get X me_eval use_hide)) = (r, hit)
        \<longrightarrow>
        (fst (raycastMesh X sctx ob_eval me_eval obmat ob_index use_hide) \<longleftrightarrow>
           r \<noteq> - 1 \<and>
           (hit_dist hit + rl_len_diff L) / rl_local_scale L \<le> ray_depth_max (ret sctx)) \<and>
        (fst (raycastMesh X sctx ob_eval me_eval obmat ob_index use_hide) \<longrightarrow>
           snd (raycastMesh X sctx ob_eval me_eval obmat ob_index use_hide) =
             sctx\<lparr>ret := (ret sctx)
               \<lparr>ret_loc := mul_m4_v3 X obmat (hit_co hit),
                ret_no := snd (normalize_v3 X
                  (mul_transposed_mat3_m4_v3 X (rl_imat L) (hit_no hit))),
                ray_depth_max := (hit_dist hit + rl_len_diff L) / rl_local_scale L,
                ret_index := looptri_polys me_eval (hit_index hit)\<rparr>\<rparr>)"
    using assms by (simp add: raycastMesh_def Let_def)
  have mono:
    "fst (raycastMesh X sctx ob_eval me_eval obmat ob_index use_hide) \<longrightarrow>
        ray_depth_max (ret (snd (raycastMesh X sctx ob_eval me_eval obmat ob_index use_hide)))
          \<le> ray_depth_max (ret sctx)"
    using assms by (simp add: raycastMesh_def Let_def case_prod_beta split: option.split)
  have unchanged:
    "\<not> fst (raycastMesh X sctx ob_eval me_eval obmat ob_index use_hide) \<longrightarrow>
        snd (raycastMesh X sctx ob_eval me_eval obmat ob_index use_hide) = sctx"
    using assms by (simp add: raycastMesh_def Let_def case_prod_beta split: option.split)
  from early cast mono unchanged show ?thesis by (simp only: simp_thms)
qed

theorem raycastMesh_single_hit_witness:
  "hit_list (ret ex_sctx) = None \<and>
   raycastMesh ex_X ex_sctx ex_ob ex_quad ex_obmat 7 False =
     (True, ex_sctx\<lparr>ret := (ret ex_sctx)\<lparr>ret_loc := (1 / 4, 1 / 4, 0), ret_no := (0, 0, 1),
        ray_depth_max := 5, ret_index := 0\<rparr>\<rparr>) \<and>
   ray_depth_max (ret (snd (raycastMesh ex_X ex_sctx ex_ob ex_quad ex_obmat 7 False)))
     \<le> ray_depth_max (ret ex_sctx) \<and>
   raycastMesh ex_X ex_sctx ex_ob ex_empty ex_obmat 7 False = (False, ex_sctx) \<and>
   raycastMesh ex_X (ex_sctx\<lparr>ret := (ret ex_sctx)\<lparr>ray_depth_max := 1\<rparr>\<rparr>) ex_ob ex_quad ex_obmat
     7 False = (False, ex_sctx\<lparr>ret := (ret ex_sctx)\<lparr>ray_depth_max := 1\<rparr>\<rparr>)"
proof -
  have h: "hit_list (ret ex_sctx) = None" by (simp add: ex_sctx_def)
  have h1: "hit_list (ret (ex_sctx\<lparr>ret := (ret ex_sctx)\<lparr>ray_depth_max := 1\<rparr>\<rparr>)) = None"
    by (simp add: ex_sctx_def)
  have ev: "raycastMesh ex_X ex_sctx ex_ob ex_quad ex_obmat 7 False =
     (True, ex_sctx\<lparr>ret := (ret ex_sctx)\<lparr>ret_loc := (1 / 4, 1 / 4, 0), ret_no := (0, 0, 1),
        ray_depth_max := 5, ret_index := 0\<rparr>\<rparr>)"
    by (simp add: raycastMesh_def raycastMesh_locals_def ex_defs Let_def
        snap_object_data_mesh_get_def mesh_looptri_raycast_backface_culling_cb_def)
  have e: "totpoly ex_empty = 0" by (simp add: ex_empty_def)
  have f: "\<not> fst (raycastMesh ex_X (ex_sctx\<lparr>ret := (ret ex_sctx)\<lparr>ray_depth_max := 1\<rparr>\<rparr>)
      ex_ob ex_quad ex_obmat 7 False)"
    by (simp add: ex_raycastMesh_shallow)
  from raycastMesh_single_hit [OF h1, where me_eval = ex_quad and X = ex_X and ob_eval = ex_ob
      and obmat = ex_obmat and use_hide = False and ob_index = 7] f
  have sh: "raycastMesh ex_X (ex_sctx\<lparr>ret := (ret ex_sctx)\<lparr>ray_depth_max := 1\<rparr>\<rparr>) ex_ob ex_quad
      ex_obmat 7 False = (False, ex_sctx\<lparr>ret := (ret ex_sctx)\<lparr>ray_depth_max := 1\<rparr>\<rparr>)"
    by (simp add: prod_eq_iff)
  from raycastMesh_single_hit [OF h, where me_eval = ex_quad and X = ex_X and ob_eval = ex_ob
      and obmat = ex_obmat and use_hide = False and ob_index = 7] ev
    raycastMesh_single_hit [OF h, where me_eval = ex_empty and X = ex_X and ob_eval = ex_ob
      and obmat = ex_obmat and use_hide = False and ob_index = 7] e
  have "hit_list (ret ex_sctx) = None \<and>
   raycastMesh ex_X ex_sctx ex_ob ex_quad ex_obmat 7 False =
     (True, ex_sctx\<lparr>ret := (ret ex_sctx)\<lparr>ret_loc := (1 / 4, 1 / 4, 0), ret_no := (0, 0, 1),
        ray_depth_max := 5, ret_index := 0\<rparr>\<rparr>) \<and>
   ray_depth_max (ret (snd (raycastMesh ex_X ex_sctx ex_ob ex_quad ex_obmat 7 False)))
     \<le> ray_depth_max (ret ex_sctx) \<and>
   raycastMesh ex_X ex_sctx ex_ob ex_empty ex_obmat 7 False = (False, ex_sctx)"
    using h by simp
  with sh show ?thesis by blast
qed

section \<open>The stages of \<^verbatim>\<open>snap_object_mesh\<close>\<close>

text \<open>
  Claim C3. \<^verbatim>\<open>snap_object_mesh\<close> tries \<^verbatim>\<open>snapMesh\<close>, \<^verbatim>\<open>raycastMesh\<close> and
  \<^verbatim>\<open>nearest_world_mesh\<close> in this order, each at most once. It calls \<^verbatim>\<open>snapMesh\<close>
  exactly when an edge or vertex mode is requested and supported, \<^verbatim>\<open>raycastMesh\<close>
  exactly when the face mode is and \<^verbatim>\<open>snapMesh\<close> has not succeeded, and
  \<^verbatim>\<open>nearest_world_mesh\<close> exactly when the nearest-surface mode is and neither of the
  two has succeeded. The outcome recorded for a call is what that function returns on
  the context it is given. Every call but the last made has failed; the value returned
  is \<^verbatim>\<open>SCE_SNAP_TO_NONE\<close> exactly when every call made has failed, and otherwise it
  comes from the last call, which succeeded: the element \<^verbatim>\<open>snapMesh\<close> returned (a
  vertex or an edge), \<^verbatim>\<open>SCE_SNAP_TO_FACE\<close> for \<^verbatim>\<open>raycastMesh\<close>,
  \<^verbatim>\<open>SCE_SNAP_INDIVIDUAL_NEAREST\<close> for \<^verbatim>\<open>nearest_world_mesh\<close>. The context returned is
  the one left by the last of \<^verbatim>\<open>raycastMesh\<close> and \<^verbatim>\<open>nearest_world_mesh\<close> called, and
  the context received when neither is called. The value returned is always one of the
  five named.
\<close>

theorem snap_object_mesh_fallback_order:
  fixes X :: "('f::{ord,zero,plus,minus,times,inverse}) ext"
    and sctx ob_eval me_eval obmat flags use_hide
  defines "used \<equiv> flags \<inter> mesh_snap_mode_supported me_eval"
  defines "e \<equiv> fst (snapMesh X sctx ob_eval me_eval obmat use_hide)"
  defines "r2 \<equiv> raycastMesh X
                 (sctx\<lparr>runtime := (runtime sctx)
                    \<lparr>object_index := object_index (runtime sctx) + 1\<rparr>\<rparr>)
                 ob_eval me_eval obmat (object_index (runtime sctx)) use_hide"
  defines "r3 \<equiv> (\<lambda>s. nearest_world_mesh X s me_eval obmat use_hide)"
  shows
  "case snap_object_mesh_calls X sctx ob_eval me_eval obmat flags use_hide of
     (elem, sctx', calls) \<Rightarrow>
       snap_object_mesh X sctx ob_eval me_eval obmat flags use_hide = (elem, sctx') \<and>
       subseq (map fst calls) [SnapMesh, RaycastMesh, NearestWorldMesh] \<and>
       (SnapMesh \<in> fst ` set calls \<longleftrightarrow>
          used \<inter> (SCE_SNAP_TO_EDGE \<union> SCE_SNAP_TO_EDGE_MIDPOINT \<union>
                  SCE_SNAP_TO_EDGE_PERPENDICULAR \<union> SCE_SNAP_TO_VERTEX) \<noteq> {}) \<and>
       (RaycastMesh \<in> fst ` set calls \<longleftrightarrow>
          used \<inter> SCE_SNAP_TO_FACE \<noteq> {} \<and> (SnapMesh, True) \<notin> set calls) \<and>
       (NearestWorldMesh \<in> fst ` set calls \<longleftrightarrow>
          used \<inter> SCE_SNAP_INDIVIDUAL_NEAREST \<noteq> {} \<and>
          (SnapMesh, True) \<notin> set calls \<and> (RaycastMesh, True) \<notin> set calls) \<and>
       (\<forall>b. (SnapMesh, b) \<in> set calls \<longrightarrow> b = (e \<noteq> SCE_SNAP_TO_NONE)) \<and>
       (\<forall>b. (RaycastMesh, b) \<in> set calls \<longrightarrow> b = fst r2) \<and>
       (\<forall>b. (NearestWorldMesh, b) \<in> set calls \<longrightarrow>
          b = fst (r3 (if RaycastMesh \<in> fst ` set calls then snd r2 else sctx))) \<and>
       (\<forall>c \<in> set (butlast calls). \<not> snd c) \<and>
       (elem = SCE_SNAP_TO_NONE \<longleftrightarrow> (\<forall>c \<in> set calls. \<not> snd c)) \<and>
       (elem \<noteq> SCE_SNAP_TO_NONE \<longrightarrow>
          calls \<noteq> [] \<and> snd (last calls) \<and>
          (case fst (last calls) of
             SnapMesh \<Rightarrow>
               elem = e \<and> (elem = SCE_SNAP_TO_VERTEX \<or> elem = SCE_SNAP_TO_EDGE)
           | RaycastMesh \<Rightarrow> elem = SCE_SNAP_TO_FACE
           | NearestWorldMesh \<Rightarrow> elem = SCE_SNAP_INDIVIDUAL_NEAREST)) \<and>
       sctx' =
         (if NearestWorldMesh \<in> fst ` set calls
          then snd (r3 (if RaycastMesh \<in> fst ` set calls then snd r2 else sctx))
          else if RaycastMesh \<in> fst ` set calls then snd r2 else sctx) \<and>
       (elem = SCE_SNAP_TO_VERTEX \<or> elem = SCE_SNAP_TO_EDGE \<or> elem = SCE_SNAP_TO_FACE \<or>
        elem = SCE_SNAP_INDIVIDUAL_NEAREST \<or> elem = SCE_SNAP_TO_NONE)"
proof -
  define c1 where "c1 \<longleftrightarrow> used \<inter> (SCE_SNAP_TO_EDGE \<union> SCE_SNAP_TO_EDGE_MIDPOINT \<union>
                 SCE_SNAP_TO_EDGE_PERPENDICULAR \<union> SCE_SNAP_TO_VERTEX) \<noteq> {}"
  define c2 where "c2 \<longleftrightarrow> used \<inter> SCE_SNAP_TO_FACE \<noteq> {}"
  define c3 where "c3 \<longleftrightarrow> used \<inter> SCE_SNAP_INDIVIDUAL_NEAREST \<noteq> {}"
  have eq: "snap_object_mesh_calls X sctx ob_eval me_eval obmat flags use_hide =
     (if c1 \<and> e \<noteq> {} then (e, sctx, [(SnapMesh, True)])
      else if c2 \<and> fst r2 then
        (SCE_SNAP_TO_FACE, snd r2,
         (if c1 then [(SnapMesh, False)] else []) @ [(RaycastMesh, True)])
      else if c3 \<and> fst (r3 (if c2 then snd r2 else sctx)) then
        (SCE_SNAP_INDIVIDUAL_NEAREST, snd (r3 (if c2 then snd r2 else sctx)),
         (if c1 then [(SnapMesh, False)] else []) @
         (if c2 then [(RaycastMesh, False)] else []) @ [(NearestWorldMesh, True)])
      else
        (SCE_SNAP_TO_NONE,
         (if c3 then snd (r3 (if c2 then snd r2 else sctx))
          else (if c2 then snd r2 else sctx)),
         (if c1 then [(SnapMesh, False)] else []) @
         (if c2 then [(RaycastMesh, False)] else []) @
         (if c3 then [(NearestWorldMesh, False)] else [])))"
    unfolding used_def c1_def c2_def c3_def e_def r2_def r3_def
    by (rule snap_object_mesh_calls_eq)
  have e_range: "e = {} \<or> e = {TO_VERTEX} \<or> e = {TO_EDGE}"
    unfolding e_def
    using snapMesh_elem [of X sctx ob_eval me_eval obmat use_hide]
    by (simp add: snap_mode_defs)
  show ?thesis
    unfolding snap_object_mesh_def eq c1_def [symmetric] c2_def [symmetric] c3_def [symmetric]
    using e_range
    by (cases c1; cases c2; cases c3; cases "fst r2";
        cases "fst (r3 (if c2 then snd r2 else sctx))")
       (auto simp add: snap_mode_defs)
qed

theorem snap_object_mesh_fallback_order_witness:
  "snap_object_mesh_calls ex_X ex_sctx ex_ob ex_quad ex_obmat {TO_VERTEX, TO_FACE} False =
     (SCE_SNAP_TO_VERTEX, ex_sctx, [(SnapMesh, True)]) \<and>
   snap_object_mesh ex_X ex_sctx ex_ob ex_quad ex_obmat {TO_VERTEX, TO_FACE} False =
     (SCE_SNAP_TO_VERTEX, ex_sctx) \<and>
   fst (snapMesh ex_X ex_sctx ex_ob ex_quad ex_obmat False) = SCE_SNAP_TO_VERTEX \<and>
   snap_object_mesh_calls ex_X ex_sctx_near ex_ob ex_quad ex_obmat {TO_VERTEX, TO_FACE} False =
     (SCE_SNAP_TO_FACE,
      ex_sctx_near\<lparr>runtime := (runtime ex_sctx_near)\<lparr>object_index := 8\<rparr>,
        ret := (ret ex_sctx_near)\<lparr>ret_loc := (1 / 4, 1 / 4, 0), ret_no := (0, 0, 1),
          ray_depth_max := 5, ret_index := 0\<rparr>\<rparr>,
      [(SnapMesh, False), (RaycastMesh, True)]) \<and>
   snap_object_mesh ex_X ex_sctx_near ex_ob ex_quad ex_obmat {TO_VERTEX, TO_FACE} False =
     (SCE_SNAP_TO_FACE,
      ex_sctx_near\<lparr>runtime := (runtime ex_sctx_near)\<lparr>object_index := 8\<rparr>,
        ret := (ret ex_sctx_near)\<lparr>ret_loc := (1 / 4, 1 / 4, 0), ret_no := (0, 0, 1),
          ray_depth_max := 5, ret_index := 0\<rparr>\<rparr>) \<and>
   subseq [SnapMesh, RaycastMesh] [SnapMesh, RaycastMesh, NearestWorldMesh] \<and>
   fst (snapMesh ex_X ex_sctx_near ex_ob ex_quad ex_obmat False) = SCE_SNAP_TO_NONE \<and>
   fst (raycastMesh ex_X
     (ex_sctx_near\<lparr>runtime := (runtime ex_sctx_near)
        \<lparr>object_index := object_index (runtime ex_sctx_near) + 1\<rparr>\<rparr>)
     ex_ob ex_quad ex_obmat (object_index (runtime ex_sctx_near)) False) \<and>
   snap_object_mesh_calls ex_X ex_sctx_far ex_ob ex_quad ex_obmat
     {TO_VERTEX, TO_FACE, INDIVIDUAL_NEAREST} False =
     (SCE_SNAP_INDIVIDUAL_NEAREST,
      ex_sctx_far\<lparr>runtime := (runtime ex_sctx_far)\<lparr>object_index := 8\<rparr>,
        ret := (ret ex_sctx_far)\<lparr>ret_index := 0\<rparr>\<rparr>,
      [(SnapMesh, False), (RaycastMesh, False), (NearestWorldMesh, True)]) \<and>
   snap_object_mesh ex_X ex_sctx_far ex_ob ex_quad ex_obmat
     {TO_VERTEX, TO_FACE, INDIVIDUAL_NEAREST} False =
     (SCE_SNAP_INDIVIDUAL_NEAREST,
      ex_sctx_far\<lparr>runtime := (runtime ex_sctx_far)\<lparr>object_index := 8\<rparr>,
        ret := (ret ex_sctx_far)\<lparr>ret_index := 0\<rparr>\<rparr>) \<and>
   fst (snapMesh ex_X ex_sctx_far ex_ob ex_quad ex_obmat False) = SCE_SNAP_TO_NONE \<and>
   \<not> fst (raycastMesh ex_X
     (ex_sctx_far\<lparr>runtime := (runtime ex_sctx_far)
        \<lparr>object_index := object_index (runtime ex_sctx_far) + 1\<rparr>\<rparr>)
     ex_ob ex_quad ex_obmat (object_index (runtime ex_sctx_far)) False)"
proof -
  note m = ex_snapMesh_vertex
  note ev = ex_calls_vertex
  note A = snap_object_mesh_fallback_order
         [where X = ex_X and sctx = ex_sctx and ob_eval = ex_ob and me_eval = ex_quad
          and obmat = ex_obmat and flags = "{TO_VERTEX, TO_FACE}" and use_hide = False,
          unfolded ev, simplified]
  note B = snap_object_mesh_fallback_order
         [where X = ex_X and sctx = ex_sctx_near and ob_eval = ex_ob and me_eval = ex_quad
          and obmat = ex_obmat and flags = "{TO_VERTEX, TO_FACE}" and use_hide = False,
          unfolded ex_calls_near, simplified]
  note F = snap_object_mesh_fallback_order
         [where X = ex_X and sctx = ex_sctx_far and ob_eval = ex_ob and me_eval = ex_quad
          and obmat = ex_obmat and flags = "{TO_VERTEX, TO_FACE, INDIVIDUAL_NEAREST}"
          and use_hide = False,
          unfolded ex_calls_far, simplified]
  from A have a: "snap_object_mesh ex_X ex_sctx ex_ob ex_quad ex_obmat {TO_VERTEX, TO_FACE} False =
     (SCE_SNAP_TO_VERTEX, ex_sctx)"
    by blast
  from B have b: "snap_object_mesh ex_X ex_sctx_near ex_ob ex_quad ex_obmat {TO_VERTEX, TO_FACE}
      False =
     (SCE_SNAP_TO_FACE,
      ex_sctx_near\<lparr>runtime := (runtime ex_sctx_near)\<lparr>object_index := 8\<rparr>,
        ret := (ret ex_sctx_near)\<lparr>ret_loc := (1 / 4, 1 / 4, 0), ret_no := (0, 0, 1),
          ray_depth_max := 5, ret_index := 0\<rparr>\<rparr>)"
    and sq: "subseq [SnapMesh, RaycastMesh] [SnapMesh, RaycastMesh, NearestWorldMesh]"
    and f: "fst (raycastMesh ex_X
     (ex_sctx_near\<lparr>runtime := (runtime ex_sctx_near)
        \<lparr>object_index := object_index (runtime ex_sctx_near) + 1\<rparr>\<rparr>)
     ex_ob ex_quad ex_obmat (object_index (runtime ex_sctx_near)) False)"
    by blast+
  from F have fa: "snap_object_mesh ex_X ex_sctx_far ex_ob ex_quad ex_obmat
     {TO_VERTEX, TO_FACE, INDIVIDUAL_NEAREST} False =
     (SCE_SNAP_INDIVIDUAL_NEAREST,
      ex_sctx_far\<lparr>runtime := (runtime ex_sctx_far)\<lparr>object_index := 8\<rparr>,
        ret := (ret ex_sctx_far)\<lparr>ret_index := 0\<rparr>\<rparr>)"
    and fs: "fst (snapMesh ex_X ex_sctx_far ex_ob ex_quad ex_obmat False) = SCE_SNAP_TO_NONE"
    and fr: "\<not> fst (raycastMesh ex_X
     (ex_sctx_far\<lparr>runtime := (runtime ex_sctx_far)
        \<lparr>object_index := object_index (runtime ex_sctx_far) + 1\<rparr>\<rparr>)
     ex_ob ex_quad ex_obmat (object_index (runtime ex_sctx_far)) False)"
    by blast+
  from ev a m ex_calls_near b sq ex_snapMesh_near f ex_calls_far fa fs fr
  show ?thesis by (intro conjI)
qed

text \<open>
  Claim C4, as the code has it. For a mesh whose three counts are not negative, the
  supported modes contain the two face modes exactly when \<^verbatim>\<open>totpoly > 0\<close>, the three
  edge modes exactly when \<^verbatim>\<open>totedge > 0\<close>, and the vertex mode exactly when
  \<^verbatim>\<open>totvert > 0\<close>. \<^verbatim>\<open>snap_object_mesh\<close> calls \<^verbatim>\<open>snapMesh\<close> only when an edge or vertex
  mode is both requested by its argument and supported, \<^verbatim>\<open>raycastMesh\<close> only when the
  face mode is, and \<^verbatim>\<open>nearest_world_mesh\<close> only when the nearest-surface mode is; when
  no requested mode is supported it returns \<^verbatim>\<open>SCE_SNAP_TO_NONE\<close> and the context as it
  was. Inside \<^verbatim>\<open>snapMesh\<close> the choice between edges and vertices follows
  \<^verbatim>\<open>sctx->runtime.snap_to_flag\<close>, not the argument: without the edge mode there,
  \<^verbatim>\<open>cb_snap_edge\<close> has no part in the result; with the edge mode and without the vertex
  mode there, \<^verbatim>\<open>cb_snap_vert\<close> has none; an edge is returned only with the edge mode
  there, a vertex only with the vertex mode or without the edge mode there. Hence the
  value returned is among the modes requested and supported whenever the vertex and
  edge modes of \<^verbatim>\<open>sctx->runtime.snap_to_flag\<close> are, and one of them is set.
\<close>

theorem snap_modes_supported_and_attempted:
  fixes X :: "('f::{ord,zero,plus,minus,times,inverse}) ext"
  assumes "0 \<le> totpoly me_eval" and "0 \<le> totedge me_eval" and "0 \<le> totvert me_eval"
  shows
    "(SCE_SNAP_TO_FACE \<subseteq> mesh_snap_mode_supported me_eval \<longleftrightarrow> 0 < totpoly me_eval) \<and>
     (SCE_SNAP_INDIVIDUAL_NEAREST \<subseteq> mesh_snap_mode_supported me_eval
        \<longleftrightarrow> 0 < totpoly me_eval) \<and>
     (SCE_SNAP_TO_EDGE \<subseteq> mesh_snap_mode_supported me_eval \<longleftrightarrow> 0 < totedge me_eval) \<and>
     (SCE_SNAP_TO_EDGE_MIDPOINT \<subseteq> mesh_snap_mode_supported me_eval
        \<longleftrightarrow> 0 < totedge me_eval) \<and>
     (SCE_SNAP_TO_EDGE_PERPENDICULAR \<subseteq> mesh_snap_mode_supported me_eval
        \<longleftrightarrow> 0 < totedge me_eval) \<and>
     (SCE_SNAP_TO_VERTEX \<subseteq> mesh_snap_mode_supported me_eval \<longleftrightarrow> 0 < totvert me_eval) \<and>
     (case snap_object_mesh_calls X sctx ob_eval me_eval obmat flags use_hide of
        (elem, sctx', calls) \<Rightarrow>
          (SnapMesh \<in> fst ` set calls \<longrightarrow>
             flags \<inter> mesh_snap_mode_supported me_eval \<inter>
               (SCE_SNAP_TO_EDGE \<union> SCE_SNAP_TO_EDGE_MIDPOINT \<union>
                SCE_SNAP_TO_EDGE_PERPENDICULAR \<union> SCE_SNAP_TO_VERTEX) \<noteq> {}) \<and>
          (RaycastMesh \<in> fst ` set calls \<longrightarrow>
             SCE_SNAP_TO_FACE \<subseteq> flags \<inter> mesh_snap_mode_supported me_eval) \<and>
          (NearestWorldMesh \<in> fst ` set calls \<longrightarrow>
             SCE_SNAP_INDIVIDUAL_NEAREST \<subseteq> flags \<inter> mesh_snap_mode_supported me_eval)) \<and>
     (flags \<inter> mesh_snap_mode_supported me_eval = {} \<longrightarrow>
        snap_object_mesh X sctx ob_eval me_eval obmat flags use_hide =
          (SCE_SNAP_TO_NONE, sctx)) \<and>
     (TO_EDGE \<notin> snap_to_flag (runtime sctx) \<longrightarrow>
        snapMesh (X\<lparr>cb_snap_edge := g\<rparr>) sctx ob_eval me_eval obmat use_hide =
        snapMesh X sctx ob_eval me_eval obmat use_hide) \<and>
     (TO_EDGE \<in> snap_to_flag (runtime sctx) \<and> TO_VERTEX \<notin> snap_to_flag (runtime sctx) \<longrightarrow>
        snapMesh (X\<lparr>cb_snap_vert := g\<rparr>) sctx ob_eval me_eval obmat use_hide =
        snapMesh X sctx ob_eval me_eval obmat use_hide) \<and>
     (fst (snap_object_mesh X sctx ob_eval me_eval obmat flags use_hide) = SCE_SNAP_TO_EDGE \<longrightarrow>
        TO_EDGE \<in> snap_to_flag (runtime sctx)) \<and>
     (fst (snap_object_mesh X sctx ob_eval me_eval obmat flags use_hide) = SCE_SNAP_TO_VERTEX \<longrightarrow>
        TO_VERTEX \<in> snap_to_flag (runtime sctx) \<or> TO_EDGE \<notin> snap_to_flag (runtime sctx)) \<and>
     (snap_to_flag (runtime sctx) \<inter> (SCE_SNAP_TO_VERTEX \<union> SCE_SNAP_TO_EDGE) \<noteq> {} \<and>
      snap_to_flag (runtime sctx) \<inter> (SCE_SNAP_TO_VERTEX \<union> SCE_SNAP_TO_EDGE)
        \<subseteq> flags \<inter> mesh_snap_mode_supported me_eval \<longrightarrow>
        fst (snap_object_mesh X sctx ob_eval me_eval obmat flags use_hide)
          \<subseteq> flags \<inter> mesh_snap_mode_supported me_eval)"
proof -
  have supp:
    "(SCE_SNAP_TO_FACE \<subseteq> mesh_snap_mode_supported me_eval \<longleftrightarrow> 0 < totpoly me_eval) \<and>
     (SCE_SNAP_INDIVIDUAL_NEAREST \<subseteq> mesh_snap_mode_supported me_eval
        \<longleftrightarrow> 0 < totpoly me_eval) \<and>
     (SCE_SNAP_TO_EDGE \<subseteq> mesh_snap_mode_supported me_eval \<longleftrightarrow> 0 < totedge me_eval) \<and>
     (SCE_SNAP_TO_EDGE_MIDPOINT \<subseteq> mesh_snap_mode_supported me_eval
        \<longleftrightarrow> 0 < totedge me_eval) \<and>
     (SCE_SNAP_TO_EDGE_PERPENDICULAR \<subseteq> mesh_snap_mode_supported me_eval
        \<longleftrightarrow> 0 < totedge me_eval) \<and>
     (SCE_SNAP_TO_VERTEX \<subseteq> mesh_snap_mode_supported me_eval \<longleftrightarrow> 0 < totvert me_eval)"
    using assms by (simp add: mesh_snap_mode_supported_eq snap_mode_defs)
  have calls:
    "case snap_object_mesh_calls X sctx ob_eval me_eval obmat flags use_hide of
        (elem, sctx', calls) \<Rightarrow>
          (SnapMesh \<in> fst ` set calls \<longrightarrow>
             flags \<inter> mesh_snap_mode_supported me_eval \<inter>
               (SCE_SNAP_TO_EDGE \<union> SCE_SNAP_TO_EDGE_MIDPOINT \<union>
                SCE_SNAP_TO_EDGE_PERPENDICULAR \<union> SCE_SNAP_TO_VERTEX) \<noteq> {}) \<and>
          (RaycastMesh \<in> fst ` set calls \<longrightarrow>
             SCE_SNAP_TO_FACE \<subseteq> flags \<inter> mesh_snap_mode_supported me_eval) \<and>
          (NearestWorldMesh \<in> fst ` set calls \<longrightarrow>
             SCE_SNAP_INDIVIDUAL_NEAREST \<subseteq> flags \<inter> mesh_snap_mode_supported me_eval)"
    by (simp add: snap_object_mesh_calls_def Let_def case_prod_beta SCE_SNAP_TO_FACE_def
        SCE_SNAP_INDIVIDUAL_NEAREST_def SCE_SNAP_TO_NONE_def)
  have none:
    "flags \<inter> mesh_snap_mode_supported me_eval = {} \<longrightarrow>
        snap_object_mesh X sctx ob_eval me_eval obmat flags use_hide =
          (SCE_SNAP_TO_NONE, sctx)"
    by (simp add: snap_object_mesh_def snap_object_mesh_calls_def Let_def case_prod_beta
        SCE_SNAP_TO_NONE_def Int_assoc)
  have no_edges:
    "TO_EDGE \<notin> snap_to_flag (runtime sctx) \<longrightarrow>
        snapMesh (X\<lparr>cb_snap_edge := g\<rparr>) sctx ob_eval me_eval obmat use_hide =
        snapMesh X sctx ob_eval me_eval obmat use_hide"
    by (simp add: snapMesh_without_edges)
  have no_verts:
    "TO_EDGE \<in> snap_to_flag (runtime sctx) \<and> TO_VERTEX \<notin> snap_to_flag (runtime sctx) \<longrightarrow>
        snapMesh (X\<lparr>cb_snap_vert := g\<rparr>) sctx ob_eval me_eval obmat use_hide =
        snapMesh X sctx ob_eval me_eval obmat use_hide"
    by (simp add: snapMesh_without_verts)
  note cases = snap_object_mesh_elem_cases [of X sctx ob_eval me_eval obmat flags use_hide]
  note flag = snapMesh_elem_flag [of X sctx ob_eval me_eval obmat use_hide]
  have edge:
    "fst (snap_object_mesh X sctx ob_eval me_eval obmat flags use_hide) = SCE_SNAP_TO_EDGE \<longrightarrow>
        TO_EDGE \<in> snap_to_flag (runtime sctx)"
    using cases flag by (auto simp add: snap_mode_defs)
  have vert:
    "fst (snap_object_mesh X sctx ob_eval me_eval obmat flags use_hide) = SCE_SNAP_TO_VERTEX \<longrightarrow>
        TO_VERTEX \<in> snap_to_flag (runtime sctx) \<or> TO_EDGE \<notin> snap_to_flag (runtime sctx)"
    using cases flag by (auto simp add: snap_mode_defs)
  have within:
    "snap_to_flag (runtime sctx) \<inter> (SCE_SNAP_TO_VERTEX \<union> SCE_SNAP_TO_EDGE) \<noteq> {} \<and>
      snap_to_flag (runtime sctx) \<inter> (SCE_SNAP_TO_VERTEX \<union> SCE_SNAP_TO_EDGE)
        \<subseteq> flags \<inter> mesh_snap_mode_supported me_eval \<longrightarrow>
        fst (snap_object_mesh X sctx ob_eval me_eval obmat flags use_hide)
          \<subseteq> flags \<inter> mesh_snap_mode_supported me_eval"
    using cases flag snapMesh_elem [of X sctx ob_eval me_eval obmat use_hide]
    by (auto simp add: snap_mode_defs)
  from supp calls none no_edges no_verts edge vert within show ?thesis
    by (simp only: simp_thms)
qed

theorem snap_modes_supported_and_attempted_witness:
  "0 \<le> totpoly ex_quad \<and> 0 \<le> totedge ex_quad \<and> 0 \<le> totvert ex_quad \<and>
   SCE_SNAP_TO_FACE \<subseteq> mesh_snap_mode_supported ex_quad \<and>
   SCE_SNAP_TO_EDGE \<subseteq> mesh_snap_mode_supported ex_quad \<and>
   SCE_SNAP_TO_VERTEX \<subseteq> mesh_snap_mode_supported ex_quad \<and>
   \<not> SCE_SNAP_TO_FACE \<subseteq> mesh_snap_mode_supported (ex_quad\<lparr>totpoly := 0\<rparr>) \<and>
   {TO_GRID} \<inter> mesh_snap_mode_supported ex_quad = {} \<and>
   snap_object_mesh ex_X ex_sctx ex_ob ex_quad ex_obmat {TO_GRID} False =
     (SCE_SNAP_TO_NONE, ex_sctx) \<and>
   fst ` set (snd (snd (snap_object_mesh_calls ex_X ex_sctx_near ex_ob ex_quad ex_obmat
      {TO_VERTEX, TO_FACE} False))) = {SnapMesh, RaycastMesh} \<and>
   SCE_SNAP_TO_FACE \<subseteq> {TO_VERTEX, TO_FACE} \<inter> mesh_snap_mode_supported ex_quad \<and>
   {TO_VERTEX, TO_FACE} \<inter> mesh_snap_mode_supported ex_quad \<inter>
     (SCE_SNAP_TO_EDGE \<union> SCE_SNAP_TO_EDGE_MIDPOINT \<union> SCE_SNAP_TO_EDGE_PERPENDICULAR \<union>
      SCE_SNAP_TO_VERTEX) \<noteq> {} \<and>
   TO_EDGE \<notin> snap_to_flag (runtime ex_sctx) \<and>
   snapMesh (ex_X\<lparr>cb_snap_edge := (\<lambda>data index precalc clip_plane nearest. nearest)\<rparr>)
       ex_sctx ex_ob ex_quad ex_obmat False =
     snapMesh ex_X ex_sctx ex_ob ex_quad ex_obmat False \<and>
   TO_EDGE \<in> snap_to_flag (runtime ex_sctx_edge) \<and>
   TO_VERTEX \<notin> snap_to_flag (runtime ex_sctx_edge) \<and>
   snapMesh (ex_X\<lparr>cb_snap_vert := (\<lambda>data index precalc clip_plane nearest. nearest)\<rparr>)
       ex_sctx_edge ex_ob ex_quad ex_obmat False =
     snapMesh ex_X ex_sctx_edge ex_ob ex_quad ex_obmat False \<and>
   fst (snap_object_mesh ex_X ex_sctx_edge ex_ob ex_quad ex_obmat SCE_SNAP_TO_EDGE False) =
     SCE_SNAP_TO_EDGE \<and>
   fst (snap_object_mesh ex_X ex_sctx ex_ob ex_quad ex_obmat {TO_VERTEX, TO_FACE} False) =
     SCE_SNAP_TO_VERTEX \<and>
   TO_VERTEX \<in> snap_to_flag (runtime ex_sctx) \<and>
   snap_to_flag (runtime ex_sctx) \<inter> (SCE_SNAP_TO_VERTEX \<union> SCE_SNAP_TO_EDGE) \<noteq> {} \<and>
   snap_to_flag (runtime ex_sctx) \<inter> (SCE_SNAP_TO_VERTEX \<union> SCE_SNAP_TO_EDGE)
     \<subseteq> {TO_VERTEX, TO_FACE} \<inter> mesh_snap_mode_supported ex_quad \<and>
   fst (snap_object_mesh ex_X ex_sctx ex_ob ex_quad ex_obmat {TO_VERTEX, TO_FACE} False)
     \<subseteq> {TO_VERTEX, TO_FACE} \<inter> mesh_snap_mode_supported ex_quad"
proof -
  have h: "0 \<le> totpoly ex_quad" "0 \<le> totedge ex_quad" "0 \<le> totvert ex_quad"
    by (simp_all add: ex_quad_def)
  have h': "0 \<le> totpoly (ex_quad\<lparr>totpoly := 0\<rparr>)" "0 \<le> totedge (ex_quad\<lparr>totpoly := 0\<rparr>)"
    "0 \<le> totvert (ex_quad\<lparr>totpoly := 0\<rparr>)"
    by (simp_all add: ex_quad_def)
  have p: "0 < totpoly ex_quad" "0 < totedge ex_quad" "0 < totvert ex_quad"
    "\<not> 0 < totpoly (ex_quad\<lparr>totpoly := 0\<rparr>)"
    by (simp_all add: ex_quad_def)
  have g: "{TO_GRID} \<inter> mesh_snap_mode_supported ex_quad = {}"
    by (simp add: mesh_snap_mode_supported_eq ex_quad_def)
  have c: "fst ` set (snd (snd (snap_object_mesh_calls ex_X ex_sctx_near ex_ob ex_quad ex_obmat
      {TO_VERTEX, TO_FACE} False))) = {SnapMesh, RaycastMesh}"
    by (simp add: ex_calls_near)
  have f: "TO_EDGE \<notin> snap_to_flag (runtime ex_sctx)" "TO_VERTEX \<in> snap_to_flag (runtime ex_sctx)"
    "TO_EDGE \<in> snap_to_flag (runtime ex_sctx_edge)"
    "TO_VERTEX \<notin> snap_to_flag (runtime ex_sctx_edge)"
    "snap_to_flag (runtime ex_sctx) \<inter> (SCE_SNAP_TO_VERTEX \<union> SCE_SNAP_TO_EDGE) \<noteq> {}"
    "snap_to_flag (runtime ex_sctx) \<inter> (SCE_SNAP_TO_VERTEX \<union> SCE_SNAP_TO_EDGE)
       \<subseteq> {TO_VERTEX, TO_FACE} \<inter> mesh_snap_mode_supported ex_quad"
    by (simp_all add: ex_sctx_def ex_sctx_edge_def snap_mode_defs mesh_snap_mode_supported_eq
        ex_quad_def)
  have e: "fst (snap_object_mesh ex_X ex_sctx_edge ex_ob ex_quad ex_obmat SCE_SNAP_TO_EDGE False)
      = SCE_SNAP_TO_EDGE"
    by (simp add: ex_snap_object_mesh_edge)
  have v: "fst (snap_object_mesh ex_X ex_sctx ex_ob ex_quad ex_obmat {TO_VERTEX, TO_FACE} False)
      = SCE_SNAP_TO_VERTEX"
    by (simp add: snap_object_mesh_def ex_calls_vertex)
  note T1 = snap_modes_supported_and_attempted [OF h, where X = ex_X and sctx = ex_sctx
      and ob_eval = ex_ob and obmat = ex_obmat and flags = "{TO_GRID}" and use_hide = False
      and g = "\<lambda>data index precalc clip_plane nearest. nearest"]
  note T2 = snap_modes_supported_and_attempted [OF h', where X = ex_X and sctx = ex_sctx
      and ob_eval = ex_ob and obmat = ex_obmat and flags = "{TO_GRID}" and use_hide = False
      and g = "\<lambda>data index precalc clip_plane nearest. nearest"]
  note N = snap_modes_supported_and_attempted [OF h, where X = ex_X and sctx = ex_sctx_near
      and ob_eval = ex_ob and obmat = ex_obmat and flags = "{TO_VERTEX, TO_FACE}"
      and use_hide = False
      and g = "\<lambda>data index precalc clip_plane nearest. nearest"]
  note V = snap_modes_supported_and_attempted [OF h, where X = ex_X and sctx = ex_sctx
      and ob_eval = ex_ob and obmat = ex_obmat and flags = "{TO_VERTEX, TO_FACE}"
      and use_hide = False
      and g = "\<lambda>data index precalc clip_plane nearest. nearest"]
  note E = snap_modes_supported_and_attempted [OF h, where X = ex_X and sctx = ex_sctx_edge
      and ob_eval = ex_ob and obmat = ex_obmat and flags = SCE_SNAP_TO_EDGE
      and use_hide = False
      and g = "\<lambda>data index precalc clip_plane nearest. nearest"]
  note sF = T1 [THEN conjunct1, THEN iffD2, OF p(1)]
  note sE = T1 [THEN conjunct2, THEN conjunct2, THEN conjunct1, THEN iffD2, OF p(2)]
  note sV = T1 [THEN conjunct2, THEN conjunct2, THEN conjunct2, THEN conjunct2, THEN conjunct2,
      THEN conjunct1, THEN iffD2, OF p(3)]
  from T2 [THEN conjunct1] p(4)
  have nF: "\<not> SCE_SNAP_TO_FACE \<subseteq> mesh_snap_mode_supported (ex_quad\<lparr>totpoly := 0\<rparr>)"
    by simp
  note none = T1 [THEN conjunct2, THEN conjunct2, THEN conjunct2, THEN conjunct2,
      THEN conjunct2, THEN conjunct2, THEN conjunct2, THEN conjunct1, THEN mp, OF g]
  note gate = N [THEN conjunct2, THEN conjunct2, THEN conjunct2, THEN conjunct2,
      THEN conjunct2, THEN conjunct2, THEN conjunct1, unfolded ex_calls_near, simplified]
  from gate
  have B1: "SCE_SNAP_TO_FACE \<subseteq> {TO_VERTEX, TO_FACE} \<inter> mesh_snap_mode_supported ex_quad"
    by blast
  from gate
  have B2: "{TO_VERTEX, TO_FACE} \<inter> mesh_snap_mode_supported ex_quad \<inter>
     (SCE_SNAP_TO_EDGE \<union> SCE_SNAP_TO_EDGE_MIDPOINT \<union> SCE_SNAP_TO_EDGE_PERPENDICULAR \<union>
      SCE_SNAP_TO_VERTEX) \<noteq> {}"
    by blast
  note C1 = V [THEN conjunct2, THEN conjunct2, THEN conjunct2, THEN conjunct2,
      THEN conjunct2, THEN conjunct2, THEN conjunct2, THEN conjunct2, THEN conjunct1,
      THEN mp, OF f(1)]
  note C2 = E [THEN conjunct2, THEN conjunct2, THEN conjunct2, THEN conjunct2,
      THEN conjunct2, THEN conjunct2, THEN conjunct2, THEN conjunct2, THEN conjunct2,
      THEN conjunct1, THEN mp, OF conjI [OF f(3) f(4)]]
  note C3 = V [THEN conjunct2, THEN conjunct2, THEN conjunct2, THEN conjunct2,
      THEN conjunct2, THEN conjunct2, THEN conjunct2, THEN conjunct2, THEN conjunct2,
      THEN conjunct2, THEN conjunct2, THEN conjunct2, THEN mp, OF conjI [OF f(5) f(6)]]
  from h sF sE sV nF g none c B1 B2 f C1 C2 e v C3 show ?thesis by (intro conjI)
qed

text \<open>
  Claim C4 as stated fails. For the square, with only the vertex mode requested by the
  argument and the edge mode in \<^verbatim>\<open>sctx->runtime.snap_to_flag\<close>, the vertex mode is the
  only mode requested and supported, and \<^verbatim>\<open>snap_object_mesh\<close> returns
  \<^verbatim>\<open>SCE_SNAP_TO_EDGE\<close>.
\<close>

theorem snap_mode_outside_requested_counterexample:
  "SCE_SNAP_TO_VERTEX \<inter> mesh_snap_mode_supported ex_quad = SCE_SNAP_TO_VERTEX \<and>
   snap_to_flag (runtime ex_sctx_edge) = SCE_SNAP_TO_EDGE \<and>
   snap_object_mesh ex_X ex_sctx_edge ex_ob ex_quad ex_obmat SCE_SNAP_TO_VERTEX False =
     (SCE_SNAP_TO_EDGE, ex_sctx_edge) \<and>
   \<not> SCE_SNAP_TO_EDGE \<subseteq> SCE_SNAP_TO_VERTEX \<inter> mesh_snap_mode_supported ex_quad"
  by (simp add: ex_snap_object_mesh_edge)
     (simp add: mesh_snap_mode_supported_eq snap_mode_defs ex_quad_def ex_sctx_edge_def
        ex_sctx_def)

section \<open>The shader node\<close>

text \<open>
  Claim C5. \<^verbatim>\<open>register_node_type_sh_test\<close> appends to the registry one node type,
  named \<^verbatim>\<open>Shader Test\<close>, whose declaration function is \<^verbatim>\<open>node_declare\<close>; run on an
  empty declaration, \<^verbatim>\<open>node_declare\<close> yields exactly four inputs, in this order:
  the colour \<^verbatim>\<open>Color\<close> with default \<open>(0.8, 0.8, 0.8, 1.0)\<close>; the float \<^verbatim>\<open>Roughness\<close>
  with default \<open>0\<close>, minimum \<open>0\<close>, maximum \<open>1\<close> and the factor subtype; the vector
  \<^verbatim>\<open>Normal\<close> with its value hidden; the float \<^verbatim>\<open>Weight\<close> marked unavailable; and
  exactly one output, the shader socket \<^verbatim>\<open>BSDF\<close>.
\<close>

theorem register_node_type_sh_test_declaration:
  "register_node_type_sh_test G registry =
     registry @
       [\<lparr>nt_type = Some SH_NODE_SHADER_TEST, nt_ui_name = ''Shader Test'',
         nt_nclass = Some NODE_CLASS_SHADER, nt_declare = Some node_declare,
         nt_size_preset = Some NODE_SIZE_MIDDLE,
         nt_gpu_fn = Some (node_shader_gpu_shader_test G)\<rparr>] \<and>
   node_declare \<lparr>decl_inputs = [], decl_outputs = []\<rparr> =
     \<lparr>decl_inputs =
        [\<lparr>sd_name = ''Color'', sd_type = decl_Color,
          sd_default_value = Some (ColorValue 0.8 0.8 0.8 1.0), sd_min = None, sd_max = None,
          sd_subtype = None, sd_hide_value = False, sd_unavailable = False\<rparr>,
         \<lparr>sd_name = ''Roughness'', sd_type = decl_Float,
          sd_default_value = Some (FloatValue 0.0), sd_min = Some 0.0, sd_max = Some 1.0,
          sd_subtype = Some PROP_FACTOR, sd_hide_value = False, sd_unavailable = False\<rparr>,
         \<lparr>sd_name = ''Normal'', sd_type = decl_Vector,
          sd_default_value = None, sd_min = None, sd_max = None,
          sd_subtype = None, sd_hide_value = True, sd_unavailable = False\<rparr>,
         \<lparr>sd_name = ''Weight'', sd_type = decl_Float,
          sd_default_value = None, sd_min = None, sd_max = None,
          sd_subtype = None, sd_hide_value = False, sd_unavailable = True\<rparr>],
      decl_outputs =
        [\<lparr>sd_name = ''BSDF'', sd_type = decl_Shader,
          sd_default_value = None, sd_min = None, sd_max = None,
          sd_subtype = None, sd_hide_value = False, sd_unavailable = False\<rparr>]\<rparr>"
  by (simp add: register_node_type_sh_test_def zeroed_bNodeType_def sh_node_type_base_def
      node_type_size_preset_def nodeRegisterType_def node_declare_def add_input_def
      add_output_def new_socket_def default_value_def min_value_def max_value_def
      subtype_def hide_value_def unavailable_def)

text \<open>
  Claim C6. When the \<^verbatim>\<open>Normal\<close> input \<^verbatim>\<open>in[2]\<close> has no link,
  \<^verbatim>\<open>node_shader_gpu_shader_test\<close> has \<^verbatim>\<open>GPU_link\<close> make a \<^verbatim>\<open>world_normals_get\<close>
  link for it; when it has one, the inputs are passed on as they are. In both cases
  the material handed to \<^verbatim>\<open>GPU_stack_link\<close> has had \<^verbatim>\<open>GPU_MATFLAG_DIFFUSE\<close> set, and
  the result is that of \<^verbatim>\<open>GPU_stack_link\<close> for the GPU function
  \<^verbatim>\<open>node_shader_test\<close>.
\<close>

theorem node_shader_gpu_shader_test_links:
  "node_shader_gpu_shader_test G mat node in' out =
     (if gns_link (in' 2) = None then
        GPU_stack_link G
          (GPU_material_flag_set (fst (GPU_link G mat ''world_normals_get''))
             GPU_MATFLAG_DIFFUSE)
          node ''node_shader_test''
          (in'(2 := (in' 2)\<lparr>gns_link := snd (GPU_link G mat ''world_normals_get'')\<rparr>)) out
      else
        GPU_stack_link G (GPU_material_flag_set mat GPU_MATFLAG_DIFFUSE)
          node ''node_shader_test'' in' out) \<and>
   GPU_MATFLAG_DIFFUSE \<in> mat_flag (GPU_material_flag_set m GPU_MATFLAG_DIFFUSE)"
  by (simp add: node_shader_gpu_shader_test_def GPU_material_flag_set_def split: prod.splits)

section \<open>Edges of triangulated faces\<close>

text \<open>
  Claim C10. For a looptri whose three corner edges each join two different
  vertices, \<^verbatim>\<open>get_tri_edges_index\<close> writes for each side the index of the mesh edge
  kept for the side's first corner when the two vertices of that edge are the two
  corner vertices of the side, and \<open>-1\<close> otherwise. \<^verbatim>\<open>cb_snap_tri_edges\<close> calls
  \<^verbatim>\<open>cb_snap_edge\<close> only for such an index that is not \<open>-1\<close>: replacing
  \<^verbatim>\<open>cb_snap_edge\<close> by any function that agrees with it on these indices changes
  nothing, so a side that is no edge of the mesh is never a candidate.
\<close>

theorem tri_edges_only_mesh_edges:
  fixes X :: "'f ext" and data :: "'f Nearest2dUserData_Mesh"
  assumes "\<forall>j<3. fst (edges (n2d_mesh data) (tri_side_edge data index j)) \<noteq>
                 snd (edges (n2d_mesh data) (tri_side_edge data index j))"
  shows
    "(length r_e_index = 3 \<longrightarrow>
        (\<forall>j<3. get_tri_edges_index data index r_e_index ! j =
           (if tri_side_is_mesh_edge data index j then tri_side_edge data index j else - 1))) \<and>
     ((\<forall>j<3. tri_side_is_mesh_edge data index j \<and> tri_side_edge data index j \<noteq> - 1 \<longrightarrow>
          (\<forall>precalc clip_plane nearest.
             g data (tri_side_edge data index j) precalc clip_plane nearest =
             cb_snap_edge X data (tri_side_edge data index j) precalc clip_plane nearest)) \<longrightarrow>
      cb_snap_tri_edges (X\<lparr>cb_snap_edge := g\<rparr>) data index precalc clip_plane nearest =
      cb_snap_tri_edges X data index precalc clip_plane nearest)"
proof (intro conjI impI)
  assume "length r_e_index = 3"
  with assms show "\<forall>j<3. get_tri_edges_index data index r_e_index ! j =
      (if tri_side_is_mesh_edge data index j then tri_side_edge data index j else - 1)"
    by (simp add: get_tri_edges_index_nth)
next
  assume agree: "\<forall>j<3. tri_side_is_mesh_edge data index j \<and> tri_side_edge data index j \<noteq> - 1 \<longrightarrow>
          (\<forall>precalc clip_plane nearest.
             g data (tri_side_edge data index j) precalc clip_plane nearest =
             cb_snap_edge X data (tri_side_edge data index j) precalc clip_plane nearest)"
  let ?eindex = "get_tri_edges_index data index [0, 0, 0]"
  have entries: "\<forall>j<3. ?eindex ! j =
      (if tri_side_is_mesh_edge data index j then tri_side_edge data index j else - 1)"
    using assms by (simp add: get_tri_edges_index_nth)
  have "\<forall>i<3. ?eindex ! i \<noteq> - 1 \<longrightarrow>
      (\<forall>nr. g data (?eindex ! i) precalc clip_plane nr =
            cb_snap_edge X data (?eindex ! i) precalc clip_plane nr)"
  proof (intro allI impI)
    fix i nr
    assume i: "i < 3" and ne: "?eindex ! i \<noteq> - 1"
    from entries i have e: "?eindex ! i =
      (if tri_side_is_mesh_edge data index i then tri_side_edge data index i else - 1)"
      by simp
    with ne have real: "tri_side_is_mesh_edge data index i"
      and eq: "?eindex ! i = tri_side_edge data index i"
      by (auto split: if_splits)
    from ne eq have "tri_side_edge data index i \<noteq> - 1" by simp
    with agree i real show "g data (?eindex ! i) precalc clip_plane nr =
            cb_snap_edge X data (?eindex ! i) precalc clip_plane nr"
      unfolding eq by blast
  qed
  then have "cb_snap_tri_edges_loop (\<lambda>e. g data e precalc clip_plane) ?eindex 3 nearest =
      cb_snap_tri_edges_loop (\<lambda>e. cb_snap_edge X data e precalc clip_plane) ?eindex 3 nearest"
    by (intro cb_snap_tri_edges_loop_cong) simp
  then show "cb_snap_tri_edges (X\<lparr>cb_snap_edge := g\<rparr>) data index precalc clip_plane nearest =
      cb_snap_tri_edges X data index precalc clip_plane nearest"
    by (simp add: cb_snap_tri_edges_def tri_backface_culled_def Let_def)
qed


theorem tri_edges_only_mesh_edges_witness:
  "fst (edges (n2d_mesh ex_nearest2d) (tri_side_edge ex_nearest2d 0 0)) \<noteq>
     snd (edges (n2d_mesh ex_nearest2d) (tri_side_edge ex_nearest2d 0 0)) \<and>
   fst (edges (n2d_mesh ex_nearest2d) (tri_side_edge ex_nearest2d 0 1)) \<noteq>
     snd (edges (n2d_mesh ex_nearest2d) (tri_side_edge ex_nearest2d 0 1)) \<and>
   fst (edges (n2d_mesh ex_nearest2d) (tri_side_edge ex_nearest2d 0 2)) \<noteq>
     snd (edges (n2d_mesh ex_nearest2d) (tri_side_edge ex_nearest2d 0 2)) \<and>
   tri_side_is_mesh_edge ex_nearest2d 0 0 \<and> tri_side_is_mesh_edge ex_nearest2d 0 1 \<and>
   \<not> tri_side_is_mesh_edge ex_nearest2d 0 2 \<and>
   get_tri_edges_index ex_nearest2d 0 [0, 0, 0] ! 0 = 0 \<and>
   get_tri_edges_index ex_nearest2d 0 [0, 0, 0] ! 1 = 1 \<and>
   get_tri_edges_index ex_nearest2d 0 [0, 0, 0] ! 2 = - 1 \<and>
   cb_snap_tri_edges
     (ex_X\<lparr>cb_snap_edge :=
        (\<lambda>data e precalc clip_plane nearest.
           if e = 0 \<or> e = 1 then cb_snap_edge ex_X data e precalc clip_plane nearest
           else nearest\<lparr>nearest_index := 99, nearest_dist_sq := 0\<rparr>)\<rparr>)
     ex_nearest2d 0 ex_precalc [] ex_nearest =
   cb_snap_tri_edges ex_X ex_nearest2d 0 ex_precalc [] ex_nearest"
proof -
  have s: "tri_side_edge ex_nearest2d 0 0 = 0" "tri_side_edge ex_nearest2d 0 1 = 1"
    "tri_side_edge ex_nearest2d 0 2 = 2"
    by (simp_all add: tri_side_edge_def ex_nearest2d_eq ex_quad_def)
  have d: "\<forall>j<3. fst (edges (n2d_mesh ex_nearest2d) (tri_side_edge ex_nearest2d 0 j)) \<noteq>
                 snd (edges (n2d_mesh ex_nearest2d) (tri_side_edge ex_nearest2d 0 j))"
    by (simp add: tri_side_edge_def ex_nearest2d_eq ex_quad_def)
  have m: "tri_side_is_mesh_edge ex_nearest2d 0 0" "tri_side_is_mesh_edge ex_nearest2d 0 1"
    "\<not> tri_side_is_mesh_edge ex_nearest2d 0 2"
    by (simp_all add: tri_side_is_mesh_edge_def tri_side_edge_def ex_nearest2d_eq ex_quad_def
        doubleton_eq_iff)
  have l: "length [0, 0, 0 :: int] = 3" by simp
  note T = tri_edges_only_mesh_edges [OF d, where r_e_index = "[0, 0, 0]" and X = ex_X
      and g = "\<lambda>data e precalc clip_plane nearest.
           if e = 0 \<or> e = 1 then cb_snap_edge ex_X data e precalc clip_plane nearest
           else nearest\<lparr>nearest_index := 99, nearest_dist_sq := 0\<rparr>"
      and precalc = ex_precalc and clip_plane = "[]" and nearest = ex_nearest]
  from T l have nth: "\<And>j. j < 3 \<Longrightarrow> get_tri_edges_index ex_nearest2d 0 [0, 0, 0] ! j =
      (if tri_side_is_mesh_edge ex_nearest2d 0 j then tri_side_edge ex_nearest2d 0 j else - 1)"
    by blast
  have n: "get_tri_edges_index ex_nearest2d 0 [0, 0, 0] ! 0 = 0"
    "get_tri_edges_index ex_nearest2d 0 [0, 0, 0] ! 1 = 1"
    "get_tri_edges_index ex_nearest2d 0 [0, 0, 0] ! 2 = - 1"
    using nth [of 0] nth [of 1] nth [of 2] s m by simp_all
  have agree: "\<forall>j<3. tri_side_is_mesh_edge ex_nearest2d 0 j \<and>
        tri_side_edge ex_nearest2d 0 j \<noteq> - 1 \<longrightarrow>
      (\<forall>precalc clip_plane nearest.
         (if tri_side_edge ex_nearest2d 0 j = 0 \<or> tri_side_edge ex_nearest2d 0 j = 1
          then cb_snap_edge ex_X ex_nearest2d (tri_side_edge ex_nearest2d 0 j) precalc
                 clip_plane nearest
          else nearest\<lparr>nearest_index := 99, nearest_dist_sq := 0\<rparr>) =
         cb_snap_edge ex_X ex_nearest2d (tri_side_edge ex_nearest2d 0 j) precalc clip_plane
           nearest)"
  proof (intro allI impI)
    fix j :: nat and precalc :: "real DistProjectedAABBPrecalc"
      and clip_plane :: "real float4 list" and nearest :: "real BVHTreeNearest"
    assume "j < 3" and r: "tri_side_is_mesh_edge ex_nearest2d 0 j \<and>
        tri_side_edge ex_nearest2d 0 j \<noteq> - 1"
    then consider "j = 0" | "j = 1" | "j = 2" by linarith
    then show "(if tri_side_edge ex_nearest2d 0 j = 0 \<or> tri_side_edge ex_nearest2d 0 j = 1
          then cb_snap_edge ex_X ex_nearest2d (tri_side_edge ex_nearest2d 0 j) precalc
                 clip_plane nearest
          else nearest\<lparr>nearest_index := 99, nearest_dist_sq := 0\<rparr>) =
         cb_snap_edge ex_X ex_nearest2d (tri_side_edge ex_nearest2d 0 j) precalc clip_plane
           nearest"
    proof cases
      case 1
      with s show ?thesis by simp
    next
      case 2
      with s show ?thesis by simp
    next
      case 3
      with r m show ?thesis by simp
    qed
  qed
  from T agree have c: "cb_snap_tri_edges
     (ex_X\<lparr>cb_snap_edge :=
        (\<lambda>data e precalc clip_plane nearest.
           if e = 0 \<or> e = 1 then cb_snap_edge ex_X data e precalc clip_plane nearest
           else nearest\<lparr>nearest_index := 99, nearest_dist_sq := 0\<rparr>)\<rparr>)
     ex_nearest2d 0 ex_precalc [] ex_nearest =
   cb_snap_tri_edges ex_X ex_nearest2d 0 ex_precalc [] ex_nearest"
    by blast
  have d3: "fst (edges (n2d_mesh ex_nearest2d) (tri_side_edge ex_nearest2d 0 0)) \<noteq>
     snd (edges (n2d_mesh ex_nearest2d) (tri_side_edge ex_nearest2d 0 0))"
   "fst (edges (n2d_mesh ex_nearest2d) (tri_side_edge ex_nearest2d 0 1)) \<noteq>
     snd (edges (n2d_mesh ex_nearest2d) (tri_side_edge ex_nearest2d 0 1))"
   "fst (edges (n2d_mesh ex_nearest2d) (tri_side_edge ex_nearest2d 0 2)) \<noteq>
     snd (edges (n2d_mesh ex_nearest2d) (tri_side_edge ex_nearest2d 0 2))"
    using d by simp_all
  from d3 m n c show ?thesis by (intro conjI)
qed

section \<open>Back-face culling\<close>




section \<open>The nearest element found by \<^verbatim>\<open>snapMesh\<close>\<close>

text \<open>
  Claim C1, with \<^verbatim>\<open>cb_snap_vert\<close>, \<^verbatim>\<open>cb_snap_edge\<close> and the projected search as
  modelled above, for distances that are linearly ordered, and when no candidate has
  the index \<open>-1\<close>. The searches of \<^verbatim>\<open>snapMesh\<close> are one run over the candidates
  they come to, started from the index \<open>-1\<close> and the threshold
  \<^verbatim>\<open>sctx->ret.dist_px_sq\<close>; \<^verbatim>\<open>dist_sq\<close> never increases from one candidate to the
  next, so it ends at most at the threshold; the distance of the element found is
  at most that of every candidate tested; the index found is not \<open>-1\<close> exactly when
  a tested candidate lies strictly inside the threshold, and then the element found
  is a tested candidate, stored with its own distance. \<^verbatim>\<open>snapMesh\<close> returns a snap
  element other than \<^verbatim>\<open>SCE_SNAP_TO_NONE\<close> exactly when it does not return before the
  searches and the index found is not \<open>-1\<close>, and it then stores the element found
  in \<^verbatim>\<open>nearest2d.nearest_point\<close>.
\<close>

theorem snapMesh_nearest_is_least_tested:
  fixes X :: "('f::{linorder,zero}) ext" and S :: "'f snap_spec"
    and sctx ob_eval me_eval obmat use_hide
  defines "X' \<equiv> spec_callbacks S X"
  defines "data0 \<equiv> Nearest2dUserData_Mesh_ctor X sctx ob_eval me_eval obmat"
  defines "data \<equiv> clip_planes_enable X data0"
  defines "precalc \<equiv>
    search_precalc S (pmat_local data) (win_size (runtime sctx)) (mval (runtime sctx))"
  defines "n0 \<equiv> \<lparr>nearest_index = - 1, nearest_co = (0, 0, 0), nearest_no = (0, 0, 0),
                   nearest_dist_sq = dist_px_sq (ret sctx)\<rparr>"
  defines "as \<equiv> snapMesh_attempts S X sctx me_eval data use_hide"
  defines "T \<equiv> tested S data precalc (clip_planes data) as n0"
  defines "nearest \<equiv> fst (snapMesh_search X' sctx me_eval data use_hide)"
  assumes no_minus_one:
    "\<forall>dt pc cl. vert_candidate S dt pc cl (- 1) = None \<and> edge_candidate S dt pc cl (- 1) = None"
  shows
    "nearest = run_attempts S sctx data as n0 \<and>
     (\<forall>k. nearest_dist_sq (run_attempts S sctx data (take (Suc k) as) n0)
            \<le> nearest_dist_sq (run_attempts S sctx data (take k as) n0)) \<and>
     nearest_dist_sq nearest \<le> dist_px_sq (ret sctx) \<and>
     (\<forall>kc \<in> set T. \<forall>d. candidate_dist S data precalc (clip_planes data) kc = Some d \<longrightarrow>
        nearest_dist_sq nearest \<le> d) \<and>
     (nearest_index nearest \<noteq> - 1 \<longleftrightarrow>
        (\<exists>kc \<in> set T. \<exists>d. candidate_dist S data precalc (clip_planes data) kc = Some d \<and>
           d < dist_px_sq (ret sctx))) \<and>
     (nearest_index nearest \<noteq> - 1 \<longrightarrow>
        (\<exists>k. (k, nearest_index nearest) \<in> set T \<and>
           candidate_dist S data precalc (clip_planes data) (k, nearest_index nearest) =
             Some (nearest_dist_sq nearest))) \<and>
     (fst (snapMesh X' sctx ob_eval me_eval obmat use_hide) \<noteq> SCE_SNAP_TO_NONE \<longleftrightarrow>
        totvert me_eval \<noteq> 0 \<and>
        \<not> (totedge me_eval = 0 \<and> snap_to_flag (runtime sctx) \<inter> SCE_SNAP_TO_VERTEX = {}) \<and>
        \<not> (ob_data ob_eval = me_addr me_eval \<and>
           \<not> snap_boundbox X data0 (vec (BKE_mesh_boundbox_get X ob_eval) 0)
                (vec (BKE_mesh_boundbox_get X ob_eval) 6)) \<and>
        nearest_index nearest \<noteq> - 1) \<and>
     (fst (snapMesh X' sctx ob_eval me_eval obmat use_hide) \<noteq> SCE_SNAP_TO_NONE \<longrightarrow>
        map_option nearest_point (snd (snapMesh X' sctx ob_eval me_eval obmat use_hide)) =
          Some nearest)"
proof -
  let ?step = "try_attempt S data precalc (clip_planes data)"
  have run: "\<And>xs n. run_attempts S sctx data xs n = fold ?step xs n"
    by (simp add: run_attempts_def precalc_def)
  have ref: "nearest = run_attempts S sctx data as n0"
    unfolding nearest_def X'_def as_def n0_def by (rule snapMesh_search_attempts)
  have mono: "\<forall>k. nearest_dist_sq (run_attempts S sctx data (take (Suc k) as) n0)
            \<le> nearest_dist_sq (run_attempts S sctx data (take k as) n0)"
    unfolding run by (simp add: fold_try_attempt_take_le)
  have "nearest_dist_sq (fold ?step as n0) \<le> nearest_dist_sq n0"
    by (rule fold_try_attempt_le)
  then have le: "nearest_dist_sq nearest \<le> dist_px_sq (ret sctx)"
    by (simp add: ref run n0_def)
  have least: "\<forall>kc \<in> set T. \<forall>d. candidate_dist S data precalc (clip_planes data) kc = Some d \<longrightarrow>
        nearest_dist_sq nearest \<le> d"
    unfolding T_def ref run by (auto intro: tested_min)
  have cand: "\<forall>k. candidate S data precalc (clip_planes data) k (- 1) = None"
    using no_minus_one by (simp add: candidate_def split: cand_kind.split)
  have inv0: "nearest_index n0 = - 1 \<and> nearest_dist_sq n0 = dist_px_sq (ret sctx) \<or>
      nearest_index n0 \<noteq> - 1 \<and> nearest_dist_sq n0 < dist_px_sq (ret sctx)"
    by (simp add: n0_def)
  have inv: "nearest_index nearest = - 1 \<and> nearest_dist_sq nearest = dist_px_sq (ret sctx) \<or>
      nearest_index nearest \<noteq> - 1 \<and> nearest_dist_sq nearest < dist_px_sq (ret sctx)"
    unfolding ref run by (rule fold_try_attempt_inv [OF cand inv0])
  have stored: "nearest_index nearest \<noteq> - 1 \<longrightarrow>
        (\<exists>k. (k, nearest_index nearest) \<in> set T \<and>
           candidate_dist S data precalc (clip_planes data) (k, nearest_index nearest) =
             Some (nearest_dist_sq nearest))"
  proof
    assume ne: "nearest_index nearest \<noteq> - 1"
    from stored_is_tested [of S data precalc "clip_planes data" as n0]
    show "\<exists>k. (k, nearest_index nearest) \<in> set T \<and>
           candidate_dist S data precalc (clip_planes data) (k, nearest_index nearest) =
             Some (nearest_dist_sq nearest)"
      using ne unfolding T_def ref run by (auto simp add: n0_def)
  qed
  have iff: "nearest_index nearest \<noteq> - 1 \<longleftrightarrow>
        (\<exists>kc \<in> set T. \<exists>d. candidate_dist S data precalc (clip_planes data) kc = Some d \<and>
           d < dist_px_sq (ret sctx))"
  proof
    assume ne: "nearest_index nearest \<noteq> - 1"
    with stored obtain k where k: "(k, nearest_index nearest) \<in> set T"
      "candidate_dist S data precalc (clip_planes data) (k, nearest_index nearest) =
             Some (nearest_dist_sq nearest)"
      by blast
    from inv ne have "nearest_dist_sq nearest < dist_px_sq (ret sctx)" by simp
    with k show "\<exists>kc \<in> set T. \<exists>d. candidate_dist S data precalc (clip_planes data) kc = Some d \<and>
           d < dist_px_sq (ret sctx)"
      by blast
  next
    assume "\<exists>kc \<in> set T. \<exists>d. candidate_dist S data precalc (clip_planes data) kc = Some d \<and>
           d < dist_px_sq (ret sctx)"
    then obtain kc d where kc: "kc \<in> set T"
      "candidate_dist S data precalc (clip_planes data) kc = Some d"
      "d < dist_px_sq (ret sctx)"
      by blast
    with least have "nearest_dist_sq nearest \<le> d" by blast
    with kc(3) have "nearest_dist_sq nearest < dist_px_sq (ret sctx)" by simp
    with inv show "nearest_index nearest \<noteq> - 1" by auto
  qed
  have elem: "snd (snapMesh_search X' sctx me_eval data use_hide) \<noteq> SCE_SNAP_TO_NONE"
    using snapMesh_search_elem [of X' sctx me_eval data use_hide]
    by (auto simp add: snap_mode_defs)
  have res: "fst (snapMesh X' sctx ob_eval me_eval obmat use_hide) \<noteq> SCE_SNAP_TO_NONE \<longleftrightarrow>
        totvert me_eval \<noteq> 0 \<and>
        \<not> (totedge me_eval = 0 \<and> snap_to_flag (runtime sctx) \<inter> SCE_SNAP_TO_VERTEX = {}) \<and>
        \<not> (ob_data ob_eval = me_addr me_eval \<and>
           \<not> snap_boundbox X data0 (vec (BKE_mesh_boundbox_get X ob_eval) 0)
                (vec (BKE_mesh_boundbox_get X ob_eval) 6)) \<and>
        nearest_index nearest \<noteq> - 1"
    using elem
    unfolding X'_def snapMesh_spec_result nearest_def data_def data0_def
    by simp
  have pt: "fst (snapMesh X' sctx ob_eval me_eval obmat use_hide) \<noteq> SCE_SNAP_TO_NONE \<longrightarrow>
        map_option nearest_point (snd (snapMesh X' sctx ob_eval me_eval obmat use_hide)) =
          Some nearest"
    unfolding X'_def snapMesh_spec_result nearest_def data_def data0_def
    by (simp add: SCE_SNAP_TO_NONE_def)
  from ref mono le least iff stored res pt show ?thesis by (intro conjI)
qed

theorem snapMesh_nearest_is_least_tested_witness:
  "(\<forall>dt pc cl. vert_candidate ex_S dt pc cl (- 1) = None \<and>
      edge_candidate ex_S dt pc cl (- 1) = None) \<and>
   fst (snapMesh_search (spec_callbacks ex_S ex_X) ex_sctx ex_quad ex_nearest2d False) =
     \<lparr>nearest_index = 1, nearest_co = (1, 0, 0), nearest_no = (0, 0, 1),
      nearest_dist_sq = 1 / 50\<rparr> \<and>
   tested ex_S ex_nearest2d ex_precalc []
     (snapMesh_attempts ex_S ex_X ex_sctx ex_quad ex_nearest2d False) ex_nearest =
     [(Vert, 2), (Vert, 1), (Vert, 0), (Vert, 3), (Vert, 2), (Vert, 0), (Vert, 2), (Vert, 0)] \<and>
   candidate_dist ex_S ex_nearest2d ex_precalc [] (Vert, 1) = Some (1 / 50) \<and>
   1 / 50 < dist_px_sq (ret ex_sctx) \<and>
   fst (snapMesh (spec_callbacks ex_S ex_X) ex_sctx ex_ob ex_quad ex_obmat False)
     \<noteq> SCE_SNAP_TO_NONE \<and>
   map_option nearest_point
     (snd (snapMesh (spec_callbacks ex_S ex_X) ex_sctx ex_ob ex_quad ex_obmat False)) =
     Some \<lparr>nearest_index = 1, nearest_co = (1, 0, 0), nearest_no = (0, 0, 1),
           nearest_dist_sq = 1 / 50\<rparr>"
proof -
  have h: "\<forall>dt pc cl. vert_candidate ex_S dt pc cl (- 1) = None \<and>
      edge_candidate ex_S dt pc cl (- 1) = None"
    by (simp add: ex_S_def)
  have n0: "\<lparr>nearest_index = - 1, nearest_co = (0, 0, 0), nearest_no = (0, 0, 0),
      nearest_dist_sq = dist_px_sq (ret ex_sctx)\<rparr> = ex_nearest"
    by (simp add: ex_nearest_def ex_sctx_def)
  have p: "search_precalc ex_S (pmat_local ex_nearest2d) (win_size (runtime ex_sctx))
      (mval (runtime ex_sctx)) = ex_precalc"
    by (simp add: ex_S_def)
  have cl: "clip_planes ex_nearest2d = []"
    by (simp add: ex_nearest2d_eq)
  have cd: "candidate_dist ex_S ex_nearest2d ex_precalc [] (Vert, 1) = Some (1 / 50)"
    by (simp add: candidate_dist_def ex_S_def ex_nearest2d_eq ex_quad_def ex_dist_sq_def)
  have thr: "1 / 50 < dist_px_sq (ret ex_sctx)"
    by (simp add: ex_sctx_def)
  have early: "totvert ex_quad \<noteq> 0" "totedge ex_quad \<noteq> 0"
    "snap_boundbox ex_X (Nearest2dUserData_Mesh_ctor ex_X ex_sctx ex_ob ex_quad ex_obmat)
       (vec (BKE_mesh_boundbox_get ex_X ex_ob) 0) (vec (BKE_mesh_boundbox_get ex_X ex_ob) 6)"
    by (simp_all add: ex_quad_def ex_X_def)
  note T = snapMesh_nearest_is_least_tested [OF h, where X = ex_X and sctx = ex_sctx
      and ob_eval = ex_ob and me_eval = ex_quad and obmat = ex_obmat and use_hide = False,
      folded ex_nearest2d_def, unfolded n0 p cl ex_attempts ex_tested ex_run]
  from T have s: "fst (snapMesh_search (spec_callbacks ex_S ex_X) ex_sctx ex_quad ex_nearest2d
      False) = \<lparr>nearest_index = 1, nearest_co = (1, 0, 0), nearest_no = (0, 0, 1),
      nearest_dist_sq = 1 / 50\<rparr>"
    by blast
  from T early have r: "fst (snapMesh (spec_callbacks ex_S ex_X) ex_sctx ex_ob ex_quad ex_obmat
      False) \<noteq> SCE_SNAP_TO_NONE"
    unfolding s by simp
  from T r have m: "map_option nearest_point
     (snd (snapMesh (spec_callbacks ex_S ex_X) ex_sctx ex_ob ex_quad ex_obmat False)) =
     Some \<lparr>nearest_index = 1, nearest_co = (1, 0, 0), nearest_no = (0, 0, 1),
           nearest_dist_sq = 1 / 50\<rparr>"
    unfolding s by blast
  have t: "tested ex_S ex_nearest2d ex_precalc []
     (snapMesh_attempts ex_S ex_X ex_sctx ex_quad ex_nearest2d False) ex_nearest =
     [(Vert, 2), (Vert, 1), (Vert, 0), (Vert, 3), (Vert, 2), (Vert, 0), (Vert, 2), (Vert, 0)]"
    by (simp only: ex_attempts ex_tested)
  from h s t cd thr r m show ?thesis by (intro conjI)
qed

end
